theory Spec2Isabelle
  imports Main "HOL-Library.Word"
begin

unbundle bit_operations_syntax

section \<open>Values of the JavaScript sources\<close>

text \<open>
  A \<open>Uint8Array\<close> is a list of 8-bit words. A thrown exception is a value of
  \<open>error\<close> on the left of a sum. A number-valued property that may also hold
  \<open>undefined\<close> or \<open>null\<close> is a \<open>jsnum\<close>: the strict comparison \<open>===\<close> of
  the sources is then the equality of HOL, and \<open>undefined === null\<close> is false.
\<close>

type_synonym byte = "8 word"
type_synonym bytes = "byte list"

datatype error = Error string | UnsupportedError string | TypeError string

text \<open>\<open>err.message\<close>\<close>

fun message :: "error \<Rightarrow> string" where
  "message (Error m) = m"
| "message (UnsupportedError m) = m"
| "message (TypeError m) = m"

datatype jsnum = Undefined | Null | Num nat

text \<open>Truthiness of a number-valued property: \<open>undefined\<close>, \<open>null\<close> and \<open>0\<close> are falsy.\<close>

fun truthy :: "jsnum \<Rightarrow> bool" where
  "truthy Undefined = False"
| "truthy Null = False"
| "truthy (Num n) = (n \<noteq> 0)"

text \<open>\<open>ToInt32\<close> on the operands the bitwise operators of the sources meet.\<close>

fun toInt :: "jsnum \<Rightarrow> nat" where
  "toInt Undefined = 0"
| "toInt Null = 0"
| "toInt (Num n) = n"

text \<open>\<open>bytes[i]\<close>: \<open>undefined\<close> when the index is out of range.\<close>

definition at :: "bytes \<Rightarrow> nat \<Rightarrow> jsnum" where
  "at bs i = (if i < length bs then Num (unat (bs ! i)) else Undefined)"

text \<open>
  \<open>TypedArray.prototype.subarray(begin, end)\<close>: a negative index counts from the end,
  both indices are clamped to the array, and an end before the begin gives the empty
  array.
\<close>

definition relIndex :: "nat \<Rightarrow> int \<Rightarrow> nat" where
  "relIndex len k = (if k < 0 then nat (max (int len + k) 0) else min (nat k) len)"

definition subarray :: "bytes \<Rightarrow> int \<Rightarrow> int \<Rightarrow> bytes" where
  "subarray bs b e =
     (let from = relIndex (length bs) b; to = relIndex (length bs) e
      in take (to - from) (drop from bs))"

definition subarrayFrom :: "bytes \<Rightarrow> int \<Rightarrow> bytes" where
  "subarrayFrom bs b = drop (relIndex (length bs) b) bs"

text \<open>\<open>new Uint8Array([n])\<close> stores \<open>n\<close> modulo 256.\<close>

definition u8 :: "nat \<Rightarrow> byte" where
  "u8 n = of_nat n"

text \<open>\<open>util.encodeUTF8\<close> on the ASCII literals of the sources: one byte per character.\<close>

definition encodeUTF8 :: "string \<Rightarrow> bytes" where
  "encodeUTF8 s = map of_char s"

section \<open>Registered identifiers (enums)\<close>

text \<open>
  Modelled from the spec: the module \<open>enums\<close> is not among the sources. The codes are
  the ones the data model lists (RSA sign+encrypt 1, ECDH 18, EdDSA-legacy 22, X25519 25,
  X448 26, Ed25519 27, Ed448 28, HMAC 101, AEAD 102, ML-KEM+X25519 105, ML-DSA+Ed25519
  107), the others follow RFC 9580, which the spec names for every assignment.
\<close>

definition publicKey_rsaEncryptSign :: nat where "publicKey_rsaEncryptSign = 1"
definition publicKey_rsaEncrypt :: nat where "publicKey_rsaEncrypt = 2"
definition publicKey_rsaSign :: nat where "publicKey_rsaSign = 3"
definition publicKey_elgamal :: nat where "publicKey_elgamal = 16"
definition publicKey_dsa :: nat where "publicKey_dsa = 17"
definition publicKey_ecdh :: nat where "publicKey_ecdh = 18"
definition publicKey_ecdsa :: nat where "publicKey_ecdsa = 19"
definition publicKey_eddsaLegacy :: nat where "publicKey_eddsaLegacy = 22"
definition publicKey_x25519 :: nat where "publicKey_x25519 = 25"
definition publicKey_x448 :: nat where "publicKey_x448 = 26"
definition publicKey_ed25519 :: nat where "publicKey_ed25519 = 27"
definition publicKey_ed448 :: nat where "publicKey_ed448 = 28"
definition publicKey_hmac :: nat where "publicKey_hmac = 101"
definition publicKey_aead :: nat where "publicKey_aead = 102"
definition publicKey_pqc_mlkem_x25519 :: nat where "publicKey_pqc_mlkem_x25519 = 105"
definition publicKey_pqc_mldsa_ed25519 :: nat where "publicKey_pqc_mldsa_ed25519 = 107"

text \<open>Hash algorithms (\<open>enums.hash\<close>) and symmetric ciphers (\<open>enums.symmetric\<close>).\<close>

definition hash_sha1 :: nat where "hash_sha1 = 2"
definition hash_sha256 :: nat where "hash_sha256 = 8"
definition hash_sha384 :: nat where "hash_sha384 = 9"
definition hash_sha512 :: nat where "hash_sha512 = 10"
definition hash_sha224 :: nat where "hash_sha224 = 11"
definition hash_sha3_256 :: nat where "hash_sha3_256 = 12"
definition hash_sha3_512 :: nat where "hash_sha3_512 = 14"

definition symmetric_aes128 :: nat where "symmetric_aes128 = 7"
definition symmetric_aes192 :: nat where "symmetric_aes192 = 8"
definition symmetric_aes256 :: nat where "symmetric_aes256 = 9"

section \<open>Composite KEM: \<open>crypto/public_key/post_quantum/kem/kem.js\<close>\<close>

text \<open>
  The primitives the module imports are parameters: the ECC and ML-KEM encapsulations
  of \<open>ecc_kem\<close> and \<open>ml_kem\<close> (randomised, so a parameter fixes the random choice),
  AES key wrap, and \<open>computeDigest\<close>, whose result type \<open>'k\<close> is left open.
\<close>

record 'k kemPrims =
  eccKem_encaps :: "nat \<Rightarrow> bytes \<Rightarrow> error + (bytes \<times> bytes)"
  mlKem_encaps :: "nat \<Rightarrow> bytes \<Rightarrow> error + (bytes \<times> bytes)"
  eccKem_decaps :: "nat \<Rightarrow> bytes \<Rightarrow> bytes \<Rightarrow> bytes \<Rightarrow> error + bytes"
  mlKem_decaps :: "nat \<Rightarrow> bytes \<Rightarrow> bytes \<Rightarrow> error + bytes"
  aesKW_wrap :: "nat \<Rightarrow> 'k \<Rightarrow> bytes \<Rightarrow> error + bytes"
  aesKW_unwrap :: "nat \<Rightarrow> 'k \<Rightarrow> bytes \<Rightarrow> error + bytes"
  computeDigest :: "nat \<Rightarrow> bytes \<Rightarrow> 'k"

text \<open>\<open>multiKeyCombine(algo, mlkemKeyShare, ecdhKeyShare, ecdhCipherText, ecdhPublicKey)\<close>\<close>

definition multiKeyCombine ::
  "(nat \<Rightarrow> bytes \<Rightarrow> 'k) \<Rightarrow> nat \<Rightarrow> bytes \<Rightarrow> bytes \<Rightarrow> bytes \<Rightarrow> bytes \<Rightarrow> 'k" where
  "multiKeyCombine digest algo mlkemKeyShare ecdhKeyShare ecdhCipherText ecdhPublicKey =
     (let domSep = encodeUTF8 ''OpenPGPCompositeKDFv1'';
          encData = concat [
            mlkemKeyShare,
            ecdhKeyShare,
            ecdhCipherText,
            ecdhPublicKey,
            [u8 algo],
            domSep,
            [u8 (length domSep)]]
      in digest hash_sha3_256 encData)"

text \<open>
  \<open>encrypt(algo, eccPublicKey, mlkemPublicKey, sessioneKeyData)\<close>; an encapsulation
  returns the pair (key share, cipher text).
\<close>

definition kem_encrypt ::
  "'k kemPrims \<Rightarrow> nat \<Rightarrow> bytes \<Rightarrow> bytes \<Rightarrow> bytes \<Rightarrow> error + (bytes \<times> bytes \<times> bytes)" where
  "kem_encrypt P algo eccPublicKey mlkemPublicKey sessioneKeyData =
     (case eccKem_encaps P algo eccPublicKey of
        Inl e \<Rightarrow> Inl e
      | Inr (eccKeyShare, eccCipherText) \<Rightarrow>
     (case mlKem_encaps P algo mlkemPublicKey of
        Inl e \<Rightarrow> Inl e
      | Inr (mlkemKeyShare, mlkemCipherText) \<Rightarrow>
     (let kek = multiKeyCombine (computeDigest P) algo mlkemKeyShare eccKeyShare
                  eccCipherText eccPublicKey
      in case aesKW_wrap P symmetric_aes256 kek sessioneKeyData of
           Inl e \<Rightarrow> Inl e
         | Inr wrappedKey \<Rightarrow> Inr (eccCipherText, mlkemCipherText, wrappedKey))))"

text \<open>
  \<open>decrypt(algo, eccCipherText, mlkemCipherText, eccSecretKey, eccPublicKey,
  mlkemSecretKey, mlkemPublicKey, encryptedSessionKeyData)\<close>
\<close>

definition kem_decrypt ::
  "'k kemPrims \<Rightarrow> nat \<Rightarrow> bytes \<Rightarrow> bytes \<Rightarrow> bytes \<Rightarrow> bytes \<Rightarrow> bytes \<Rightarrow> bytes \<Rightarrow> bytes
     \<Rightarrow> error + bytes" where
  "kem_decrypt P algo eccCipherText mlkemCipherText eccSecretKey eccPublicKey
     mlkemSecretKey mlkemPublicKey encryptedSessionKeyData =
     (case eccKem_decaps P algo eccCipherText eccSecretKey eccPublicKey of
        Inl e \<Rightarrow> Inl e
      | Inr eccKeyShare \<Rightarrow>
     (case mlKem_decaps P algo mlkemCipherText mlkemSecretKey of
        Inl e \<Rightarrow> Inl e
      | Inr mlkemKeyShare \<Rightarrow>
     (let kek = multiKeyCombine (computeDigest P) algo mlkemKeyShare eccKeyShare
                  eccCipherText eccPublicKey
      in aesKW_unwrap P symmetric_aes256 kek encryptedSessionKeyData)))"

text \<open>
  The combiner as the spec words it, for comparison with the one of the source:
  \<open>SHA3-256(counter(0,0,0,1) \<parallel> eccShare \<parallel> eccCt \<parallel> eccPub \<parallel> mlkemShare \<parallel> mlkemCt \<parallel>
  mlkemPub \<parallel> [algo] \<parallel> "OpenPGPCompositeKDFv1")\<close>.
\<close>

definition multiKeyCombine_spec ::
  "(nat \<Rightarrow> bytes \<Rightarrow> 'k) \<Rightarrow> nat \<Rightarrow> bytes \<Rightarrow> bytes \<Rightarrow> bytes \<Rightarrow> bytes \<Rightarrow> bytes \<Rightarrow> bytes \<Rightarrow> 'k" where
  "multiKeyCombine_spec digest algo eccShare eccCt eccPub mlkemShare mlkemCt mlkemPub =
     digest hash_sha3_256 (concat [
       [0, 0, 0, 1], eccShare, eccCt, eccPub, mlkemShare, mlkemCt, mlkemPub,
       [u8 algo], encodeUTF8 ''OpenPGPCompositeKDFv1''])"

text \<open>
  A digest that keeps the algorithm and the bytes it was given: two such digests are
  equal exactly when the same algorithm was applied to the same bytes.
\<close>

datatype symbolicDigest = Digest nat bytes

text \<open>
  Primitives for a concrete run: fixed encapsulations, the symbolic digest, and a key
  wrap that records the key-encryption key in front of the data it wraps.
\<close>

fun wrapWith :: "nat \<Rightarrow> symbolicDigest \<Rightarrow> bytes \<Rightarrow> error + bytes" where
  "wrapWith cipher (Digest h encData) d = Inr (encData @ d)"

definition kemPrims_example :: "symbolicDigest kemPrims" where
  "kemPrims_example = \<lparr>
     eccKem_encaps = (\<lambda>algo pk. Inr ([2], [3])),
     mlKem_encaps = (\<lambda>algo pk. Inr ([1], [5])),
     eccKem_decaps = (\<lambda>algo ct sk pk. Inr [2]),
     mlKem_decaps = (\<lambda>algo ct sk. Inr [1]),
     aesKW_wrap = wrapWith,
     aesKW_unwrap = wrapWith,
     computeDigest = Digest\<rparr>"

section \<open>Helpers of \<open>util\<close> and \<open>enums\<close>\<close>

text \<open>
  Modelled from the spec: \<open>util.writeChecksum\<close> is not among the sources. It is the
  2-byte big-endian sum of the bytes modulo 65536.
\<close>

definition writeChecksum :: "bytes \<Rightarrow> bytes" where
  "writeChecksum text =
     (let s = sum_list (map unat text) mod 65536 in [u8 (s div 256), u8 (s mod 256)])"

text \<open>
  Modelled from the spec: \<open>util.selectUint8\<close> and \<open>util.selectUint8Array\<close> are not
  among the sources. The spec requires branchless bitwise selects: with \<open>cond = 1\<close> the
  first operand is selected, with \<open>cond = 0\<close> the second. The masks are \<open>256 - cond\<close>
  and \<open>255 + cond\<close>; the array select computes every byte of the longer operand and
  cuts the result to the length of the selected one.
\<close>

definition selectUint8 :: "nat \<Rightarrow> jsnum \<Rightarrow> jsnum \<Rightarrow> nat" where
  "selectUint8 cond a b = (toInt a AND (256 - cond)) OR (toInt b AND (255 + cond))"

definition selectUint8Array :: "nat \<Rightarrow> bytes \<Rightarrow> bytes \<Rightarrow> bytes" where
  "selectUint8Array cond a b =
     (let len = max (length a) (length b);
          result = map (\<lambda>i. u8 (selectUint8 cond (at a i) (at b i))) [0..<len];
          endIdx = sum_list (map (\<lambda>i. (cond AND of_bool (i < length a))
                                     OR ((1 - cond) AND of_bool (i < length b))) [0..<len])
      in take endIdx result)"

text \<open>
  Modelled from the spec: \<open>util.isAES\<close> is not among the sources; the AES variants are
  the ciphers AES-128 (code 7, as in scenario S4), AES-192 and AES-256. The dispatcher
  takes the predicate as a parameter; this is the instance for concrete runs.
\<close>

definition isAES :: "jsnum \<Rightarrow> bool" where
  "isAES cipherAlgo = (cipherAlgo = Num symmetric_aes128 \<or> cipherAlgo = Num symmetric_aes192
                        \<or> cipherAlgo = Num symmetric_aes256)"

text \<open>
  Modelled from the spec: \<open>enums.read\<close> and \<open>enums.write\<close> are not among the
  sources. \<open>enums.read(type, e)\<close> gives the name registered for the code \<open>e\<close> and
  throws for a code that is not registered: \<open>isUnknownPacketTag\<close> of
  \<open>packet/grammar.ts\<close> tells an unknown tag from a known one by catching that
  exception. \<open>enums.write(type, e)\<close> gives the registered code and throws likewise. The
  packet functions take both as parameters; these are the instances for the symmetric
  ciphers of RFC 9580 that concrete runs use.
\<close>

definition symmetric_byValue :: "(nat \<times> string) list" where
  "symmetric_byValue = [(1, ''idea''), (2, ''tripledes''), (3, ''cast5''),
     (4, ''blowfish''), (7, ''aes128''), (8, ''aes192''), (9, ''aes256''), (10, ''twofish'')]"

fun symmetric_read :: "jsnum \<Rightarrow> error + string" where
  "symmetric_read (Num e) =
     (case map_of symmetric_byValue e of
        Some name \<Rightarrow> Inr name
      | None \<Rightarrow> Inl (Error ''Invalid enum value.''))"
| "symmetric_read _ = Inl (Error ''Invalid enum value.'')"

fun symmetric_write :: "jsnum \<Rightarrow> error + jsnum" where
  "symmetric_write (Num e) =
     (case map_of symmetric_byValue e of
        Some name \<Rightarrow> Inr (Num e)
      | None \<Rightarrow> Inl (Error ''Invalid enum value.''))"
| "symmetric_write _ = Inl (Error ''Invalid enum value.'')"

section \<open>Parameter records\<close>

text \<open>
  A parameter object of the sources (\<open>publicParams\<close>, \<open>privateParams\<close>, the encrypted
  session key parameters) maps names to values in the order the object literal lists
  them. A value is a \<open>Uint8Array\<close> or an object of one of the classes of \<open>type/\<close>;
  \<open>UndefinedParam\<close> is the value of a property that is there and holds \<open>undefined\<close>,
  as in \<open>{ a }\<close> for a variable \<open>a\<close> that is \<open>undefined\<close>.
\<close>

datatype param =
    Uint8Array bytes
  | OID bytes
  | KDFParams bytes
  | SymAlgoEnum nat
  | HashEnum nat
  | AEADEnum nat
  | ShortByteString bytes
  | ECDHSymkey bytes
  | ECDHXSymmetricKey jsnum bytes
  | UndefinedParam

type_synonym params = "(string \<times> param) list"

text \<open>
  Destructuring \<open>const { a, b } = obj\<close> and the access \<open>obj.a\<close> throw a TypeError when
  \<open>obj\<close> is \<open>null\<close> or \<open>undefined\<close>; a property that is not there is \<open>undefined\<close>.
\<close>

definition destructure :: "params option \<Rightarrow> error + params" where
  "destructure obj =
     (case obj of None \<Rightarrow> Inl (TypeError ''Cannot destructure'') | Some ps \<Rightarrow> Inr ps)"

definition getProp :: "params \<Rightarrow> string \<Rightarrow> param option" where
  "getProp ps name =
     (case map_of ps name of Some UndefinedParam \<Rightarrow> None | Some p \<Rightarrow> Some p | None \<Rightarrow> None)"

text \<open>The property \<open>name: v\<close> of an object literal, \<open>v\<close> possibly \<open>undefined\<close>.\<close>

definition property :: "string \<Rightarrow> param option \<Rightarrow> string \<times> param" where
  "property name v = (name, case v of None \<Rightarrow> UndefinedParam | Some p \<Rightarrow> p)"

text \<open>\<open>C.algorithm\<close>, \<open>C.wrappedKey\<close> and \<open>C.data\<close> on a property \<open>C\<close>.\<close>

fun algorithmOf :: "param option \<Rightarrow> error + jsnum" where
  "algorithmOf None = Inl (TypeError ''Cannot read properties of undefined'')"
| "algorithmOf (Some (ECDHXSymmetricKey algorithm wrappedKey)) = Inr algorithm"
| "algorithmOf (Some _) = Inr Undefined"

fun wrappedKeyOf :: "param option \<Rightarrow> error + param option" where
  "wrappedKeyOf None = Inl (TypeError ''Cannot read properties of undefined'')"
| "wrappedKeyOf (Some (ECDHXSymmetricKey algorithm wrappedKey)) = Inr (Some (Uint8Array wrappedKey))"
| "wrappedKeyOf (Some _) = Inr None"

fun dataOf :: "param option \<Rightarrow> error + param option" where
  "dataOf None = Inl (TypeError ''Cannot read properties of undefined'')"
| "dataOf (Some (ECDHSymkey d)) = Inr (Some (Uint8Array d))"
| "dataOf (Some (ShortByteString d)) = Inr (Some (Uint8Array d))"
| "dataOf (Some _) = Inr None"

text \<open>
  The composite KEM works on byte arrays; handing it a property that is missing or not
  a \<open>Uint8Array\<close> makes its primitives throw.
\<close>

fun bytesOf :: "param option \<Rightarrow> error + bytes" where
  "bytesOf (Some (Uint8Array b)) = Inr b"
| "bytesOf _ = Inl (TypeError ''Uint8Array expected'')"

text \<open>Sequencing of calls that may throw.\<close>

definition andThen :: "error + 'a \<Rightarrow> ('a \<Rightarrow> error + 'b) \<Rightarrow> error + 'b" where
  "andThen m f = (case m of Inl e \<Rightarrow> Inl e | Inr x \<Rightarrow> f x)"


section \<open>The dispatcher: \<open>crypto/crypto.js\<close>\<close>

text \<open>
  The cryptographic primitives the dispatcher delegates to (\<open>rsa\<close>, \<open>elgamal\<close>,
  \<open>elliptic.ecdh\<close>, \<open>elliptic.ecdhX\<close>, the AEAD modes) are parameters, and so is
  \<open>util.isAES\<close>. A primitive receives the properties the dispatcher reads from the
  parameter objects, which are \<open>undefined\<close> (\<open>None\<close>) when the object lacks them.
\<close>

record 'k cryptoPrims =
  util_isAES :: "jsnum \<Rightarrow> bool"
  rsa_encrypt :: "bytes \<Rightarrow> param option \<Rightarrow> param option \<Rightarrow> error + bytes"
  rsa_decrypt :: "param option \<Rightarrow> param option \<Rightarrow> param option \<Rightarrow> param option
                    \<Rightarrow> param option \<Rightarrow> param option \<Rightarrow> param option \<Rightarrow> bytes option
                    \<Rightarrow> error + bytes"
  elgamal_encrypt :: "bytes \<Rightarrow> param option \<Rightarrow> param option \<Rightarrow> param option \<Rightarrow> error + params"
  elgamal_decrypt :: "param option \<Rightarrow> param option \<Rightarrow> param option \<Rightarrow> param option
                        \<Rightarrow> bytes option \<Rightarrow> error + bytes"
  ecdh_encrypt :: "param option \<Rightarrow> param option \<Rightarrow> bytes \<Rightarrow> param option \<Rightarrow> bytes
                     \<Rightarrow> error + (bytes \<times> bytes)"
  ecdh_decrypt :: "param option \<Rightarrow> param option \<Rightarrow> param option \<Rightarrow> param option
                     \<Rightarrow> param option \<Rightarrow> param option \<Rightarrow> bytes \<Rightarrow> error + bytes"
  ecdhX_encrypt :: "nat \<Rightarrow> bytes \<Rightarrow> param option \<Rightarrow> error + (bytes \<times> bytes)"
  ecdhX_decrypt :: "nat \<Rightarrow> param option \<Rightarrow> param option \<Rightarrow> param option \<Rightarrow> param option
                      \<Rightarrow> error + bytes"
  aead_encrypt :: "param option \<Rightarrow> param option \<Rightarrow> bytes \<Rightarrow> error + (nat \<times> bytes \<times> bytes)"
  aead_decrypt :: "param option \<Rightarrow> param option \<Rightarrow> param option \<Rightarrow> param option
                     \<Rightarrow> param option \<Rightarrow> error + bytes"
  kem :: "'k kemPrims"


text \<open>
  \<open>publicKeyDecrypt(keyAlgo, publicKeyParams, privateKeyParams, sessionKeyParams,
  fingerprint, randomPayload)\<close>. The guard of the X25519/X448 case compares with
  \<open>null\<close>: \<open>C.algorithm !== null && !util.isAES(C.algorithm)\<close>.
\<close>

definition publicKeyDecrypt ::
  "'k cryptoPrims \<Rightarrow> jsnum \<Rightarrow> params option \<Rightarrow> params option \<Rightarrow> params option \<Rightarrow> bytes
     \<Rightarrow> bytes option \<Rightarrow> error + bytes" where
  "publicKeyDecrypt P keyAlgo publicKeyParams privateKeyParams sessionKeyParams fingerprint
     randomPayload =
    (if keyAlgo = Num publicKey_rsaEncryptSign \<or> keyAlgo = Num publicKey_rsaEncrypt then
       andThen (destructure sessionKeyParams) (\<lambda>sess.
       andThen (destructure publicKeyParams) (\<lambda>pub.
       andThen (destructure privateKeyParams) (\<lambda>priv.
       rsa_decrypt P (getProp sess ''c'') (getProp pub ''n'') (getProp pub ''e'')
         (getProp priv ''d'') (getProp priv ''p'') (getProp priv ''q'') (getProp priv ''u'')
         randomPayload)))
     else if keyAlgo = Num publicKey_elgamal then
       andThen (destructure sessionKeyParams) (\<lambda>sess.
       andThen (destructure publicKeyParams) (\<lambda>pub.
       andThen (destructure privateKeyParams) (\<lambda>priv.
       elgamal_decrypt P (getProp sess ''c1'') (getProp sess ''c2'') (getProp pub ''p'')
         (getProp priv ''x'') randomPayload)))
     else if keyAlgo = Num publicKey_ecdh then
       andThen (destructure publicKeyParams) (\<lambda>pub.
       andThen (destructure privateKeyParams) (\<lambda>priv.
       andThen (destructure sessionKeyParams) (\<lambda>sess.
       andThen (dataOf (getProp sess ''C'')) (\<lambda>C_data.
       ecdh_decrypt P (getProp pub ''oid'') (getProp pub ''kdfParams'') (getProp sess ''V'')
         C_data (getProp pub ''Q'') (getProp priv ''d'') fingerprint))))
     else if keyAlgo = Num publicKey_x25519 \<or> keyAlgo = Num publicKey_x448 then
       andThen (destructure publicKeyParams) (\<lambda>pub.
       andThen (destructure privateKeyParams) (\<lambda>priv.
       andThen (destructure sessionKeyParams) (\<lambda>sess.
       andThen (algorithmOf (getProp sess ''C'')) (\<lambda>C_algorithm.
       if C_algorithm \<noteq> Null \<and> \<not> util_isAES P C_algorithm then
         Inl (Error ''AES session key expected'')
       else
         andThen (wrappedKeyOf (getProp sess ''C'')) (\<lambda>C_wrappedKey.
         ecdhX_decrypt P (toInt keyAlgo) (getProp sess ''ephemeralPublicKey'') C_wrappedKey
           (getProp pub ''A'') (getProp priv ''k''))))))
     else if keyAlgo = Num publicKey_aead then
       andThen (destructure publicKeyParams) (\<lambda>pub.
       andThen (destructure privateKeyParams) (\<lambda>priv.
       andThen (destructure sessionKeyParams) (\<lambda>sess.
       aead_decrypt P (getProp pub ''cipher'') (getProp priv ''keyMaterial'')
         (getProp sess ''aeadMode'') (getProp sess ''iv'') (getProp sess ''c''))))
     else if keyAlgo = Num publicKey_pqc_mlkem_x25519 then
       andThen (destructure privateKeyParams) (\<lambda>priv.
       andThen (destructure publicKeyParams) (\<lambda>pub.
       andThen (destructure sessionKeyParams) (\<lambda>sess.
       andThen (wrappedKeyOf (getProp sess ''C'')) (\<lambda>C_wrappedKey.
       andThen (bytesOf (getProp sess ''eccCipherText'')) (\<lambda>eccCipherText.
       andThen (bytesOf (getProp sess ''mlkemCipherText'')) (\<lambda>mlkemCipherText.
       andThen (bytesOf (getProp priv ''eccSecretKey'')) (\<lambda>eccSecretKey.
       andThen (bytesOf (getProp pub ''eccPublicKey'')) (\<lambda>eccPublicKey.
       andThen (bytesOf (getProp priv ''mlkemSecretKey'')) (\<lambda>mlkemSecretKey.
       andThen (bytesOf (getProp pub ''mlkemPublicKey'')) (\<lambda>mlkemPublicKey.
       andThen (bytesOf C_wrappedKey) (\<lambda>wrappedKey.
       kem_decrypt (kem P) (toInt keyAlgo) eccCipherText mlkemCipherText eccSecretKey
         eccPublicKey mlkemSecretKey mlkemPublicKey wrappedKey)))))))))))
     else Inl (Error ''Unknown public key encryption algorithm.''))"


section \<open>Wire readers\<close>

text \<open>
  Modelled from the spec: \<open>util.readExactSubarray\<close>, \<open>util.readMPI\<close>,
  \<open>util.leftPad\<close> and \<open>util.uint8ArrayToMPI\<close> are not among the sources.
  \<open>readExact(buf, off, end)\<close> is the subarray and errors if \<open>end > len(buf)\<close>;
  \<open>readMPI\<close> reads a 2-byte big-endian bit length \<open>L\<close>, then \<open>ceil(L/8)\<close> bytes, and
  errors if truncated; \<open>leftPad(b, n)\<close> prepends zeros to length \<open>n\<close> and errors if
  \<open>len(b) > n\<close>; \<open>uint8ArrayToMPI(b)\<close> emits the 2-byte bit length, counted from the
  highest significant bit of the first nonzero byte, followed by the bytes from that
  byte on.
\<close>

definition readExactSubarray :: "bytes \<Rightarrow> nat \<Rightarrow> nat \<Rightarrow> error + bytes" where
  "readExactSubarray input start stop =
     (if stop > length input then Inl (Error ''Input array too short'')
      else Inr (subarray input (int start) (int stop)))"

definition readMPI :: "bytes \<Rightarrow> error + bytes" where
  "readMPI bs =
     (let bits = toInt (at bs 0) * 256 + toInt (at bs 1);
          bytelen = (bits + 7) div 8
      in readExactSubarray bs 2 (2 + bytelen))"

definition leftPad :: "bytes \<Rightarrow> nat \<Rightarrow> error + bytes" where
  "leftPad b n =
     (if length b > n then Inl (Error ''Input array too long'')
      else Inr (replicate (n - length b) 0 @ b))"

text \<open>The number of significant bits of a byte, and of a big-endian byte string.\<close>

fun nbits :: "nat \<Rightarrow> nat" where
  "nbits n = (if n = 0 then 0 else Suc (nbits (n div 2)))"

definition uint8ArrayBitLength :: "bytes \<Rightarrow> nat" where
  "uint8ArrayBitLength b =
     (let stripped = dropWhile (\<lambda>x. x = 0) b
      in case stripped of [] \<Rightarrow> 0 | x # xs \<Rightarrow> nbits (unat x) + 8 * length xs)"

definition uint8ArrayToMPI :: "bytes \<Rightarrow> bytes" where
  "uint8ArrayToMPI b =
     (let bitSize = uint8ArrayBitLength b
      in [u8 (bitSize div 256), u8 bitSize] @ dropWhile (\<lambda>x. x = 0) b)"

text \<open>
  The classes of \<open>type/\<close>, the curve tables and the size tables of \<open>crypto/cipher\<close>
  and \<open>crypto/hash\<close> are not among the sources; the parsers take their readers and
  tables as parameters. A reader gives the number of bytes it read and the value.
\<close>

record codecs =
  KeyID_read :: "bytes \<Rightarrow> error + (nat \<times> bytes)"
  KeyID_wildcard :: bytes
  ECDHSymkey_read :: "bytes \<Rightarrow> error + (nat \<times> bytes)"
  ECDHXSymmetricKey_read :: "bytes \<Rightarrow> error + (jsnum \<times> bytes)"
  AEADEnum_read :: "bytes \<Rightarrow> error + (nat \<times> nat)"
  SymAlgoEnum_read :: "bytes \<Rightarrow> error + (nat \<times> nat)"
  ShortByteString_read :: "bytes \<Rightarrow> error + (nat \<times> bytes)"
  OID_read :: "bytes \<Rightarrow> error + (nat \<times> bytes)"
  OID_getName :: "bytes \<Rightarrow> error + string"
  KDFParams_read :: "bytes \<Rightarrow> error + (nat \<times> bytes)"
  param_write :: "param \<Rightarrow> bytes"
  getAEADMode_ivLength :: "jsnum \<Rightarrow> error + nat"
  CurveWithOID_payloadSize :: "param option \<Rightarrow> error + nat"
  ecdhX_getPayloadSize :: "nat \<Rightarrow> error + nat"
  getHashByteLength :: "jsnum \<Rightarrow> error + nat"
  getCipherParams_keySize :: "jsnum \<Rightarrow> error + nat"
  getCipherParams_blockSize :: "jsnum \<Rightarrow> error + nat"
  mlkemExpandSecretSeed :: "nat \<Rightarrow> bytes \<Rightarrow> error + bytes"
  mldsaExpandSecretSeed :: "nat \<Rightarrow> bytes \<Rightarrow> error + bytes"
  enums_read_symmetric :: "jsnum \<Rightarrow> error + string"
  enums_write_symmetric :: "jsnum \<Rightarrow> error + jsnum"

text \<open>
  \<open>getCurvePayloadSize(algo, oid)\<close>. For Ed25519 and Ed448 it calls
  \<open>elliptic.eddsa.getPayloadSize\<close>; \<open>elliptic/eddsa.js\<close> exports \<open>generate\<close>, \<open>sign\<close>,
  \<open>verify\<close>, \<open>validateParams\<close> and \<open>getPreferredHashAlgo\<close> and no \<open>getPayloadSize\<close>, so
  the call is a call of \<open>undefined\<close> and throws a TypeError.
\<close>

definition getCurvePayloadSize :: "codecs \<Rightarrow> nat \<Rightarrow> param option \<Rightarrow> error + nat" where
  "getCurvePayloadSize C algo oid =
     (if algo = publicKey_ecdsa \<or> algo = publicKey_ecdh \<or> algo = publicKey_eddsaLegacy then
        CurveWithOID_payloadSize C oid
      else if algo = publicKey_ed25519 \<or> algo = publicKey_ed448 then
        Inl (TypeError ''elliptic.eddsa.getPayloadSize is not a function'')
      else if algo = publicKey_x25519 \<or> algo = publicKey_x448 then
        ecdhX_getPayloadSize C algo
      else Inl (Error ''Unknown elliptic algo''))"

text \<open>\<open>parseEncSessionKeyParams(algo, bytes)\<close>\<close>

definition parseEncSessionKeyParams :: "codecs \<Rightarrow> jsnum \<Rightarrow> bytes \<Rightarrow> error + params" where
  "parseEncSessionKeyParams C algo bs =
    (if algo = Num publicKey_rsaEncrypt \<or> algo = Num publicKey_rsaEncryptSign then
       andThen (readMPI (subarrayFrom bs 0)) (\<lambda>c.
       Inr [(''c'', Uint8Array c)])
     else if algo = Num publicKey_elgamal then
       andThen (readMPI (subarrayFrom bs 0)) (\<lambda>c1.
       andThen (readMPI (subarrayFrom bs (int (length c1 + 2)))) (\<lambda>c2.
       Inr [(''c1'', Uint8Array c1), (''c2'', Uint8Array c2)]))
     else if algo = Num publicKey_ecdh then
       andThen (readMPI (subarrayFrom bs 0)) (\<lambda>V.
       andThen (ECDHSymkey_read C (subarrayFrom bs (int (length V + 2)))) (\<lambda>(n, d).
       Inr [(''V'', Uint8Array V), (''C'', ECDHSymkey d)]))
     else if algo = Num publicKey_x25519 \<or> algo = Num publicKey_x448 then
       andThen (getCurvePayloadSize C (toInt algo) None) (\<lambda>pointSize.
       andThen (readExactSubarray bs 0 pointSize) (\<lambda>ephemeralPublicKey.
       andThen (ECDHXSymmetricKey_read C (subarrayFrom bs (int (length ephemeralPublicKey))))
         (\<lambda>(algorithm, wrappedKey).
       Inr [(''ephemeralPublicKey'', Uint8Array ephemeralPublicKey),
            (''C'', ECDHXSymmetricKey algorithm wrappedKey)])))
     else if algo = Num publicKey_aead then
       andThen (AEADEnum_read C (subarrayFrom bs 0)) (\<lambda>(n, aeadMode).
       andThen (getAEADMode_ivLength C (Num aeadMode)) (\<lambda>ivLength.
       let iv = subarray bs (int n) (int (n + ivLength)) in
       andThen (ShortByteString_read C (subarrayFrom bs (int (n + ivLength)))) (\<lambda>(m, c).
       Inr [(''aeadMode'', AEADEnum aeadMode), (''iv'', Uint8Array iv),
            (''c'', ShortByteString c)])))
     else if algo = Num publicKey_pqc_mlkem_x25519 then
       andThen (getCurvePayloadSize C publicKey_x25519 None) (\<lambda>eccSize.
       andThen (readExactSubarray bs 0 eccSize) (\<lambda>eccCipherText.
       andThen (readExactSubarray bs (length eccCipherText) (length eccCipherText + 1088))
         (\<lambda>mlkemCipherText.
       andThen (ECDHXSymmetricKey_read C
                  (subarrayFrom bs (int (length eccCipherText + length mlkemCipherText))))
         (\<lambda>(algorithm, wrappedKey).
       Inr [(''eccCipherText'', Uint8Array eccCipherText),
            (''mlkemCipherText'', Uint8Array mlkemCipherText),
            (''C'', ECDHXSymmetricKey algorithm wrappedKey)]))))
     else Inl (UnsupportedError ''Unknown public key encryption algorithm.''))"


section \<open>The PKESK packet: \<open>packet/public_key_encrypted_session_key.js\<close>\<close>

text \<open>
  Every packet has a version. The fields of \<open>PublicKeyEncryptedSessionKeyPacket\<close> are
  those its constructor sets; \<open>null\<close> is \<open>Null\<close> for a number and \<open>None\<close> for a byte
  array. An object \<open>{ sessionKey, sessionKeyAlgorithm }\<close> is a \<open>sessionKeyObject\<close>.
\<close>

record packet =
  version :: jsnum

record pkesk = packet +
  publicKeyID :: bytes
  publicKeyVersion :: jsnum
  publicKeyFingerprint :: "bytes option"
  publicKeyAlgorithm :: jsnum
  sessionKey :: "bytes option"
  sessionKeyAlgorithm :: jsnum
  encrypted :: params

record sessionKeyObject =
  objSessionKey :: bytes
  objSessionKeyAlgorithm :: jsnum

definition algosWithV3CleartextSessionKeyAlgorithm :: "jsnum set" where
  "algosWithV3CleartextSessionKeyAlgorithm =
     {Num publicKey_x25519, Num publicKey_x448, Num publicKey_pqc_mlkem_x25519}"

text \<open>
  \<open>read(bytes)\<close>, first part: the version, the recipient identifier and the public-key
  algorithm. The result is the packet and the offset of the encrypted parameters.
\<close>

definition pkesk_read_header :: "codecs \<Rightarrow> pkesk \<Rightarrow> bytes \<Rightarrow> error + (pkesk \<times> nat)" where
  "pkesk_read_header C this bs =
    (let v = at bs 0 in
     if v \<noteq> Num 3 \<and> v \<noteq> Num 6 then
       Inl (UnsupportedError ''Version of the PKESK packet is unsupported.'')
     else
       andThen
         (if v = Num 6 then
            (let versionAndFingerprintLength = at bs 1 in
             if truthy versionAndFingerprintLength then
               (let pkv = at bs 2;
                    fingerprintLength = toInt versionAndFingerprintLength - 1;
                    fp = subarray bs 3 (int (3 + fingerprintLength));
                    keyIDBytes = (if (case pkv of Num n \<Rightarrow> n \<ge> 5 | _ \<Rightarrow> False) then fp
                                  else subarrayFrom fp (- 8))
                in andThen (KeyID_read C keyIDBytes) (\<lambda>(n, kid).
                   Inr (this\<lparr>version := v, publicKeyVersion := pkv,
                          publicKeyFingerprint := Some fp, publicKeyID := kid\<rparr>,
                        3 + fingerprintLength)))
             else Inr (this\<lparr>version := v, publicKeyID := KeyID_wildcard C\<rparr>, 2))
          else
            andThen (KeyID_read C (subarray bs 1 9)) (\<lambda>(n, kid).
            Inr (this\<lparr>version := v, publicKeyID := kid\<rparr>, 1 + n)))
         (\<lambda>(p, offset). Inr (p\<lparr>publicKeyAlgorithm := at bs offset\<rparr>, offset + 1)))"

text \<open>\<open>read(bytes)\<close>: the encrypted parameters and the cleartext cipher algorithm.\<close>

definition pkesk_read :: "codecs \<Rightarrow> pkesk \<Rightarrow> bytes \<Rightarrow> error + pkesk" where
  "pkesk_read C this bs =
    andThen (pkesk_read_header C this bs) (\<lambda>(p, offset).
    andThen (parseEncSessionKeyParams C (publicKeyAlgorithm p) (subarrayFrom bs (int offset)))
      (\<lambda>enc.
    let p = p\<lparr>encrypted := enc\<rparr> in
    if publicKeyAlgorithm p \<in> algosWithV3CleartextSessionKeyAlgorithm then
      andThen (algorithmOf (getProp enc ''C'')) (\<lambda>C_algorithm.
      if version p = Num 3 then
        andThen (enums_write_symmetric C C_algorithm) (\<lambda>a.
        Inr (p\<lparr>sessionKeyAlgorithm := a\<rparr>))
      else if C_algorithm \<noteq> Null then
        Inl (Error ''Unexpected cleartext symmetric algorithm'')
      else Inr p)
    else Inr p))"

definition checksummedAlgos :: "jsnum set" where
  "checksummedAlgos =
     {Num publicKey_rsaEncrypt, Num publicKey_rsaEncryptSign, Num publicKey_elgamal,
      Num publicKey_ecdh, Num publicKey_aead}"

text \<open>\<open>encodeSessionKey(version, keyAlgo, cipherAlgo, sessionKeyData)\<close>\<close>

definition encodeSessionKey :: "jsnum \<Rightarrow> jsnum \<Rightarrow> jsnum \<Rightarrow> bytes \<Rightarrow> error + bytes" where
  "encodeSessionKey v keyAlgo cipherAlgo sessionKeyData =
    (if keyAlgo \<in> checksummedAlgos then
       Inr (concat [
         (if v = Num 6 then [] else [u8 (toInt cipherAlgo)]),
         sessionKeyData,
         writeChecksum (subarrayFrom sessionKeyData (int (length sessionKeyData mod 8)))])
     else if keyAlgo \<in> algosWithV3CleartextSessionKeyAlgorithm then Inr sessionKeyData
     else Inl (Error ''Unsupported public key algorithm''))"

text \<open>
  \<open>decodeSessionKey(version, keyAlgo, decryptedData, randomSessionKey)\<close>. The operator
  \<open>&\<close> on comparisons works on the numbers 0 and 1. \<open>enums.read\<close> is the parameter
  \<open>enums_read\<close>; a name is truthy when it is not the empty string.
\<close>

definition decodeSessionKey ::
  "(jsnum \<Rightarrow> error + string) \<Rightarrow> jsnum \<Rightarrow> jsnum \<Rightarrow> bytes \<Rightarrow> sessionKeyObject option
     \<Rightarrow> error + sessionKeyObject" where
  "decodeSessionKey enums_read v keyAlgo decryptedData randomSessionKey =
    (if keyAlgo \<in> checksummedAlgos then
       (let result = subarray decryptedData 0 (int (length decryptedData) - 2);
            checksum = subarrayFrom decryptedData (int (length decryptedData) - 2);
            computedChecksum = writeChecksum (subarrayFrom result (int (length result mod 8)));
            isValidChecksum = (of_bool (at computedChecksum 0 = at checksum 0) :: nat)
                                AND of_bool (at computedChecksum 1 = at checksum 1);
            decryptedSessionKey =
              (if v = Num 6 then
                 \<lparr>objSessionKey = result, objSessionKeyAlgorithm = Null\<rparr>
               else
                 \<lparr>objSessionKey = subarrayFrom result 1, objSessionKeyAlgorithm = at result 0\<rparr>)
        in case randomSessionKey of
             Some rnd \<Rightarrow>
               (let isValidPayload = isValidChecksum
                      AND of_bool (objSessionKeyAlgorithm decryptedSessionKey
                                     = objSessionKeyAlgorithm rnd)
                      AND of_bool (length (objSessionKey decryptedSessionKey)
                                     = length (objSessionKey rnd))
                in Inr \<lparr>
                     objSessionKey = selectUint8Array isValidPayload
                       (objSessionKey decryptedSessionKey) (objSessionKey rnd),
                     objSessionKeyAlgorithm =
                       (if v = Num 6 then Null
                        else Num (selectUint8 isValidPayload
                               (objSessionKeyAlgorithm decryptedSessionKey)
                               (objSessionKeyAlgorithm rnd)))\<rparr>)
           | None \<Rightarrow>
               (if isValidChecksum = 0 then Inl (Error ''Decryption error'')
                else if v = Num 6 then Inr decryptedSessionKey
                else
                  andThen (enums_read (objSessionKeyAlgorithm decryptedSessionKey)) (\<lambda>name.
                  if name \<noteq> [] then Inr decryptedSessionKey
                  else Inl (Error ''Decryption error''))))
     else if keyAlgo \<in> algosWithV3CleartextSessionKeyAlgorithm then
       Inr \<lparr>objSessionKey = decryptedData, objSessionKeyAlgorithm = Null\<rparr>
     else Inl (Error ''Unsupported public key algorithm''))"


section \<open>The Secret-Key packet: \<open>packet/secret_key.js\<close>\<close>

text \<open>
  An S2K specifier object: its \<open>type\<close> and the fields \<open>makeDummy\<close> writes; what else
  it holds (salt, counts) is \<open>s2k_state\<close>.
\<close>

record s2kSpecifier =
  s2k_type :: string
  s2k_algorithm :: nat
  s2k_c :: nat
  s2k_state :: bytes

text \<open>
  The fields of \<open>SecretKeyPacket\<close>, with those of \<open>PublicKeyPacket\<close> it extends
  (\<open>algorithm\<close>, \<open>publicParams\<close>; \<open>fingerprintBytes\<close> is what \<open>getFingerprintBytes()\<close>
  returns and \<open>publicKeyBytes\<close> what \<open>writePublicKey()\<close> returns). \<open>isEncrypted\<close>,
  \<open>isLegacyAEAD\<close> and \<open>usedModernAEAD\<close> hold \<open>null\<close>, \<open>true\<close> or \<open>false\<close>;
  \<open>iv\<close> and \<open>unparseableKeyMaterial\<close> are \<open>undefined\<close> until assigned.
\<close>

record secretKeyPacket = packet +
  algorithm :: jsnum
  publicParams :: "params option"
  fingerprintBytes :: bytes
  publicKeyBytes :: bytes
  keyMaterial :: "bytes option"
  isEncrypted :: "bool option"
  s2kUsage :: jsnum
  s2k :: "s2kSpecifier option"
  symmetric :: jsnum
  aead :: jsnum
  isLegacyAEAD :: "bool option"
  privateParams :: "params option"
  usedModernAEAD :: "bool option"
  iv :: "bytes option"
  unparseableKeyMaterial :: "bytes option"

section \<open>PKESK decryption\<close>

text \<open>
  \<open>decrypt(key, randomSessionKey)\<close> of the PKESK packet. \<open>P\<close> holds the primitives of
  the dispatcher and \<open>C\<close> the tables (\<open>enums.read\<close>, \<open>getCipherParams\<close>).
\<close>

definition pkesk_decrypt ::
  "'k cryptoPrims \<Rightarrow> codecs \<Rightarrow> pkesk \<Rightarrow> secretKeyPacket \<Rightarrow> sessionKeyObject option
     \<Rightarrow> error + pkesk" where
  "pkesk_decrypt P C this key randomSessionKey =
    (if publicKeyAlgorithm this \<noteq> algorithm key then Inl (Error ''Decryption error'')
     else
       andThen
         (case randomSessionKey of
            Some rnd \<Rightarrow>
              andThen (encodeSessionKey (version this) (publicKeyAlgorithm this)
                         (objSessionKeyAlgorithm rnd) (objSessionKey rnd))
                (\<lambda>payload. Inr (Some payload))
          | None \<Rightarrow> Inr None) (\<lambda>randomPayload.
       let fingerprint = (if version key = Num 5 then subarray (fingerprintBytes key) 0 20
                          else fingerprintBytes key) in
       andThen (publicKeyDecrypt P (publicKeyAlgorithm this) (publicParams key)
                  (privateParams key) (Some (encrypted this)) fingerprint randomPayload)
         (\<lambda>decryptedData.
       andThen (decodeSessionKey (enums_read_symmetric C) (version this)
                  (publicKeyAlgorithm this) decryptedData randomSessionKey) (\<lambda>decoded.
       if version this = Num 3 then
         (let hasEncryptedAlgo =
                (publicKeyAlgorithm this \<notin> algosWithV3CleartextSessionKeyAlgorithm);
              this = this\<lparr>sessionKeyAlgorithm :=
                (if hasEncryptedAlgo then objSessionKeyAlgorithm decoded
                 else sessionKeyAlgorithm this)\<rparr>
          in andThen (getCipherParams_keySize C (sessionKeyAlgorithm this)) (\<lambda>keySize.
             if length (objSessionKey decoded) \<noteq> keySize then
               Inl (Error ''Unexpected session key size'')
             else Inr (this\<lparr>sessionKey := Some (objSessionKey decoded)\<rparr>)))
       else Inr (this\<lparr>sessionKey := Some (objSessionKey decoded)\<rparr>)))))"


section \<open>Instances for concrete runs\<close>

text \<open>
  Concrete primitives and tables, so that the functions above can be evaluated on
  explicit packets: toy ciphers that hand the data through, and readers in the manner
  of the classes of \<open>type/\<close> (the wrapped-key structure starts with a length byte, odd
  when a cipher algorithm byte follows it).
\<close>

fun ECDHXSymmetricKey_read_example :: "bytes \<Rightarrow> error + (jsnum \<times> bytes)" where
  "ECDHXSymmetricKey_read_example [] = Inl (Error ''Input array too short'')"
| "ECDHXSymmetricKey_read_example (followLength # rest) =
     (if odd (unat followLength) then
        (case rest of
           [] \<Rightarrow> Inl (Error ''Input array too short'')
         | a # wrappedKey \<Rightarrow> Inr (Num (unat a), wrappedKey))
      else Inr (Null, rest))"

fun keySize_example :: "jsnum \<Rightarrow> error + nat" where
  "keySize_example (Num n) =
     (if n = symmetric_aes128 then Inr 16
      else if n = symmetric_aes192 then Inr 24
      else if n = symmetric_aes256 then Inr 32
      else Inl (Error ''Unsupported cipher algorithm''))"
| "keySize_example _ = Inl (Error ''Unsupported cipher algorithm'')"

fun hashByteLength_example :: "jsnum \<Rightarrow> error + nat" where
  "hashByteLength_example (Num n) =
     (if n = hash_sha1 then Inr 20
      else if n = hash_sha224 then Inr 28
      else if n = hash_sha256 \<or> n = hash_sha3_256 then Inr 32
      else if n = hash_sha384 then Inr 48
      else if n = hash_sha512 \<or> n = hash_sha3_512 then Inr 64
      else Inl (Error ''Invalid hash algorithm.''))"
| "hashByteLength_example _ = Inl (Error ''Invalid hash algorithm.'')"

fun param_write_example :: "param \<Rightarrow> bytes" where
  "param_write_example (Uint8Array b) = b"
| "param_write_example (OID b) = u8 (length b) # b"
| "param_write_example (KDFParams b) = b"
| "param_write_example (SymAlgoEnum v) = [u8 v]"
| "param_write_example (HashEnum v) = [u8 v]"
| "param_write_example (AEADEnum v) = [u8 v]"
| "param_write_example (ShortByteString b) = u8 (length b) # b"
| "param_write_example (ECDHSymkey b) = u8 (length b) # b"
| "param_write_example (ECDHXSymmetricKey a w) =
     (if truthy a then [u8 (length w + 1), u8 (toInt a)] else [u8 (length w)]) @ w"
| "param_write_example UndefinedParam = []"

definition codecs_example :: codecs where
  "codecs_example = \<lparr>
     KeyID_read = (\<lambda>bs. Inr (length bs, bs)),
     KeyID_wildcard = replicate 8 0,
     ECDHSymkey_read = (\<lambda>bs. Inr (length bs, drop 1 bs)),
     ECDHXSymmetricKey_read = ECDHXSymmetricKey_read_example,
     AEADEnum_read = (\<lambda>bs. Inr (1, toInt (at bs 0))),
     SymAlgoEnum_read = (\<lambda>bs. Inr (1, toInt (at bs 0))),
     ShortByteString_read = (\<lambda>bs. Inr (length bs, drop 1 bs)),
     OID_read = (\<lambda>bs. Inr (Suc (toInt (at bs 0)), take (toInt (at bs 0)) (drop 1 bs))),
     OID_getName = (\<lambda>oid. Inr ''nistP256''),
     KDFParams_read = (\<lambda>bs. Inr (4, take 4 bs)),
     param_write = param_write_example,
     getAEADMode_ivLength = (\<lambda>mode. Inr 15),
     CurveWithOID_payloadSize = (\<lambda>oid. Inr 32),
     ecdhX_getPayloadSize = (\<lambda>algo. Inr (if algo = publicKey_x448 then 56 else 32)),
     getHashByteLength = hashByteLength_example,
     getCipherParams_keySize = keySize_example,
     getCipherParams_blockSize = (\<lambda>algo. Inr 16),
     mlkemExpandSecretSeed = (\<lambda>algo seed. Inr (seed @ seed)),
     mldsaExpandSecretSeed = (\<lambda>algo seed. Inr (seed @ seed)),
     enums_read_symmetric = symmetric_read,
     enums_write_symmetric = symmetric_write\<rparr>"

definition cryptoPrims_example :: "symbolicDigest cryptoPrims" where
  "cryptoPrims_example = \<lparr>
     util_isAES = isAES,
     rsa_encrypt = (\<lambda>d n e. Inr d),
     rsa_decrypt = (\<lambda>c n e d p q u randomPayload. bytesOf c),
     elgamal_encrypt = (\<lambda>d p g y. Inr [(''c1'', Uint8Array [1]), (''c2'', Uint8Array d)]),
     elgamal_decrypt = (\<lambda>c1 c2 p x randomPayload. bytesOf c2),
     ecdh_encrypt = (\<lambda>oid kdfParams d Q fingerprint. Inr ([4], d)),
     ecdh_decrypt = (\<lambda>oid kdfParams V C Q d fingerprint. bytesOf C),
     ecdhX_encrypt = (\<lambda>algo d A. Inr ([5], d)),
     ecdhX_decrypt = (\<lambda>algo ephemeralPublicKey wrappedKey A k. bytesOf wrappedKey),
     aead_encrypt = (\<lambda>cipher keyMaterial d. Inr (2, replicate 15 0, d)),
     aead_decrypt = (\<lambda>cipher keyMaterial aeadMode iv c. bytesOf c),
     kem = kemPrims_example\<rparr>"

definition pkesk_new :: pkesk where
  "pkesk_new = \<lparr>version = Null, publicKeyID = [], publicKeyVersion = Null,
     publicKeyFingerprint = None, publicKeyAlgorithm = Null, sessionKey = None,
     sessionKeyAlgorithm = Null, encrypted = []\<rparr>"


section \<open>Parameter (de)serialization: \<open>crypto/crypto.js\<close>\<close>

text \<open>\<open>obj.getValue()\<close> on an enum object and \<open>oid.getName()\<close> on an OID object.\<close>

fun getValue :: "param option \<Rightarrow> error + nat" where
  "getValue (Some (SymAlgoEnum v)) = Inr v"
| "getValue (Some (HashEnum v)) = Inr v"
| "getValue (Some (AEADEnum v)) = Inr v"
| "getValue _ = Inl (TypeError ''getValue is not a function'')"

fun getName :: "codecs \<Rightarrow> param option \<Rightarrow> error + string" where
  "getName C (Some (OID oid)) = OID_getName C oid"
| "getName C _ = Inl (TypeError ''getName is not a function'')"

text \<open>\<open>checkSupportedCurve(oid)\<close>\<close>

definition checkSupportedCurve :: "codecs \<Rightarrow> bytes \<Rightarrow> error + unit" where
  "checkSupportedCurve C oid =
     (case OID_getName C oid of
        Inl e \<Rightarrow> Inl (UnsupportedError ''Unknown curve OID'')
      | Inr name \<Rightarrow> Inr ())"

definition curve_ed25519Legacy :: string where
  "curve_ed25519Legacy = ''ed25519Legacy''"

text \<open>
  Reading \<open>k\<close> MPIs one after the other, as the RSA, DSA and ElGamal cases do: the
  values read and the offset after them.
\<close>

fun readMPIs :: "nat \<Rightarrow> bytes \<Rightarrow> nat \<Rightarrow> error + (bytes list \<times> nat)" where
  "readMPIs 0 bs read = Inr ([], read)"
| "readMPIs (Suc k) bs read =
     andThen (readMPI (subarrayFrom bs (int read))) (\<lambda>x.
     andThen (readMPIs k bs (read + length x + 2)) (\<lambda>(xs, r).
     Inr (x # xs, r)))"

text \<open>\<open>parsePublicKeyParams(algo, bytes)\<close>: the number of bytes read and the parameters.\<close>

definition parsePublicKeyParams :: "codecs \<Rightarrow> jsnum \<Rightarrow> bytes \<Rightarrow> error + (nat \<times> params)" where
  "parsePublicKeyParams C algo bs =
    (if algo = Num publicKey_rsaEncrypt \<or> algo = Num publicKey_rsaEncryptSign
        \<or> algo = Num publicKey_rsaSign then
       andThen (readMPIs 2 bs 0) (\<lambda>(xs, read).
       Inr (read, zip [''n'', ''e''] (map Uint8Array xs)))
     else if algo = Num publicKey_dsa then
       andThen (readMPIs 4 bs 0) (\<lambda>(xs, read).
       Inr (read, zip [''p'', ''q'', ''g'', ''y''] (map Uint8Array xs)))
     else if algo = Num publicKey_elgamal then
       andThen (readMPIs 3 bs 0) (\<lambda>(xs, read).
       Inr (read, zip [''p'', ''g'', ''y''] (map Uint8Array xs)))
     else if algo = Num publicKey_ecdsa then
       andThen (OID_read C bs) (\<lambda>(n, oid).
       andThen (checkSupportedCurve C oid) (\<lambda>_.
       andThen (readMPI (subarrayFrom bs (int n))) (\<lambda>Q.
       Inr (n + length Q + 2, [(''oid'', OID oid), (''Q'', Uint8Array Q)]))))
     else if algo = Num publicKey_eddsaLegacy then
       andThen (OID_read C bs) (\<lambda>(n, oid).
       andThen (checkSupportedCurve C oid) (\<lambda>_.
       andThen (OID_getName C oid) (\<lambda>name.
       if name \<noteq> curve_ed25519Legacy then Inl (Error ''Unexpected OID for eddsaLegacy'')
       else
         andThen (readMPI (subarrayFrom bs (int n))) (\<lambda>Q.
         andThen (leftPad Q 33) (\<lambda>Q'.
         Inr (n + length Q + 2, [(''oid'', OID oid), (''Q'', Uint8Array Q')]))))))
     else if algo = Num publicKey_ecdh then
       andThen (OID_read C bs) (\<lambda>(n, oid).
       andThen (checkSupportedCurve C oid) (\<lambda>_.
       andThen (readMPI (subarrayFrom bs (int n))) (\<lambda>Q.
       andThen (KDFParams_read C (subarrayFrom bs (int (n + length Q + 2)))) (\<lambda>(m, kdf).
       Inr (n + length Q + 2 + m,
            [(''oid'', OID oid), (''Q'', Uint8Array Q), (''kdfParams'', KDFParams kdf)])))))
     else if algo = Num publicKey_ed25519 \<or> algo = Num publicKey_ed448
        \<or> algo = Num publicKey_x25519 \<or> algo = Num publicKey_x448 then
       andThen (getCurvePayloadSize C (toInt algo) None) (\<lambda>size.
       andThen (readExactSubarray bs 0 size) (\<lambda>A.
       Inr (length A, [(''A'', Uint8Array A)])))
     else if algo = Num publicKey_hmac \<or> algo = Num publicKey_aead then
       andThen (SymAlgoEnum_read C bs) (\<lambda>(n, cipher).
       andThen (getHashByteLength C (Num hash_sha256)) (\<lambda>digestLength.
       let digest = subarray bs (int n) (int (n + digestLength)) in
       Inr (n + digestLength, [(''cipher'', SymAlgoEnum cipher), (''digest'', Uint8Array digest)])))
     else if algo = Num publicKey_pqc_mlkem_x25519 then
       andThen (getCurvePayloadSize C publicKey_x25519 None) (\<lambda>size.
       andThen (readExactSubarray bs 0 size) (\<lambda>eccPublicKey.
       andThen (readExactSubarray bs (length eccPublicKey) (length eccPublicKey + 1184))
         (\<lambda>mlkemPublicKey.
       Inr (length eccPublicKey + length mlkemPublicKey,
            [(''eccPublicKey'', Uint8Array eccPublicKey),
             (''mlkemPublicKey'', Uint8Array mlkemPublicKey)]))))
     else if algo = Num publicKey_pqc_mldsa_ed25519 then
       andThen (getCurvePayloadSize C publicKey_ed25519 None) (\<lambda>size.
       andThen (readExactSubarray bs 0 size) (\<lambda>eccPublicKey.
       andThen (readExactSubarray bs (length eccPublicKey) (length eccPublicKey + 1952))
         (\<lambda>mldsaPublicKey.
       Inr (length eccPublicKey + length mldsaPublicKey,
            [(''eccPublicKey'', Uint8Array eccPublicKey),
             (''mldsaPublicKey'', Uint8Array mldsaPublicKey)]))))
     else Inl (UnsupportedError ''Unknown public key encryption algorithm.''))"


text \<open>
  \<open>parsePrivateKeyParams(algo, bytes, publicParams)\<close>. The expansion of a PQC seed
  (\<open>mlkemExpandSecretSeed\<close>, \<open>mldsaExpandSecretSeed\<close>) is a primitive.
\<close>

definition parsePrivateKeyParams ::
  "codecs \<Rightarrow> jsnum \<Rightarrow> bytes \<Rightarrow> params option \<Rightarrow> error + (nat \<times> params)" where
  "parsePrivateKeyParams C algo bs pubParams =
    (if algo = Num publicKey_rsaEncrypt \<or> algo = Num publicKey_rsaEncryptSign
        \<or> algo = Num publicKey_rsaSign then
       andThen (readMPIs 4 bs 0) (\<lambda>(xs, read).
       Inr (read, zip [''d'', ''p'', ''q'', ''u''] (map Uint8Array xs)))
     else if algo = Num publicKey_dsa \<or> algo = Num publicKey_elgamal then
       andThen (readMPIs 1 bs 0) (\<lambda>(xs, read).
       Inr (read, zip [''x''] (map Uint8Array xs)))
     else if algo = Num publicKey_ecdsa \<or> algo = Num publicKey_ecdh then
       andThen (destructure pubParams) (\<lambda>pub.
       andThen (getCurvePayloadSize C (toInt algo) (getProp pub ''oid'')) (\<lambda>payloadSize.
       andThen (readMPI (subarrayFrom bs 0)) (\<lambda>d.
       andThen (leftPad d payloadSize) (\<lambda>d'.
       Inr (length d + 2, [(''d'', Uint8Array d')])))))
     else if algo = Num publicKey_eddsaLegacy then
       andThen (destructure pubParams) (\<lambda>pub.
       andThen (getCurvePayloadSize C (toInt algo) (getProp pub ''oid'')) (\<lambda>payloadSize.
       andThen (getName C (getProp pub ''oid'')) (\<lambda>name.
       if name \<noteq> curve_ed25519Legacy then Inl (Error ''Unexpected OID for eddsaLegacy'')
       else
         andThen (readMPI (subarrayFrom bs 0)) (\<lambda>seed.
         andThen (leftPad seed payloadSize) (\<lambda>seed'.
         Inr (length seed + 2, [(''seed'', Uint8Array seed')]))))))
     else if algo = Num publicKey_ed25519 \<or> algo = Num publicKey_ed448 then
       andThen (getCurvePayloadSize C (toInt algo) None) (\<lambda>payloadSize.
       andThen (readExactSubarray bs 0 payloadSize) (\<lambda>seed.
       Inr (length seed, [(''seed'', Uint8Array seed)])))
     else if algo = Num publicKey_x25519 \<or> algo = Num publicKey_x448 then
       andThen (getCurvePayloadSize C (toInt algo) None) (\<lambda>payloadSize.
       andThen (readExactSubarray bs 0 payloadSize) (\<lambda>k.
       Inr (length k, [(''k'', Uint8Array k)])))
     else if algo = Num publicKey_hmac then
       andThen (destructure pubParams) (\<lambda>pub.
       andThen (getValue (getProp pub ''cipher'')) (\<lambda>v.
       andThen (getHashByteLength C (Num v)) (\<lambda>keySize.
       let hashSeed = subarray bs 0 32;
           keyMaterial = subarray bs 32 (int (32 + keySize))
       in Inr (32 + keySize,
               [(''hashSeed'', Uint8Array hashSeed), (''keyMaterial'', Uint8Array keyMaterial)]))))
     else if algo = Num publicKey_aead then
       andThen (destructure pubParams) (\<lambda>pub.
       let hashSeed = subarray bs 0 32 in
       andThen (getValue (getProp pub ''cipher'')) (\<lambda>v.
       andThen (getCipherParams_keySize C (Num v)) (\<lambda>keySize.
       let keyMaterial = subarray bs 32 (int (32 + keySize))
       in Inr (32 + keySize,
               [(''hashSeed'', Uint8Array hashSeed), (''keyMaterial'', Uint8Array keyMaterial)]))))
     else if algo = Num publicKey_pqc_mlkem_x25519 then
       andThen (getCurvePayloadSize C publicKey_x25519 None) (\<lambda>size.
       andThen (readExactSubarray bs 0 size) (\<lambda>eccSecretKey.
       andThen (readExactSubarray bs (length eccSecretKey) (length eccSecretKey + 64))
         (\<lambda>mlkemSeed.
       andThen (mlkemExpandSecretSeed C (toInt algo) mlkemSeed) (\<lambda>mlkemSecretKey.
       Inr (length eccSecretKey + length mlkemSeed,
            [(''eccSecretKey'', Uint8Array eccSecretKey),
             (''mlkemSecretKey'', Uint8Array mlkemSecretKey),
             (''mlkemSeed'', Uint8Array mlkemSeed)])))))
     else if algo = Num publicKey_pqc_mldsa_ed25519 then
       andThen (getCurvePayloadSize C publicKey_ed25519 None) (\<lambda>size.
       andThen (readExactSubarray bs 0 size) (\<lambda>eccSecretKey.
       andThen (readExactSubarray bs (length eccSecretKey) (length eccSecretKey + 32))
         (\<lambda>mldsaSeed.
       andThen (mldsaExpandSecretSeed C (toInt algo) mldsaSeed) (\<lambda>mldsaSecretKey.
       Inr (length eccSecretKey + length mldsaSeed,
            [(''eccSecretKey'', Uint8Array eccSecretKey),
             (''mldsaSecretKey'', Uint8Array mldsaSecretKey),
             (''mldsaSeed'', Uint8Array mldsaSeed)])))))
     else Inl (UnsupportedError ''Unknown public key encryption algorithm.''))"

text \<open>
  \<open>serializeParams(algo, params)\<close>: the parameters in the order of the object, each
  one empty when excluded, written by its class when it is not a \<open>Uint8Array\<close>, as it
  is for an algorithm with native representation, and as an MPI otherwise.
\<close>

definition algosWithNativeRepresentation :: "jsnum set" where
  "algosWithNativeRepresentation =
     {Num publicKey_ed25519, Num publicKey_x25519, Num publicKey_ed448, Num publicKey_x448,
      Num publicKey_aead, Num publicKey_hmac, Num publicKey_pqc_mlkem_x25519,
      Num publicKey_pqc_mldsa_ed25519}"

definition excludedFields :: "jsnum \<Rightarrow> string set" where
  "excludedFields algo =
     (if algo = Num publicKey_pqc_mlkem_x25519 then {''mlkemSecretKey''}
      else if algo = Num publicKey_pqc_mldsa_ed25519 then {''mldsaSecretKey''}
      else {})"

definition serializeParam :: "codecs \<Rightarrow> jsnum \<Rightarrow> string \<times> param \<Rightarrow> error + bytes" where
  "serializeParam C algo entry =
     (case entry of (name, param) \<Rightarrow>
        if name \<in> excludedFields algo then Inr []
        else case param of
               Uint8Array b \<Rightarrow>
                 Inr (if algo \<in> algosWithNativeRepresentation then b else uint8ArrayToMPI b)
             | UndefinedParam \<Rightarrow> Inl (TypeError ''Cannot read properties of undefined'')
             | _ \<Rightarrow> Inr (param_write C param))"

fun serializeEntries :: "codecs \<Rightarrow> jsnum \<Rightarrow> params \<Rightarrow> error + bytes list" where
  "serializeEntries C algo [] = Inr []"
| "serializeEntries C algo (entry # entries) =
     andThen (serializeParam C algo entry) (\<lambda>b.
     andThen (serializeEntries C algo entries) (\<lambda>bs. Inr (b # bs)))"

definition serializeParams :: "codecs \<Rightarrow> jsnum \<Rightarrow> params option \<Rightarrow> error + bytes" where
  "serializeParams C algo ps =
     (case ps of
        None \<Rightarrow> Inl (TypeError ''Cannot convert undefined or null to object'')
      | Some entries \<Rightarrow>
          andThen (serializeEntries C algo entries) (\<lambda>orderedParams.
          Inr (concat orderedParams)))"

section \<open>Key generation\<close>

text \<open>
  The generators of the primitive libraries are parameters; each gives the object the
  library call resolves to. \<open>getRandomBytes\<close> is a parameter too, which fixes the
  random choice. \<open>new OID(oid)\<close>, \<open>new KDFParams({ hash, cipher })\<close> and the enum
  classes build objects of \<open>type/\<close>.
\<close>

record generators =
  rsa_generate :: "nat \<Rightarrow> nat \<Rightarrow> error + params"
  elliptic_generate :: "param option \<Rightarrow> error + params"
  ecdhX_generate :: "nat \<Rightarrow> error + params"
  hmac_generate :: "jsnum \<Rightarrow> error + bytes"
  getRandomBytes :: "nat \<Rightarrow> bytes"
  digest_sha256 :: "bytes \<Rightarrow> bytes"
  nacl_sign_keyPair_fromSeed :: "bytes \<Rightarrow> bytes"
  ml_kem768_keygen :: "error + (bytes \<times> bytes)"
  eccdsa_generate :: "nat \<Rightarrow> error + params"
  mldsa_generate :: "nat \<Rightarrow> error + params"
  new_OID :: "param option \<Rightarrow> param"
  new_KDFParams :: "param option \<Rightarrow> param option \<Rightarrow> param"

text \<open>\<open>generate(algo)\<close> of \<open>elliptic/eddsa.js\<close>: only Ed25519 is generated.\<close>

definition eddsa_generate :: "generators \<Rightarrow> jsnum \<Rightarrow> error + params" where
  "eddsa_generate G algo =
     (if algo = Num publicKey_ed25519 then
        (let seed = getRandomBytes G 32;
             A = nacl_sign_keyPair_fromSeed G seed
         in Inr [(''A'', Uint8Array A), (''seed'', Uint8Array seed)])
      else Inl (Error ''Unsupported EdDSA algorithm''))"

text \<open>
  \<open>generate(algo)\<close> of \<open>post_quantum/kem/ml_kem.js\<close>: the key pair of
  \<open>ml_kem768.keygen()\<close>, as \<open>mlkemPublicKey\<close> and \<open>mlkemSecretKey\<close>.
\<close>

definition mlKem_generate :: "generators \<Rightarrow> jsnum \<Rightarrow> error + params" where
  "mlKem_generate G algo =
     (if algo = Num publicKey_pqc_mlkem_x25519 then
        andThen (ml_kem768_keygen G) (\<lambda>(encapsulationKey, decapsulationKey).
        Inr [(''mlkemPublicKey'', Uint8Array encapsulationKey),
             (''mlkemSecretKey'', Uint8Array decapsulationKey)])
      else Inl (Error ''Unsupported KEM algorithm''))"

text \<open>\<open>generate(algo)\<close> of the ECC part of the composite KEM (\<open>ecc_kem\<close>).\<close>

definition eccKem_generate :: "generators \<Rightarrow> jsnum \<Rightarrow> error + params" where
  "eccKem_generate G algo =
     (if algo = Num publicKey_pqc_mlkem_x25519 then
        andThen (ecdhX_generate G publicKey_x25519) (\<lambda>r.
        Inr [property ''eccPublicKey'' (getProp r ''A''),
             property ''eccSecretKey'' (getProp r ''k'')])
      else Inl (Error ''Unsupported KEM algorithm''))"

text \<open>
  \<open>generate(algo)\<close> of \<open>post_quantum/kem/kem.js\<close>: it reads \<open>mlkemPublicKey\<close>,
  \<open>mlkemSeed\<close> and \<open>mlkemSecretKey\<close> from what \<open>mlKem.generate\<close> returns.
\<close>

definition kem_generate :: "generators \<Rightarrow> jsnum \<Rightarrow> error + params" where
  "kem_generate G algo =
     andThen (eccKem_generate G algo) (\<lambda>ecc.
     andThen (mlKem_generate G algo) (\<lambda>mlkem.
     Inr [property ''eccPublicKey'' (getProp ecc ''eccPublicKey''),
          property ''eccSecretKey'' (getProp ecc ''eccSecretKey''),
          property ''mlkemPublicKey'' (getProp mlkem ''mlkemPublicKey''),
          property ''mlkemSeed'' (getProp mlkem ''mlkemSeed''),
          property ''mlkemSecretKey'' (getProp mlkem ''mlkemSecretKey'')]))"

text \<open>\<open>generate(algo)\<close> of the composite signature module (ML-DSA + Ed25519).\<close>

definition signature_generate :: "generators \<Rightarrow> jsnum \<Rightarrow> error + params" where
  "signature_generate G algo =
     (if algo = Num publicKey_pqc_mldsa_ed25519 then
        andThen (eccdsa_generate G (toInt algo)) (\<lambda>ecc.
        andThen (mldsa_generate G (toInt algo)) (\<lambda>mldsa.
        Inr [property ''eccSecretKey'' (getProp ecc ''eccSecretKey''),
             property ''eccPublicKey'' (getProp ecc ''eccPublicKey''),
             property ''mldsaSeed'' (getProp mldsa ''mldsaSeed''),
             property ''mldsaSecretKey'' (getProp mldsa ''mldsaSecretKey''),
             property ''mldsaPublicKey'' (getProp mldsa ''mldsaPublicKey'')]))
      else Inl (Error ''Unsupported signature algorithm''))"

text \<open>\<open>createSymmetricParams(key, algo)\<close>: public and private parameters.\<close>

definition createSymmetricParams :: "generators \<Rightarrow> bytes \<Rightarrow> param \<Rightarrow> params \<times> params" where
  "createSymmetricParams G key algo =
     (let seed = getRandomBytes G 32;
          bindingHash = digest_sha256 G seed
      in ([(''cipher'', algo), (''digest'', Uint8Array bindingHash)],
          [(''hashSeed'', Uint8Array seed), (''keyMaterial'', Uint8Array key)]))"

text \<open>
  \<open>generateParams(algo, bits, oid, symmetric)\<close>: the pair of \<open>publicParams\<close> and
  \<open>privateParams\<close>.
\<close>

definition generateParams ::
  "generators \<Rightarrow> codecs \<Rightarrow> jsnum \<Rightarrow> nat \<Rightarrow> param option \<Rightarrow> jsnum
     \<Rightarrow> error + (params \<times> params)" where
  "generateParams G C algo bits oid symm =
    (if algo = Num publicKey_rsaEncrypt \<or> algo = Num publicKey_rsaEncryptSign
        \<or> algo = Num publicKey_rsaSign then
       andThen (rsa_generate G bits 65537) (\<lambda>r.
       Inr ([property ''n'' (getProp r ''n''), property ''e'' (getProp r ''e'')],
            [property ''d'' (getProp r ''d''), property ''p'' (getProp r ''p''),
             property ''q'' (getProp r ''q''), property ''u'' (getProp r ''u'')]))
     else if algo = Num publicKey_ecdsa then
       andThen (elliptic_generate G oid) (\<lambda>r.
       Inr ([(''oid'', new_OID G (getProp r ''oid'')), property ''Q'' (getProp r ''Q'')],
            [property ''d'' (getProp r ''secret'')]))
     else if algo = Num publicKey_eddsaLegacy then
       andThen (elliptic_generate G oid) (\<lambda>r.
       Inr ([(''oid'', new_OID G (getProp r ''oid'')), property ''Q'' (getProp r ''Q'')],
            [property ''seed'' (getProp r ''secret'')]))
     else if algo = Num publicKey_ecdh then
       andThen (elliptic_generate G oid) (\<lambda>r.
       Inr ([(''oid'', new_OID G (getProp r ''oid'')), property ''Q'' (getProp r ''Q''),
             (''kdfParams'', new_KDFParams G (getProp r ''hash'') (getProp r ''cipher''))],
            [property ''d'' (getProp r ''secret'')]))
     else if algo = Num publicKey_ed25519 \<or> algo = Num publicKey_ed448 then
       andThen (eddsa_generate G algo) (\<lambda>r.
       Inr ([property ''A'' (getProp r ''A'')], [property ''seed'' (getProp r ''seed'')]))
     else if algo = Num publicKey_x25519 \<or> algo = Num publicKey_x448 then
       andThen (ecdhX_generate G (toInt algo)) (\<lambda>r.
       Inr ([property ''A'' (getProp r ''A'')], [property ''k'' (getProp r ''k'')]))
     else if algo = Num publicKey_hmac then
       andThen (hmac_generate G symm) (\<lambda>keyMaterial.
       Inr (createSymmetricParams G keyMaterial (HashEnum (toInt symm))))
     else if algo = Num publicKey_aead then
       andThen (getCipherParams_keySize C symm) (\<lambda>keySize.
       Inr (createSymmetricParams G (getRandomBytes G keySize) (SymAlgoEnum (toInt symm))))
     else if algo = Num publicKey_pqc_mlkem_x25519 then
       andThen (kem_generate G algo) (\<lambda>r.
       Inr ([property ''eccPublicKey'' (getProp r ''eccPublicKey''),
             property ''mlkemPublicKey'' (getProp r ''mlkemPublicKey'')],
            [property ''eccSecretKey'' (getProp r ''eccSecretKey''),
             property ''mlkemSeed'' (getProp r ''mlkemSeed''),
             property ''mlkemSecretKey'' (getProp r ''mlkemSecretKey'')]))
     else if algo = Num publicKey_pqc_mldsa_ed25519 then
       andThen (signature_generate G algo) (\<lambda>r.
       Inr ([property ''eccPublicKey'' (getProp r ''eccPublicKey''),
             property ''mldsaPublicKey'' (getProp r ''mldsaPublicKey'')],
            [property ''eccSecretKey'' (getProp r ''eccSecretKey''),
             property ''mldsaSeed'' (getProp r ''mldsaSeed''),
             property ''mldsaSecretKey'' (getProp r ''mldsaSecretKey'')]))
     else if algo = Num publicKey_dsa \<or> algo = Num publicKey_elgamal then
       Inl (Error ''Unsupported algorithm for key generation.'')
     else Inl (Error ''Unknown public key algorithm.''))"


section \<open>Operations of the Secret-Key packet\<close>

text \<open>
  What \<open>secret_key.js\<close> imports and the sources do not hold is a parameter: the
  parser of the public part it inherits, the S2K classes, HKDF, the cipher modes, the
  SHA-1 digest and the random bytes. \<open>readPublicKey\<close> gives the offset after the public
  part with the public fields it sets (version, algorithm, public parameters, what
  \<open>getFingerprintBytes()\<close> and \<open>writePublicKey()\<close> will return).
\<close>

record config =
  parseAEADEncryptedV4KeysAsLegacy :: bool
  aeadProtect :: bool
  preferredAEADAlgorithm :: jsnum

record keyEnv =
  readPublicKey :: "bytes \<Rightarrow> config
                      \<Rightarrow> error + (nat \<times> jsnum \<times> jsnum \<times> params option \<times> bytes \<times> bytes)"
  newS2KFromType :: "jsnum \<Rightarrow> error + s2kSpecifier"
  newS2KFromConfig :: "config \<Rightarrow> error + s2kSpecifier"
  s2k_read :: "s2kSpecifier \<Rightarrow> bytes \<Rightarrow> error + (nat \<times> s2kSpecifier)"
  s2k_generateSalt :: "s2kSpecifier \<Rightarrow> s2kSpecifier"
  s2k_produceKey :: "s2kSpecifier \<Rightarrow> string \<Rightarrow> nat \<Rightarrow> error + bytes"
  computeHKDF :: "nat \<Rightarrow> bytes \<Rightarrow> bytes \<Rightarrow> bytes \<Rightarrow> nat \<Rightarrow> error + bytes"
  writeTag :: bytes
  aeadMode_new :: "jsnum \<Rightarrow> jsnum \<Rightarrow> bytes \<Rightarrow> error + unit"
  aeadMode_encrypt :: "jsnum \<Rightarrow> jsnum \<Rightarrow> bytes \<Rightarrow> bytes \<Rightarrow> bytes \<Rightarrow> bytes \<Rightarrow> error + bytes"
  aeadMode_decrypt :: "jsnum \<Rightarrow> jsnum \<Rightarrow> bytes \<Rightarrow> bytes \<Rightarrow> bytes \<Rightarrow> bytes \<Rightarrow> error + bytes"
  cfb_encrypt :: "jsnum \<Rightarrow> bytes \<Rightarrow> bytes \<Rightarrow> bytes \<Rightarrow> error + bytes"
  cfb_decrypt :: "jsnum \<Rightarrow> bytes \<Rightarrow> bytes \<Rightarrow> bytes \<Rightarrow> error + bytes"
  digest_sha1 :: "bytes \<Rightarrow> bytes"
  randomBytes :: "nat \<Rightarrow> bytes"

definition s2k_gnu :: nat where "s2k_gnu = 101"

text \<open>
  \<open>produceEncryptionKey(keyVersion, s2k, passphrase, cipherAlgo, aeadMode,
  serializedPacketTag, isLegacyAEAD)\<close>. The last three arguments are \<open>undefined\<close> when
  the caller leaves them out; \<open>!aeadMode\<close> holds for \<open>undefined\<close>, \<open>null\<close> and 0.
  \<open>util.concatUint8Array\<close> is not among the sources; it throws for an element that is
  not a \<open>Uint8Array\<close>, as \<open>serializedPacketTag\<close> is when the caller leaves it out.
\<close>

definition produceEncryptionKey ::
  "keyEnv \<Rightarrow> codecs \<Rightarrow> jsnum \<Rightarrow> s2kSpecifier option \<Rightarrow> string \<Rightarrow> jsnum \<Rightarrow> jsnum
     \<Rightarrow> bytes option \<Rightarrow> bool option \<Rightarrow> error + bytes" where
  "produceEncryptionKey E C keyVersion s2kObj passphrase cipherAlgo aeadMode
     serializedPacketTag legacy =
    (case s2kObj of
       None \<Rightarrow> Inl (TypeError ''Cannot read properties of null'')
     | Some s \<Rightarrow>
         if s2k_type s = ''argon2'' \<and> \<not> truthy aeadMode then
           Inl (Error ''Using Argon2 S2K without AEAD is not allowed'')
         else if s2k_type s = ''simple'' \<and> keyVersion = Num 6 then
           Inl (Error ''Using Simple S2K with version 6 keys is not allowed'')
         else
           andThen (getCipherParams_keySize C cipherAlgo) (\<lambda>keySize.
           andThen (s2k_produceKey E s passphrase keySize) (\<lambda>derivedKey.
           if \<not> truthy aeadMode \<or> keyVersion = Num 5 \<or> legacy = Some True then
             Inr derivedKey
           else
             (case serializedPacketTag of
                None \<Rightarrow>
                  Inl (Error ''concatUint8Array: Data must be in the form of a Uint8Array'')
              | Some t \<Rightarrow>
                  (let info = concat [
                         t, [u8 (toInt keyVersion), u8 (toInt cipherAlgo), u8 (toInt aeadMode)]]
                   in computeHKDF E hash_sha256 derivedKey [] info keySize)))))"

text \<open>\<open>isDecrypted()\<close>, \<open>isDummy()\<close> and \<open>isMissingSecretKeyMaterial()\<close>\<close>

definition isDecrypted :: "secretKeyPacket \<Rightarrow> bool" where
  "isDecrypted this = (isEncrypted this = Some False)"

definition isDummy :: "secretKeyPacket \<Rightarrow> bool" where
  "isDummy this = (case s2k this of None \<Rightarrow> False | Some s \<Rightarrow> s2k_type s = ''gnu-dummy'')"

definition isMissingSecretKeyMaterial :: "secretKeyPacket \<Rightarrow> bool" where
  "isMissingSecretKeyMaterial this = (unparseableKeyMaterial this \<noteq> None \<or> isDummy this)"

text \<open>The constructor.\<close>

definition secretKey_new :: "jsnum \<Rightarrow> secretKeyPacket" where
  "secretKey_new v = \<lparr>version = v, algorithm = Null, publicParams = None,
     fingerprintBytes = [], publicKeyBytes = [], keyMaterial = None, isEncrypted = None,
     s2kUsage = Num 0, s2k = None, symmetric = Null, aead = Null, isLegacyAEAD = None,
     privateParams = None, usedModernAEAD = None, iv = None,
     unparseableKeyMaterial = None\<rparr>"

text \<open>
  An operation of the packet mutates the packet and returns or throws: its model gives
  the outcome together with the packet as the operation leaves it, also when it throws.
\<close>

type_synonym 'a outcome = "(error + 'a) \<times> secretKeyPacket"

text \<open>
  \<open>read(bytes, config)\<close>. The block under \<open>try\<close> ends by running through, by the
  \<open>return\<close> for a gnu-dummy key, or by an exception; it leaves the packet and the
  offset \<open>i\<close> as they are at that point.
\<close>

datatype flow = Continued | Returned | Threw error

definition secretKey_read_iv ::
  "codecs \<Rightarrow> config \<Rightarrow> secretKeyPacket \<Rightarrow> bytes \<Rightarrow> nat \<Rightarrow> flow \<times> secretKeyPacket \<times> nat" where
  "secretKey_read_iv C cfg this bs i =
    (if truthy (s2kUsage this) then
       (let legacy = (s2kUsage this = Num 253 \<and>
                       (version this = Num 5 \<or>
                        (version this = Num 4 \<and> parseAEADEncryptedV4KeysAsLegacy cfg)));
            this = this\<lparr>isLegacyAEAD := Some legacy\<rparr>
        in if s2kUsage this \<noteq> Num 253 \<or> legacy then
             (case getCipherParams_blockSize C (symmetric this) of
                Inl e \<Rightarrow> (Threw e, this, i)
              | Inr blockSize \<Rightarrow>
                  (let ivBytes = subarray bs (int i) (int (i + blockSize))
                   in (Continued, this\<lparr>iv := Some ivBytes, usedModernAEAD := Some False\<rparr>,
                       i + length ivBytes)))
           else
             (case getAEADMode_ivLength C (aead this) of
                Inl e \<Rightarrow> (Threw e, this, i)
              | Inr ivLength \<Rightarrow>
                  (let ivBytes = subarray bs (int i) (int (i + ivLength))
                   in (Continued, this\<lparr>iv := Some ivBytes, usedModernAEAD := Some True\<rparr>,
                       i + length ivBytes))))
     else (Continued, this, i))"

definition secretKey_read_try ::
  "keyEnv \<Rightarrow> codecs \<Rightarrow> config \<Rightarrow> secretKeyPacket \<Rightarrow> bytes \<Rightarrow> nat
     \<Rightarrow> flow \<times> secretKeyPacket \<times> nat" where
  "secretKey_read_try E C cfg this bs i0 =
    (if s2kUsage this = Num 255 \<or> s2kUsage this = Num 254 \<or> s2kUsage this = Num 253 then
       (let this = this\<lparr>symmetric := at bs i0\<rparr>;
            i = i0 + 1;
            this = (if s2kUsage this = Num 253 then this\<lparr>aead := at bs i\<rparr> else this);
            i = (if s2kUsage this = Num 253 then i + 1 else i);
            i = (if version this = Num 6 then i + 1 else i);
            s2kType = at bs i;
            i = i + 1
        in case newS2KFromType E s2kType of
             Inl e \<Rightarrow> (Threw e, this, i)
           | Inr s \<Rightarrow>
               (case s2k_read E s (subarray bs (int i) (int (length bs))) of
                  Inl e \<Rightarrow> (Threw e, this\<lparr>s2k := Some s\<rparr>, i)
                | Inr (n, s') \<Rightarrow>
                    if s2k_type s' = ''gnu-dummy'' then (Returned, this\<lparr>s2k := Some s'\<rparr>, i + n)
                    else secretKey_read_iv C cfg (this\<lparr>s2k := Some s'\<rparr>) bs (i + n)))
     else
       secretKey_read_iv C cfg
         (if truthy (s2kUsage this) then this\<lparr>symmetric := s2kUsage this\<rparr> else this) bs i0)"

definition secretKey_read_material ::
  "codecs \<Rightarrow> secretKeyPacket \<Rightarrow> bytes \<Rightarrow> nat \<Rightarrow> unit outcome" where
  "secretKey_read_material C this0 bs i0 =
    (let i = (if version this0 = Num 5 then i0 + 4 else i0);
         material = subarrayFrom bs (int i);
         this = this0\<lparr>keyMaterial := Some material,
                      isEncrypted := Some (truthy (s2kUsage this0))\<rparr>
     in if truthy (s2kUsage this) then (Inr (), this)
        else if version this \<noteq> Num 6
                \<and> writeChecksum (subarray material 0 (- 2)) \<noteq> subarrayFrom material (- 2) then
          (Inl (Error ''Key checksum mismatch''), this)
        else
          (let cleartext = (if version this = Num 6 then material
                            else subarray material 0 (- 2))
           in case parsePrivateKeyParams C (algorithm this) cleartext (publicParams this) of
                Inl (UnsupportedError m) \<Rightarrow> (Inl (UnsupportedError m), this)
              | Inl _ \<Rightarrow> (Inl (Error ''Error reading MPIs''), this)
              | Inr (n, parsed) \<Rightarrow>
                  if n < length cleartext then (Inl (Error ''Error reading MPIs''), this)
                  else (Inr (), this\<lparr>privateParams := Some parsed\<rparr>)))"

text \<open>
  What follows the block under \<open>try\<close>: nothing after the \<open>return\<close>; the key material
  after a normal end; after an exception the \<open>catch\<close> clause, which throws again for
  a key that is not encrypted and otherwise keeps the bytes of the secret part as
  \<open>unparseableKeyMaterial\<close> and goes on.
\<close>

definition secretKey_read_catch ::
  "codecs \<Rightarrow> bytes \<Rightarrow> nat \<Rightarrow> flow \<times> secretKeyPacket \<times> nat \<Rightarrow> unit outcome" where
  "secretKey_read_catch C bs startOfSecretKeyData r =
    (case r of
       (Returned, this, i) \<Rightarrow> (Inr (), this)
     | (Continued, this, i) \<Rightarrow> secretKey_read_material C this bs i
     | (Threw e, this, i) \<Rightarrow>
         if \<not> truthy (s2kUsage this) then (Inl e, this)
         else secretKey_read_material C
                (this\<lparr>unparseableKeyMaterial :=
                         Some (subarrayFrom bs (int startOfSecretKeyData)),
                      isEncrypted := Some True\<rparr>) bs i)"

definition secretKey_read ::
  "keyEnv \<Rightarrow> codecs \<Rightarrow> config \<Rightarrow> secretKeyPacket \<Rightarrow> bytes \<Rightarrow> unit outcome" where
  "secretKey_read E C cfg this0 bs =
    (case readPublicKey E bs cfg of
       Inl e \<Rightarrow> (Inl e, this0)
     | Inr (startOfSecretKeyData, v, algo, pub, fp, pk) \<Rightarrow>
         (let this = this0\<lparr>version := v, algorithm := algo, publicParams := pub,
                          fingerprintBytes := fp, publicKeyBytes := pk,
                          s2kUsage := at bs startOfSecretKeyData\<rparr>;
              i = startOfSecretKeyData + 1;
              i = (if version this = Num 5 then i + 1 else i);
              i = (if version this = Num 6 \<and> truthy (s2kUsage this) then i + 1 else i)
          in secretKey_read_catch C bs startOfSecretKeyData
               (secretKey_read_try E C cfg this bs i)))"

text \<open>
  \<open>clearPrivateParams()\<close>: every private parameter is zeroed with \<open>fill(0)\<close> and
  deleted, in the order of the object; a value without \<open>fill\<close> stops the loop with a
  TypeError and leaves the parameters not yet visited.
\<close>

fun clearParams :: "params \<Rightarrow> error + unit" where
  "clearParams [] = Inr ()"
| "clearParams ((name, Uint8Array b) # rest) = clearParams rest"
| "clearParams ((name, _) # rest) = Inl (TypeError ''param.fill is not a function'')"

fun unclearedParams :: "params \<Rightarrow> params" where
  "unclearedParams [] = []"
| "unclearedParams ((name, Uint8Array b) # rest) = unclearedParams rest"
| "unclearedParams ((name, p) # rest) = (name, p) # rest"

definition clearPrivateParams :: "secretKeyPacket \<Rightarrow> unit outcome" where
  "clearPrivateParams this =
    (if isMissingSecretKeyMaterial this then (Inr (), this)
     else case privateParams this of
            None \<Rightarrow> (Inl (TypeError ''Cannot convert undefined or null to object''), this)
          | Some ps \<Rightarrow>
              (case clearParams ps of
                 Inl e \<Rightarrow> (Inl e, this\<lparr>privateParams := Some (unclearedParams ps)\<rparr>)
               | Inr _ \<Rightarrow> (Inr (), this\<lparr>privateParams := None, isEncrypted := Some True\<rparr>)))"

text \<open>\<open>makeDummy(config)\<close>\<close>

definition makeDummy :: "keyEnv \<Rightarrow> secretKeyPacket \<Rightarrow> unit outcome" where
  "makeDummy E this =
    (if isDummy this then (Inr (), this)
     else
       (case (if isDecrypted this then clearPrivateParams this else (Inr (), this)) of
          (Inl e, this') \<Rightarrow> (Inl e, this')
        | (Inr _, this') \<Rightarrow>
            (let this'' = this'\<lparr>unparseableKeyMaterial := None, isEncrypted := None,
                                 keyMaterial := None\<rparr>
             in case newS2KFromType E (Num s2k_gnu) of
                  Inl e \<Rightarrow> (Inl e, this'')
                | Inr s \<Rightarrow>
                    (Inr (), this''\<lparr>
                       s2k := Some (s\<lparr>s2k_algorithm := 0, s2k_c := 0,
                                      s2k_type := ''gnu-dummy''\<rparr>),
                       s2kUsage := Num 254,
                       symmetric := Num symmetric_aes256,
                       isLegacyAEAD := None,
                       usedModernAEAD := None\<rparr>))))"

text \<open>\<open>encrypt(passphrase, config)\<close>\<close>

definition secretKey_encrypt ::
  "keyEnv \<Rightarrow> codecs \<Rightarrow> config \<Rightarrow> secretKeyPacket \<Rightarrow> string \<Rightarrow> unit outcome" where
  "secretKey_encrypt E C cfg this0 passphrase =
    (if isDummy this0 then (Inr (), this0)
     else if \<not> isDecrypted this0 then (Inl (Error ''Key packet is already encrypted''), this0)
     else if passphrase = [] then
       (Inl (Error ''A non-empty passphrase is required for key encryption.''), this0)
     else case newS2KFromConfig E cfg of
       Inl e \<Rightarrow> (Inl e, this0)
     | Inr s \<Rightarrow>
     (let this1 = this0\<lparr>s2k := Some (s2k_generateSalt E s)\<rparr> in
      case serializeParams C (algorithm this1) (privateParams this1) of
        Inl e \<Rightarrow> (Inl e, this1)
      | Inr cleartext \<Rightarrow>
     (let this2 = this1\<lparr>symmetric := Num symmetric_aes256\<rparr> in
      case getCipherParams_blockSize C (symmetric this2) of
        Inl e \<Rightarrow> (Inl e, this2)
      | Inr blockSize \<Rightarrow>
      if aeadProtect cfg then
        (let this3 = this2\<lparr>s2kUsage := Num 253, aead := preferredAEADAlgorithm cfg\<rparr> in
         case getAEADMode_ivLength C (aead this3) of
           Inl e \<Rightarrow> (Inl e, this3)
         | Inr ivLength \<Rightarrow>
        (let legacy = (version this3 = Num 5);
             this4 = this3\<lparr>isLegacyAEAD := Some legacy, usedModernAEAD := Some (\<not> legacy)\<rparr>;
             serializedPacketTag = writeTag E
         in case produceEncryptionKey E C (version this4) (s2k this4) passphrase
                   (symmetric this4) (aead this4) (Some serializedPacketTag)
                   (isLegacyAEAD this4) of
              Inl e \<Rightarrow> (Inl e, this4)
            | Inr key \<Rightarrow>
           case aeadMode_new E (aead this4) (symmetric this4) key of
              Inl e \<Rightarrow> (Inl e, this4)
            | Inr _ \<Rightarrow>
           (let ivBytes = (if legacy then randomBytes E blockSize else randomBytes E ivLength);
                this5 = this4\<lparr>iv := Some ivBytes\<rparr>;
                associateData = (if legacy then []
                                 else concat [serializedPacketTag, publicKeyBytes this5])
            in case aeadMode_encrypt E (aead this5) (symmetric this5) key cleartext
                      (subarray ivBytes 0 (int ivLength)) associateData of
                 Inl e \<Rightarrow> (Inl e, this5)
               | Inr encryptedBytes \<Rightarrow>
                   (Inr (), this5\<lparr>keyMaterial := Some encryptedBytes\<rparr>))))
      else
        (let this3 = this2\<lparr>s2kUsage := Num 254, usedModernAEAD := Some False\<rparr> in
         case produceEncryptionKey E C (version this3) (s2k this3) passphrase
                (symmetric this3) Undefined None None of
           Inl e \<Rightarrow> (Inl e, this3)
         | Inr key \<Rightarrow>
        (let ivBytes = randomBytes E blockSize;
             this4 = this3\<lparr>iv := Some ivBytes\<rparr>
         in case cfb_encrypt E (symmetric this4) key
                   (concat [cleartext, digest_sha1 E cleartext]) ivBytes of
              Inl e \<Rightarrow> (Inl e, this4)
            | Inr encryptedBytes \<Rightarrow>
                (Inr (), this4\<lparr>keyMaterial := Some encryptedBytes\<rparr>))))))"


text \<open>
  \<open>decrypt(passphrase)\<close>: \<open>false\<close> for a dummy key, nothing (\<open>None\<close>) after a
  decryption. An AEAD failure with the message \<open>Authentication tag mismatch\<close> is
  rethrown as an incorrect passphrase; \<open>iv\<close> is read with \<open>this.iv.subarray\<close>, a
  TypeError when it was never assigned.
\<close>

definition secretKey_decrypt ::
  "keyEnv \<Rightarrow> codecs \<Rightarrow> secretKeyPacket \<Rightarrow> string \<Rightarrow> bool option outcome" where
  "secretKey_decrypt E C this passphrase =
    (if isDummy this then (Inr (Some False), this)
     else if unparseableKeyMaterial this \<noteq> None then
       (Inl (Error ''Key packet cannot be decrypted: unsupported S2K or cipher algo''), this)
     else if isDecrypted this then (Inl (Error ''Key packet is already decrypted.''), this)
     else if s2kUsage this \<noteq> Num 254 \<and> s2kUsage this \<noteq> Num 253 then
       (if s2kUsage this = Num 255 then
          (Inl (Error ''Encrypted private key is authenticated using an insecure two-byte hash''),
           this)
        else
          (Inl (Error ''Private key is encrypted using an insecure S2K function: unsalted MD5''),
           this))
     else
       (case
          andThen (produceEncryptionKey E C (version this) (s2k this) passphrase
                     (symmetric this) (aead this) (Some (writeTag E)) (isLegacyAEAD this))
            (\<lambda>key.
          andThen
            (if s2kUsage this = Num 253 then
               andThen (getAEADMode_ivLength C (aead this)) (\<lambda>ivLength.
               andThen (aeadMode_new E (aead this) (symmetric this) key) (\<lambda>_.
               case iv this of
                 None \<Rightarrow> Inl (TypeError ''Cannot read properties of undefined'')
               | Some ivBytes \<Rightarrow>
                   (let associateData =
                          (if isLegacyAEAD this = Some True then []
                           else concat [writeTag E, publicKeyBytes this])
                    in case aeadMode_decrypt E (aead this) (symmetric this) key
                              (case keyMaterial this of None \<Rightarrow> [] | Some m \<Rightarrow> m)
                              (subarray ivBytes 0 (int ivLength)) associateData of
                         Inl e \<Rightarrow>
                           if message e = ''Authentication tag mismatch'' then
                             Inl (Error (''Incorrect key passphrase: '' @ message e))
                           else Inl e
                       | Inr cleartext \<Rightarrow> Inr cleartext)))
             else
               andThen (cfb_decrypt E (symmetric this) key
                          (case keyMaterial this of None \<Rightarrow> [] | Some m \<Rightarrow> m)
                          (case iv this of None \<Rightarrow> [] | Some ivBytes \<Rightarrow> ivBytes))
                 (\<lambda>cleartextWithHash.
               let cleartext = subarray cleartextWithHash 0 (- 20) in
               if digest_sha1 E cleartext \<noteq> subarrayFrom cleartextWithHash (- 20) then
                 Inl (Error ''Incorrect key passphrase'')
               else Inr cleartext))
            (\<lambda>cleartext.
          case parsePrivateKeyParams C (algorithm this) cleartext (publicParams this) of
            Inl e \<Rightarrow> Inl (Error ''Error reading MPIs'')
          | Inr (n, parsed) \<Rightarrow> Inr parsed))
        of
          Inl e \<Rightarrow> (Inl e, this)
        | Inr parsed \<Rightarrow>
            (Inr None, this\<lparr>privateParams := Some parsed, isEncrypted := Some False,
                             keyMaterial := None, s2kUsage := Num 0, aead := Null,
                             symmetric := Null, isLegacyAEAD := None\<rparr>)))"

definition curve_curve25519Legacy :: string where
  "curve_curve25519Legacy = ''curve25519Legacy''"

text \<open>
  \<open>generate(bits, curve, symmetric)\<close>; \<open>curveName\<close> is the name \<open>curve\<close> is compared
  with and \<open>curve\<close> what \<open>generateParams\<close> receives.
\<close>

definition secretKey_generate ::
  "generators \<Rightarrow> codecs \<Rightarrow> secretKeyPacket \<Rightarrow> nat \<Rightarrow> string \<Rightarrow> param option \<Rightarrow> jsnum
     \<Rightarrow> unit outcome" where
  "secretKey_generate G C this bits curveName curve symm =
    (if version this = Num 6 \<and>
        ((algorithm this = Num publicKey_ecdh \<and> curveName = curve_curve25519Legacy)
         \<or> algorithm this = Num publicKey_eddsaLegacy) then
       (Inl (Error ''Cannot generate v6 keys of type ecc with this curve''), this)
     else if version this \<noteq> Num 6 \<and> algorithm this = Num publicKey_pqc_mldsa_ed25519 then
       (Inl (Error ''Cannot generate signing keys of type pqc; generate a v6 key instead''), this)
     else case generateParams G C (algorithm this) bits curve symm of
            Inl e \<Rightarrow> (Inl e, this)
          | Inr (pub, priv) \<Rightarrow>
              (Inr (), this\<lparr>privateParams := Some priv, publicParams := Some pub,
                             isEncrypted := Some False\<rparr>))"


section \<open>Signatures: \<open>crypto/signature.js\<close>\<close>

text \<open>
  The signature primitives are parameters. A primitive of a case that carries no
  check of its own receives the hash algorithm, the parameter objects, the data and
  the digest, and gives the signature parameters (or the verdict).
\<close>

record sigPrims =
  rsa_sign :: "jsnum \<Rightarrow> params \<Rightarrow> params \<Rightarrow> bytes \<Rightarrow> bytes \<Rightarrow> error + bytes"
  rsa_verify :: "jsnum \<Rightarrow> bytes \<Rightarrow> bytes \<Rightarrow> params \<Rightarrow> bytes \<Rightarrow> error + bool"
  dsa_sign :: "jsnum \<Rightarrow> params \<Rightarrow> params \<Rightarrow> bytes \<Rightarrow> error + params"
  dsa_verify :: "jsnum \<Rightarrow> params \<Rightarrow> params \<Rightarrow> bytes \<Rightarrow> error + bool"
  ecdsa_sign :: "jsnum \<Rightarrow> params \<Rightarrow> params \<Rightarrow> bytes \<Rightarrow> bytes \<Rightarrow> error + params"
  ecdsa_verify :: "jsnum \<Rightarrow> bytes \<Rightarrow> bytes \<Rightarrow> params \<Rightarrow> bytes \<Rightarrow> bytes \<Rightarrow> error + bool"
  eddsaLegacy_sign :: "jsnum \<Rightarrow> params \<Rightarrow> params \<Rightarrow> bytes \<Rightarrow> bytes \<Rightarrow> error + params"
  eddsaLegacy_verify :: "jsnum \<Rightarrow> bytes \<Rightarrow> bytes \<Rightarrow> params \<Rightarrow> bytes \<Rightarrow> bytes \<Rightarrow> error + bool"
  nacl_sign_detached :: "bytes \<Rightarrow> bytes \<Rightarrow> bytes"
  nacl_sign_detached_verify :: "bytes \<Rightarrow> param option \<Rightarrow> param option \<Rightarrow> bool"
  checkEdDSAFaultySignatures :: bool
  hmac_sign :: "param option \<Rightarrow> param option \<Rightarrow> bytes \<Rightarrow> error + bytes"
  hmac_verify :: "param option \<Rightarrow> param option \<Rightarrow> param option \<Rightarrow> bytes \<Rightarrow> error + bool"
  eccdsa_sign :: "nat \<Rightarrow> jsnum \<Rightarrow> param option \<Rightarrow> param option \<Rightarrow> bytes \<Rightarrow> error + bytes"
  eccdsa_verify :: "nat \<Rightarrow> jsnum \<Rightarrow> param option \<Rightarrow> bytes \<Rightarrow> param option \<Rightarrow> error + bool"
  mldsa_sign :: "nat \<Rightarrow> param option \<Rightarrow> bytes \<Rightarrow> error + bytes"
  mldsa_verify :: "nat \<Rightarrow> param option \<Rightarrow> bytes \<Rightarrow> param option \<Rightarrow> error + bool"

subsection \<open>\<open>elliptic/eddsa.js\<close>\<close>

text \<open>\<open>getPreferredHashAlgo(algo)\<close>: SHA-256 for Ed25519, an exception otherwise.\<close>

definition eddsa_getPreferredHashAlgo :: "jsnum \<Rightarrow> error + jsnum" where
  "eddsa_getPreferredHashAlgo algo =
     (if algo = Num publicKey_ed25519 then Inr (Num hash_sha256)
      else Inl (Error ''Unknown EdDSA algo''))"

text \<open>The test both modules make before an EdDSA operation.\<close>

definition eddsa_hashTooWeak :: "codecs \<Rightarrow> jsnum \<Rightarrow> jsnum \<Rightarrow> error + bool" where
  "eddsa_hashTooWeak C algo hashAlgo =
     andThen (getHashByteLength C hashAlgo) (\<lambda>len.
     andThen (eddsa_getPreferredHashAlgo algo) (\<lambda>preferred.
     andThen (getHashByteLength C preferred) (\<lambda>preferredLen.
     Inr (len < preferredLen))))"

text \<open>\<open>sign(algo, hashAlgo, message, publicKey, privateKey, hashed)\<close>\<close>

definition eddsa_sign ::
  "sigPrims \<Rightarrow> codecs \<Rightarrow> jsnum \<Rightarrow> jsnum \<Rightarrow> bytes \<Rightarrow> param option \<Rightarrow> param option \<Rightarrow> bytes
     \<Rightarrow> error + params" where
  "eddsa_sign S C algo hashAlgo msg publicKey privateKey hashed =
     andThen (eddsa_hashTooWeak C algo hashAlgo) (\<lambda>weak.
     if weak then Inl (Error ''Hash algorithm too weak for EdDSA.'')
     else if algo = Num publicKey_ed25519 then
       andThen (bytesOf privateKey) (\<lambda>sk.
       andThen (bytesOf publicKey) (\<lambda>pk.
       let secretKey = concat [sk, pk];
           signature = nacl_sign_detached S hashed secretKey
       in if checkEdDSAFaultySignatures S
             \<and> \<not> nacl_sign_detached_verify S hashed (Some (Uint8Array signature)) publicKey then
            Inl (Error ''Transient signing failure'')
          else Inr [(''RS'', Uint8Array signature)]))
     else Inl (Error ''Unsupported EdDSA algorithm''))"

text \<open>\<open>verify(algo, hashAlgo, { RS }, m, publicKey, hashed)\<close>\<close>

definition eddsa_verify ::
  "sigPrims \<Rightarrow> codecs \<Rightarrow> jsnum \<Rightarrow> jsnum \<Rightarrow> params option \<Rightarrow> bytes \<Rightarrow> param option \<Rightarrow> bytes
     \<Rightarrow> error + bool" where
  "eddsa_verify S C algo hashAlgo signature m publicKey hashed =
     andThen (destructure signature) (\<lambda>sig.
     andThen (eddsa_hashTooWeak C algo hashAlgo) (\<lambda>weak.
     if weak then Inl (Error ''Hash algorithm too weak for EdDSA.'')
     else if algo = Num publicKey_ed25519 then
       Inr (nacl_sign_detached_verify S hashed (getProp sig ''RS'') publicKey)
     else Inl (Error ''Unsupported EdDSA algorithm'')))"

subsection \<open>The composite signature module (ML-DSA + Ed25519)\<close>

text \<open>\<open>isCompatibleHashAlgo(signatureAlgo, hashAlgo)\<close>\<close>

definition isCompatibleHashAlgo :: "codecs \<Rightarrow> jsnum \<Rightarrow> jsnum \<Rightarrow> error + bool" where
  "isCompatibleHashAlgo C signatureAlgo hashAlgo =
     (if signatureAlgo = Num publicKey_pqc_mldsa_ed25519 then
        andThen (getHashByteLength C hashAlgo) (\<lambda>len. Inr (len \<ge> 32))
      else Inl (Error ''Unsupported signature algorithm''))"

text \<open>
  \<open>sign(signatureAlgo, hashAlgo, eccSecretKey, eccPublicKey, mldsaSecretKey,
  dataDigest)\<close>
\<close>

definition pqc_sign ::
  "sigPrims \<Rightarrow> codecs \<Rightarrow> jsnum \<Rightarrow> jsnum \<Rightarrow> param option \<Rightarrow> param option \<Rightarrow> param option
     \<Rightarrow> bytes \<Rightarrow> error + params" where
  "pqc_sign S C signatureAlgo hashAlgo eccSecretKey eccPublicKey mldsaSecretKey dataDigest =
     andThen (isCompatibleHashAlgo C signatureAlgo hashAlgo) (\<lambda>compatible.
     if \<not> compatible then
       Inl (Error ''Unexpected hash algorithm for PQC signature: digest size too short'')
     else if signatureAlgo = Num publicKey_pqc_mldsa_ed25519 then
       andThen (eccdsa_sign S (toInt signatureAlgo) hashAlgo eccSecretKey eccPublicKey dataDigest)
         (\<lambda>eccSignature.
       andThen (mldsa_sign S (toInt signatureAlgo) mldsaSecretKey dataDigest)
         (\<lambda>mldsaSignature.
       Inr [(''eccSignature'', Uint8Array eccSignature),
            (''mldsaSignature'', Uint8Array mldsaSignature)]))
     else Inl (Error ''Unsupported signature algorithm''))"

text \<open>
  \<open>verify(signatureAlgo, hashAlgo, eccPublicKey, mldsaPublicKey, dataDigest,
  { eccSignature, mldsaSignature })\<close>: both verifications are started, then awaited
  in turn, the second one only if the first holds.
\<close>

definition pqc_verify ::
  "sigPrims \<Rightarrow> codecs \<Rightarrow> jsnum \<Rightarrow> jsnum \<Rightarrow> param option \<Rightarrow> param option \<Rightarrow> bytes
     \<Rightarrow> params option \<Rightarrow> error + bool" where
  "pqc_verify S C signatureAlgo hashAlgo eccPublicKey mldsaPublicKey dataDigest signature =
     andThen (destructure signature) (\<lambda>sig.
     andThen (isCompatibleHashAlgo C signatureAlgo hashAlgo) (\<lambda>compatible.
     if \<not> compatible then
       Inl (Error ''Unexpected hash algorithm for PQC signature: digest size too short'')
     else if signatureAlgo = Num publicKey_pqc_mldsa_ed25519 then
       andThen (eccdsa_verify S (toInt signatureAlgo) hashAlgo eccPublicKey dataDigest
                  (getProp sig ''eccSignature'')) (\<lambda>eccVerified.
       if eccVerified then
         mldsa_verify S (toInt signatureAlgo) mldsaPublicKey dataDigest
           (getProp sig ''mldsaSignature'')
       else Inr False)
     else Inl (Error ''Unsupported signature algorithm'')))"


subsection \<open>The dispatcher of signatures\<close>

text \<open>
  \<open>sign(algo, hashAlgo, publicKeyParams, privateKeyParams, data, hashed)\<close>. The EdDSA
  and PQC cases test the digest size before they read the key parameters.
\<close>

definition sign ::
  "sigPrims \<Rightarrow> codecs \<Rightarrow> jsnum \<Rightarrow> jsnum \<Rightarrow> params option \<Rightarrow> params option \<Rightarrow> bytes
     \<Rightarrow> bytes \<Rightarrow> error + params" where
  "sign S C algo hashAlgo publicKeyParams privateKeyParams data hashed =
    (case (publicKeyParams, privateKeyParams) of
       (Some pub, Some priv) \<Rightarrow>
         if algo = Num publicKey_rsaEncryptSign \<or> algo = Num publicKey_rsaEncrypt
            \<or> algo = Num publicKey_rsaSign then
           andThen (rsa_sign S hashAlgo pub priv data hashed) (\<lambda>s.
           Inr [(''s'', Uint8Array s)])
         else if algo = Num publicKey_dsa then dsa_sign S hashAlgo pub priv hashed
         else if algo = Num publicKey_elgamal then
           Inl (Error ''Signing with Elgamal is not defined in the OpenPGP standard.'')
         else if algo = Num publicKey_ecdsa then ecdsa_sign S hashAlgo pub priv data hashed
         else if algo = Num publicKey_eddsaLegacy then
           andThen (getHashByteLength C hashAlgo) (\<lambda>len.
           andThen (getHashByteLength C (Num hash_sha256)) (\<lambda>minLen.
           if len < minLen then Inl (Error ''Hash algorithm too weak for EdDSALegacy.'')
           else eddsaLegacy_sign S hashAlgo pub priv data hashed))
         else if algo = Num publicKey_ed25519 \<or> algo = Num publicKey_ed448 then
           andThen (eddsa_hashTooWeak C algo hashAlgo) (\<lambda>weak.
           if weak then Inl (Error ''Hash algorithm too weak for EdDSA.'')
           else eddsa_sign S C algo hashAlgo data (getProp pub ''A'') (getProp priv ''seed'')
                  hashed)
         else if algo = Num publicKey_hmac then
           andThen (hmac_sign S (getProp pub ''cipher'') (getProp priv ''keyMaterial'') hashed)
             (\<lambda>mac. Inr [(''mac'', ShortByteString mac)])
         else if algo = Num publicKey_pqc_mldsa_ed25519 then
           andThen (isCompatibleHashAlgo C algo hashAlgo) (\<lambda>compatible.
           if \<not> compatible then
             Inl (Error ''Unexpected hash algorithm for PQC signature: digest size too short'')
           else pqc_sign S C algo hashAlgo (getProp priv ''eccSecretKey'')
                  (getProp pub ''eccPublicKey'') (getProp priv ''mldsaSecretKey'') hashed)
         else Inl (Error ''Unknown signature algorithm.'')
     | _ \<Rightarrow> Inl (Error ''Missing key parameters''))"

text \<open>
  \<open>verify(algo, hashAlgo, signature, publicParams, privateParams, data, hashed)\<close>
\<close>

definition verify ::
  "sigPrims \<Rightarrow> codecs \<Rightarrow> jsnum \<Rightarrow> jsnum \<Rightarrow> params option \<Rightarrow> params option \<Rightarrow> params option
     \<Rightarrow> bytes \<Rightarrow> bytes \<Rightarrow> error + bool" where
  "verify S C algo hashAlgo signature pubParams privParams data hashed =
    (if algo = Num publicKey_rsaEncryptSign \<or> algo = Num publicKey_rsaEncrypt
        \<or> algo = Num publicKey_rsaSign then
       andThen (destructure pubParams) (\<lambda>pub.
       andThen (destructure signature) (\<lambda>sig.
       andThen (bytesOf (getProp sig ''s'')) (\<lambda>s.
       andThen (bytesOf (getProp pub ''n'')) (\<lambda>n.
       andThen (leftPad s (length n)) (\<lambda>padded.
       rsa_verify S hashAlgo data padded pub hashed)))))
     else if algo = Num publicKey_dsa then
       andThen (destructure pubParams) (\<lambda>pub.
       andThen (destructure signature) (\<lambda>sig.
       dsa_verify S hashAlgo sig pub hashed))
     else if algo = Num publicKey_ecdsa then
       andThen (destructure pubParams) (\<lambda>pub.
       andThen (CurveWithOID_payloadSize C (getProp pub ''oid'')) (\<lambda>curveSize.
       andThen (destructure signature) (\<lambda>sig.
       andThen (bytesOf (getProp sig ''r'')) (\<lambda>r.
       andThen (leftPad r curveSize) (\<lambda>r'.
       andThen (bytesOf (getProp sig ''s'')) (\<lambda>s.
       andThen (leftPad s curveSize) (\<lambda>s'.
       ecdsa_verify S hashAlgo r' s' pub data hashed)))))))
     else if algo = Num publicKey_eddsaLegacy then
       andThen (getHashByteLength C hashAlgo) (\<lambda>len.
       andThen (getHashByteLength C (Num hash_sha256)) (\<lambda>minLen.
       if len < minLen then Inl (Error ''Hash algorithm too weak for EdDSALegacy.'')
       else
         andThen (destructure pubParams) (\<lambda>pub.
         andThen (CurveWithOID_payloadSize C (getProp pub ''oid'')) (\<lambda>curveSize.
         andThen (destructure signature) (\<lambda>sig.
         andThen (bytesOf (getProp sig ''r'')) (\<lambda>r.
         andThen (leftPad r curveSize) (\<lambda>r'.
         andThen (bytesOf (getProp sig ''s'')) (\<lambda>s.
         andThen (leftPad s curveSize) (\<lambda>s'.
         eddsaLegacy_verify S hashAlgo r' s' pub data hashed)))))))))
     else if algo = Num publicKey_ed25519 \<or> algo = Num publicKey_ed448 then
       andThen (eddsa_hashTooWeak C algo hashAlgo) (\<lambda>weak.
       if weak then Inl (Error ''Hash algorithm too weak for EdDSA.'')
       else
         andThen (destructure pubParams) (\<lambda>pub.
         eddsa_verify S C algo hashAlgo signature data (getProp pub ''A'') hashed))
     else if algo = Num publicKey_hmac then
       (if privParams = None then
          Inl (Error ''Cannot verify HMAC signature with symmetric key missing private parameters'')
        else
          andThen (destructure pubParams) (\<lambda>pub.
          andThen (destructure privParams) (\<lambda>priv.
          andThen (destructure signature) (\<lambda>sig.
          andThen (dataOf (getProp sig ''mac'')) (\<lambda>mac_data.
          hmac_verify S (getProp pub ''cipher'') (getProp priv ''keyMaterial'') mac_data
            hashed)))))
     else if algo = Num publicKey_pqc_mldsa_ed25519 then
       andThen (isCompatibleHashAlgo C algo hashAlgo) (\<lambda>compatible.
       if \<not> compatible then
         Inl (Error ''Unexpected hash algorithm for PQC signature: digest size too short'')
       else
         andThen (destructure pubParams) (\<lambda>pub.
         pqc_verify S C algo hashAlgo (getProp pub ''eccPublicKey'')
           (getProp pub ''mldsaPublicKey'') hashed signature))
     else Inl (Error ''Unknown signature algorithm.''))"


section \<open>More instances for concrete runs\<close>

definition sigPrims_example :: sigPrims where
  "sigPrims_example = \<lparr>
     rsa_sign = (\<lambda>hashAlgo pub priv d hashed. Inr hashed),
     rsa_verify = (\<lambda>hashAlgo d s pub hashed. Inr (s = hashed)),
     dsa_sign = (\<lambda>hashAlgo pub priv hashed. Inr [(''r'', Uint8Array hashed), (''s'', Uint8Array hashed)]),
     dsa_verify = (\<lambda>hashAlgo sig pub hashed. Inr True),
     ecdsa_sign = (\<lambda>hashAlgo pub priv d hashed. Inr [(''r'', Uint8Array hashed), (''s'', Uint8Array hashed)]),
     ecdsa_verify = (\<lambda>hashAlgo r s pub d hashed. Inr (r = hashed)),
     eddsaLegacy_sign = (\<lambda>hashAlgo pub priv d hashed. Inr [(''r'', Uint8Array hashed), (''s'', Uint8Array hashed)]),
     eddsaLegacy_verify = (\<lambda>hashAlgo r s pub d hashed. Inr (r = hashed)),
     nacl_sign_detached = (\<lambda>hashed secretKey. hashed @ secretKey),
     nacl_sign_detached_verify = (\<lambda>hashed sig pk. True),
     checkEdDSAFaultySignatures = True,
     hmac_sign = (\<lambda>cipher keyMaterial hashed. Inr hashed),
     hmac_verify = (\<lambda>cipher keyMaterial mac hashed. Inr True),
     eccdsa_sign = (\<lambda>algo hashAlgo sk pk digest. Inr digest),
     eccdsa_verify = (\<lambda>algo hashAlgo pk digest sig. Inr True),
     mldsa_sign = (\<lambda>algo sk digest. Inr digest),
     mldsa_verify = (\<lambda>algo pk digest sig. Inr True)\<rparr>"

definition s2k_example :: "string \<Rightarrow> s2kSpecifier" where
  "s2k_example t = \<lparr>s2k_type = t, s2k_algorithm = 8, s2k_c = 96, s2k_state = []\<rparr>"

fun s2kFromType_example :: "jsnum \<Rightarrow> error + s2kSpecifier" where
  "s2kFromType_example (Num n) =
     (if n = 0 then Inr (s2k_example ''simple'')
      else if n = 1 then Inr (s2k_example ''salted'')
      else if n = 3 then Inr (s2k_example ''iterated'')
      else if n = 4 then Inr (s2k_example ''argon2'')
      else if n = s2k_gnu then Inr (s2k_example ''gnu'')
      else Inl (UnsupportedError ''Unsupported S2K type''))"
| "s2kFromType_example _ = Inl (UnsupportedError ''Unsupported S2K type'')"

definition keyEnv_example :: keyEnv where
  "keyEnv_example = \<lparr>
     readPublicKey = (\<lambda>bs cfg. Inr (2, at bs 0, at bs 1, Some [(''A'', Uint8Array [9])], [], take 2 bs)),
     newS2KFromType = s2kFromType_example,
     newS2KFromConfig = (\<lambda>cfg. Inr (s2k_example ''iterated'')),
     s2k_read = (\<lambda>s bs. Inr (0, s)),
     s2k_generateSalt = (\<lambda>s. s\<lparr>s2k_state := [1, 2, 3, 4, 5, 6, 7, 8]\<rparr>),
     s2k_produceKey = (\<lambda>s passphrase n. Inr (replicate n 7)),
     computeHKDF = (\<lambda>h key salt info n. Inr (take n (info @ key))),
     writeTag = [197],
     aeadMode_new = (\<lambda>mode cipher key. Inr ()),
     aeadMode_encrypt = (\<lambda>mode cipher key d ivBytes ad. Inr (d @ key)),
     aeadMode_decrypt = (\<lambda>mode cipher key d ivBytes ad. Inr (take (length d - length key) d)),
     cfb_encrypt = (\<lambda>cipher key d ivBytes. Inr d),
     cfb_decrypt = (\<lambda>cipher key d ivBytes. Inr d),
     digest_sha1 = (\<lambda>d. replicate 20 0),
     randomBytes = (\<lambda>n. replicate n 1)\<rparr>"

definition config_example :: config where
  "config_example = \<lparr>parseAEADEncryptedV4KeysAsLegacy = False, aeadProtect = True,
     preferredAEADAlgorithm = Num 2\<rparr>"

definition generators_example :: generators where
  "generators_example = \<lparr>
     rsa_generate = (\<lambda>bits e. Inr [(''n'', Uint8Array [187]), (''e'', Uint8Array [1, 0, 1]),
        (''d'', Uint8Array [23]), (''p'', Uint8Array [17]), (''q'', Uint8Array [11]),
        (''u'', Uint8Array [14])]),
     elliptic_generate = (\<lambda>oid. Inr [(''oid'', Uint8Array [1, 2]), (''Q'', Uint8Array [4, 1, 2]),
        (''secret'', Uint8Array (replicate 32 3))]),
     ecdhX_generate = (\<lambda>algo. Inr [(''A'', Uint8Array (replicate 32 5)),
        (''k'', Uint8Array (replicate 32 6))]),
     hmac_generate = (\<lambda>h. Inr (replicate 32 8)),
     getRandomBytes = (\<lambda>n. replicate n 1),
     digest_sha256 = (\<lambda>d. replicate 32 2),
     nacl_sign_keyPair_fromSeed = (\<lambda>seed. map (\<lambda>b. b + 1) seed),
     ml_kem768_keygen = Inr (replicate 1184 7, replicate 2400 9),
     eccdsa_generate = (\<lambda>algo. Inr [(''eccSecretKey'', Uint8Array (replicate 32 3)),
        (''eccPublicKey'', Uint8Array (replicate 32 4))]),
     mldsa_generate = (\<lambda>algo. Inr [(''mldsaSeed'', Uint8Array (replicate 32 5)),
        (''mldsaSecretKey'', Uint8Array (replicate 64 5)),
        (''mldsaPublicKey'', Uint8Array (replicate 1952 6))]),
     new_OID = (\<lambda>oid. case oid of Some (Uint8Array b) \<Rightarrow> OID b | _ \<Rightarrow> OID []),
     new_KDFParams = (\<lambda>h c. KDFParams [3, 1, 8, 7])\<rparr>"


section \<open>Invariants of the Secret-Key packet\<close>

text \<open>
  The invariant as the spec words it, \<open>isEncrypted \<Leftrightarrow> privateParams == null\<close>, with
  \<open>isEncrypted\<close> read as a condition (it holds when the field is \<open>true\<close>).
\<close>

definition invariant_spec :: "secretKeyPacket \<Rightarrow> bool" where
  "invariant_spec this = ((isEncrypted this = Some True) = (privateParams this = None))"

text \<open>
  The invariant as the spec explains it: secret material is available in decrypted form
  (\<open>privateParams\<close> is not \<open>null\<close>) exactly when the packet is marked decrypted, which
  in the source is \<open>isDecrypted()\<close>, that is \<open>this.isEncrypted === false\<close>.
\<close>

definition decryptedIffPrivateParams :: "secretKeyPacket \<Rightarrow> bool" where
  "decryptedIffPrivateParams this = (isDecrypted this = (privateParams this \<noteq> None))"

text \<open>
  A packet that holds a decrypted X25519 key, and the same packet when it also keeps
  unparseable key material.
\<close>

definition secretKey_example :: secretKeyPacket where
  "secretKey_example = (secretKey_new (Num 4))\<lparr>
     algorithm := Num publicKey_x25519,
     publicParams := Some [(''A'', Uint8Array (replicate 32 5))],
     privateParams := Some [(''k'', Uint8Array (replicate 32 6))],
     isEncrypted := Some False\<rparr>"

definition secretKey_unparseable_example :: secretKeyPacket where
  "secretKey_unparseable_example =
     secretKey_example\<lparr>unparseableKeyMaterial := Some [254, 9, 99, 1, 2, 3]\<rparr>"

text \<open>
  The bytes of three Secret-Key packets as \<open>keyEnv_example\<close> reads them (version,
  algorithm, then the secret part): an X25519 key that is not protected (S2K usage 0,
  32 key bytes, checksum), the same key with a wrong checksum, and a key protected
  with an S2K specifier of a type that is not supported (99).
\<close>

definition secretKeyBytes_plain :: bytes where
  "secretKeyBytes_plain = [4, 25, 0] @ replicate 32 6 @ [0, 192]"

definition secretKeyBytes_badChecksum :: bytes where
  "secretKeyBytes_badChecksum = [4, 25, 0] @ replicate 32 6 @ [0, 0]"

definition secretKeyBytes_unsupportedS2K :: bytes where
  "secretKeyBytes_unsupportedS2K = [4, 25, 254, 9, 99, 1, 2, 3]"


section \<open>Properties\<close>

lemmas publicKey_defs =
  publicKey_rsaEncryptSign_def publicKey_rsaEncrypt_def publicKey_rsaSign_def publicKey_elgamal_def publicKey_dsa_def publicKey_ecdh_def publicKey_ecdsa_def
  publicKey_eddsaLegacy_def publicKey_x25519_def publicKey_x448_def publicKey_ed25519_def publicKey_ed448_def publicKey_hmac_def publicKey_aead_def
  publicKey_pqc_mlkem_x25519_def publicKey_pqc_mldsa_ed25519_def

lemmas hash_defs =
  hash_sha1_def hash_sha256_def hash_sha384_def hash_sha512_def hash_sha224_def hash_sha3_256_def hash_sha3_512_def

lemmas symmetric_defs = symmetric_aes128_def symmetric_aes192_def symmetric_aes256_def

subsection \<open>The KEM key combiner\<close>

lemma encodeUTF8_domSep_length: "length (encodeUTF8 ''OpenPGPCompositeKDFv1'') = 21"
  by (simp add: encodeUTF8_def)

text \<open>
  C1, as stated: the combiner of the dispatched module digests
  \<open>counter(0,0,0,1) \<parallel> eccShare \<parallel> eccCipherText \<parallel> eccPublicKey \<parallel> mlkemShare \<parallel>
  mlkemCipherText \<parallel> mlkemPublicKey \<parallel> [algo] \<parallel> "OpenPGPCompositeKDFv1"\<close>. It does not:
  on one-byte shares, cipher texts and keys the bytes given to SHA3-256 by
  \<open>multiKeyCombine\<close> of \<open>kem.js\<close> differ from that concatenation.
\<close>

theorem multiKeyCombine_spec_counterexample:
  "multiKeyCombine Digest publicKey_pqc_mlkem_x25519 [1] [2] [3] [4]
     \<noteq> multiKeyCombine_spec Digest publicKey_pqc_mlkem_x25519 [2] [3] [4] [1] [5] [6]"
  by (simp add: multiKeyCombine_def multiKeyCombine_spec_def Let_def)

text \<open>
  C1, amended: the combiner called by \<open>encrypt\<close> and \<open>decrypt\<close> of \<open>kem.js\<close>
  computes the key-encryption key as the one-shot SHA3-256 digest of
  \<open>mlkemShare \<parallel> eccShare \<parallel> eccCipherText \<parallel> eccPublicKey \<parallel> [algo] \<parallel>
  "OpenPGPCompositeKDFv1" \<parallel> [21]\<close> (21 is the length of the domain separator), in that
  order, for all shares, cipher texts and public keys; the ML-KEM cipher text and public
  key are not digested. \<open>encrypt\<close> wraps the session key under that key with AES-256
  key wrap, and \<open>decrypt\<close> unwraps with it.
\<close>

theorem multiKeyCombine_kek:
  "multiKeyCombine (computeDigest P) algo mlkemShare eccShare eccCt eccPub =
     computeDigest P hash_sha3_256
       (mlkemShare @ eccShare @ eccCt @ eccPub @ [u8 algo]
          @ encodeUTF8 ''OpenPGPCompositeKDFv1'' @ [21])
   \<and> (eccKem_encaps P algo eccPub = Inr (eccShare, eccCt) \<longrightarrow>
      mlKem_encaps P algo mlkemPub = Inr (mlkemShare, mlkemCt) \<longrightarrow>
      kem_encrypt P algo eccPub mlkemPub sessionKeyData =
        (case aesKW_wrap P symmetric_aes256
                (multiKeyCombine (computeDigest P) algo mlkemShare eccShare eccCt eccPub)
                sessionKeyData of
           Inl e \<Rightarrow> Inl e
         | Inr wrappedKey \<Rightarrow> Inr (eccCt, mlkemCt, wrappedKey)))
   \<and> (eccKem_decaps P algo eccCt eccSecretKey eccPub = Inr eccShare \<longrightarrow>
      mlKem_decaps P algo mlkemCt mlkemSecretKey = Inr mlkemShare \<longrightarrow>
      kem_decrypt P algo eccCt mlkemCt eccSecretKey eccPub mlkemSecretKey mlkemPub wrapped =
        aesKW_unwrap P symmetric_aes256
          (multiKeyCombine (computeDigest P) algo mlkemShare eccShare eccCt eccPub) wrapped)"
  by (simp add: multiKeyCombine_def kem_encrypt_def kem_decrypt_def Let_def
        encodeUTF8_domSep_length u8_def)

theorem multiKeyCombine_kek_witness:
  "kem_encrypt kemPrims_example publicKey_pqc_mlkem_x25519 [4] [6] [9] =
     Inr ([3], [5],
          [1, 2, 3, 4, 105] @ encodeUTF8 ''OpenPGPCompositeKDFv1'' @ [21, 9])
   \<and> kem_decrypt kemPrims_example publicKey_pqc_mlkem_x25519 [3] [5] [7] [4] [8] [6] [9] =
     Inr ([1, 2, 3, 4, 105] @ encodeUTF8 ''OpenPGPCompositeKDFv1'' @ [21, 9])"
  using multiKeyCombine_kek [of kemPrims_example publicKey_pqc_mlkem_x25519 "[1]" "[2]" "[3]" "[4]"
      "[6]" "[5]" "[9]" "[7]" "[8]" "[9]"]
  by (simp add: kemPrims_example_def u8_def publicKey_pqc_mlkem_x25519_def)

subsection \<open>Constant-time selection and the session key checksum\<close>

lemma and_255: "(n::nat) < 256 \<Longrightarrow> n AND 255 = n"
  using take_bit_eq_mask[of 8 n] by (simp add: mask_eq_exp_minus_1 take_bit_nat_eq_self)

lemma and_256: "(n::nat) < 256 \<Longrightarrow> n AND 256 = 0"
proof -
  assume "n < 256"
  then have "\<not> bit n 8" by (simp add: bit_iff_odd)
  then show ?thesis using and_exp_eq_0_iff_not_bit[of n 8] by simp
qed

lemma toInt_at_lt: "toInt (at a i) < 256"
  using unsigned_less[of "a ! i", where 'a=nat] by (simp add: at_def)

lemma selectUint8_1: "toInt a < 256 \<Longrightarrow> toInt b < 256 \<Longrightarrow> selectUint8 1 a b = toInt a"
  by (simp add: selectUint8_def and_255 and_256)

lemma selectUint8_0: "toInt a < 256 \<Longrightarrow> toInt b < 256 \<Longrightarrow> selectUint8 0 a b = toInt b"
  by (simp add: selectUint8_def and_255 and_256)

lemma sum_list_of_bool: "sum_list (map (\<lambda>i. of_bool (i < n)) [0..<m]) = min n m"
  by (induction m) auto

lemma select1_at: "i < length a \<Longrightarrow> u8 (selectUint8 1 (at a i) (at b i)) = a ! i"
  using selectUint8_1[OF toInt_at_lt toInt_at_lt, of a i b i] by (simp add: at_def u8_def)

lemma select0_at: "i < length b \<Longrightarrow> u8 (selectUint8 0 (at a i) (at b i)) = b ! i"
  using selectUint8_0[OF toInt_at_lt toInt_at_lt, of a i b i] by (simp add: at_def u8_def)

lemma selectUint8Array_1: "selectUint8Array 1 a b = a"
proof -
  have e: "sum_list (map (\<lambda>i. ((1::nat) AND of_bool (i < length a)) OR ((1 - 1) AND of_bool (i < length b))) [0..<max (length a) (length b)]) = length a"
    using sum_list_of_bool[of "length a" "max (length a) (length b)"] by (simp add: and.commute[of 1])
  have m: "take (length a) (map (\<lambda>i. u8 (selectUint8 1 (at a i) (at b i))) [0..<max (length a) (length b)]) = a"
    by (rule nth_equalityI) (simp_all add: select1_at less_max_iff_disj del: One_nat_def)
  show ?thesis unfolding selectUint8Array_def Let_def e m ..
qed

lemma selectUint8Array_0: "selectUint8Array 0 a b = b"
proof -
  have e: "sum_list (map (\<lambda>i. ((0::nat) AND of_bool (i < length a)) OR ((1 - 0) AND of_bool (i < length b))) [0..<max (length a) (length b)]) = length b"
    using sum_list_of_bool[of "length b" "max (length a) (length b)"] by (simp add: and.commute[of 1])
  have m: "take (length b) (map (\<lambda>i. u8 (selectUint8 0 (at a i) (at b i))) [0..<max (length a) (length b)]) = b"
    by (rule nth_equalityI) (simp_all add: select0_at less_max_iff_disj del: One_nat_def)
  show ?thesis unfolding selectUint8Array_def Let_def e m ..
qed

lemma of_bool_and: "((of_bool p :: nat) AND of_bool q) = of_bool (p \<and> q)"
  by (cases p; cases q) simp_all

lemma length_writeChecksum: "length (writeChecksum t) = 2"
  by (simp add: writeChecksum_def Let_def)

lemma length_tail2: "length (subarrayFrom d (int (length d) - 2)) \<le> 2"
  by (auto simp: subarrayFrom_def relIndex_def)

lemma at_eq_iff: "length c = 2 \<Longrightarrow> length k \<le> 2 \<Longrightarrow>
  (at c 0 = at k 0 \<and> at c 1 = at k 1) = (c = k)"
proof -
  assume c: "length c = 2" and k: "length k \<le> 2"
  obtain c0 c1 where cc: "c = [c0, c1]" using c
    by (metis (no_types, opaque_lifting) One_nat_def Suc_1 length_0_conv length_Suc_conv)
  show ?thesis
  proof (cases k)
    case Nil then show ?thesis by (simp add: cc at_def)
  next
    case (Cons k0 ks)
    show ?thesis
    proof (cases ks)
      case Nil then show ?thesis using Cons by (simp add: cc at_def)
    next
      case (Cons k1 kss)
      then have "kss = []" using k \<open>k = k0 # ks\<close> by simp
      then show ?thesis using Cons \<open>k = k0 # ks\<close>
        by (auto simp: cc at_def word_unat_eq_iff)
    qed
  qed
qed

lemma isValidChecksum_eq:
  "((of_bool (at (writeChecksum t) 0 = at (subarrayFrom d (int (length d) - 2)) 0) :: nat)
      AND of_bool (at (writeChecksum t) 1 = at (subarrayFrom d (int (length d) - 2)) 1))
   = of_bool (writeChecksum t = subarrayFrom d (int (length d) - 2))"
  unfolding of_bool_and at_eq_iff[OF length_writeChecksum length_tail2] ..

lemma selectUint8Array_of_bool: "selectUint8Array (of_bool p) a b = (if p then a else b)"
  using selectUint8Array_1[of a b] selectUint8Array_0[of a b] by simp

lemma toInt_at_and_256: "toInt (at a i) AND 256 = 0"
  by (rule and_256) (rule toInt_at_lt)

text \<open>
  C2: for an RSA, ElGamal, ECDH or AEAD key and a supplied \<open>randomSessionKey\<close>,
  \<open>decodeSessionKey\<close> never throws. It returns the decrypted session key exactly when
  the 2-byte checksum is valid and the decrypted cipher algorithm and key length equal
  those of the random session key; otherwise it returns the bytes of the random session
  key. For a version other than 6 the algorithm returned is the one of the random
  session key (which the decrypted one equals when it is accepted), for version 6 it
  is \<open>null\<close>. The random session key carries a cipher code below 256 unless the version
  is 6.
\<close>

theorem decodeSessionKey_with_randomSessionKey:
  assumes "keyAlgo \<in> checksummedAlgos"
    and "v \<noteq> Num 6 \<Longrightarrow> \<exists>n<256. objSessionKeyAlgorithm rnd = Num n"
  shows "decodeSessionKey enums_read v keyAlgo decryptedData (Some rnd) =
    (let payload = subarray decryptedData 0 (int (length decryptedData) - 2);
         checksumValid = (writeChecksum (subarrayFrom payload (int (length payload mod 8)))
                            = subarrayFrom decryptedData (int (length decryptedData) - 2));
         decryptedKey = (if v = Num 6 then payload else subarrayFrom payload 1);
         decryptedAlgo = (if v = Num 6 then Null else at payload 0);
         valid = (checksumValid \<and> decryptedAlgo = objSessionKeyAlgorithm rnd
                    \<and> length decryptedKey = length (objSessionKey rnd))
     in Inr \<lparr>objSessionKey = (if valid then decryptedKey else objSessionKey rnd),
             objSessionKeyAlgorithm = (if v = Num 6 then Null else objSessionKeyAlgorithm rnd)\<rparr>)"
proof (cases "v = Num 6")
  case True
  show ?thesis
    unfolding decodeSessionKey_def Let_def
    unfolding isValidChecksum_eq
    unfolding of_bool_and selectUint8Array_of_bool
    using assms(1) True by auto
next
  case False
  then obtain n where n: "n < 256" "objSessionKeyAlgorithm rnd = Num n"
    using assms(2) by blast
  have s0: "\<And>a. selectUint8 0 (at a 0) (Num n) = n"
    using n by (simp add: selectUint8_def toInt_at_and_256 and_255)
  have s1: "selectUint8 1 (Num n) (Num n) = n"
    using n by (simp add: selectUint8_def and_255 and_256)
  have sel: "\<And>p a. selectUint8 (of_bool (p \<and> at a 0 = Num n)) (at a 0) (Num n) = n"
    using s0 s1 by (auto simp del: One_nat_def)
  show ?thesis
    unfolding decodeSessionKey_def Let_def
    unfolding isValidChecksum_eq
    unfolding of_bool_and selectUint8Array_of_bool
    using assms(1) False n by (auto simp add: s0 s1 simp del: One_nat_def)
qed


theorem decodeSessionKey_with_randomSessionKey_witness:
  "decodeSessionKey symmetric_read (Num 3) (Num publicKey_rsaEncryptSign)
     [7, 1, 1, 1, 1, 1, 1, 1, 1, 0, 8]
     (Some \<lparr>objSessionKey = [255, 255, 255, 255, 255, 255, 255, 255],
            objSessionKeyAlgorithm = Num symmetric_aes128\<rparr>)
     = Inr \<lparr>objSessionKey = [1, 1, 1, 1, 1, 1, 1, 1],
            objSessionKeyAlgorithm = Num symmetric_aes128\<rparr>
   \<and> decodeSessionKey symmetric_read (Num 3) (Num publicKey_rsaEncryptSign)
     [7, 1, 1, 1, 1, 1, 1, 1, 1, 0, 9]
     (Some \<lparr>objSessionKey = [255, 255, 255, 255, 255, 255, 255, 255],
            objSessionKeyAlgorithm = Num symmetric_aes128\<rparr>)
     = Inr \<lparr>objSessionKey = [255, 255, 255, 255, 255, 255, 255, 255],
            objSessionKeyAlgorithm = Num symmetric_aes128\<rparr>"
  using decodeSessionKey_with_randomSessionKey [of "Num publicKey_rsaEncryptSign" "Num 3"
      "\<lparr>objSessionKey = [255, 255, 255, 255, 255, 255, 255, 255],
        objSessionKeyAlgorithm = Num symmetric_aes128\<rparr>" symmetric_read
      "[7, 1, 1, 1, 1, 1, 1, 1, 1, 0, 8]"]
    decodeSessionKey_with_randomSessionKey [of "Num publicKey_rsaEncryptSign" "Num 3"
      "\<lparr>objSessionKey = [255, 255, 255, 255, 255, 255, 255, 255],
        objSessionKeyAlgorithm = Num symmetric_aes128\<rparr>" symmetric_read
      "[7, 1, 1, 1, 1, 1, 1, 1, 1, 0, 9]"]
  by (simp add: checksummedAlgos_def symmetric_aes128_def subarray_def subarrayFrom_def
      relIndex_def writeChecksum_def at_def u8_def Let_def)

subsection \<open>Decoding without a random session key\<close>

text \<open>
  Without a random session key the decoder throws \<open>Decryption error\<close> when the
  checksum is wrong or \<open>enums.read\<close> gives a falsy name, returns the decoded key
  otherwise, and lets an exception of \<open>enums.read\<close> through.
\<close>

lemma decodeSessionKey_without_randomSessionKey:
  assumes "keyAlgo \<in> checksummedAlgos"
  shows "decodeSessionKey enums_read v keyAlgo decryptedData None =
    (let payload = subarray decryptedData 0 (int (length decryptedData) - 2);
         checksumValid = (writeChecksum (subarrayFrom payload (int (length payload mod 8)))
                            = subarrayFrom decryptedData (int (length decryptedData) - 2))
     in if \<not> checksumValid then Inl (Error ''Decryption error'')
        else if v = Num 6 then Inr \<lparr>objSessionKey = payload, objSessionKeyAlgorithm = Null\<rparr>
        else case enums_read (at payload 0) of
               Inl e \<Rightarrow> Inl e
             | Inr name \<Rightarrow>
                 if name = [] then Inl (Error ''Decryption error'')
                 else Inr \<lparr>objSessionKey = subarrayFrom payload 1,
                           objSessionKeyAlgorithm = at payload 0\<rparr>)"
  unfolding decodeSessionKey_def Let_def
  unfolding isValidChecksum_eq
  using assms by (auto simp: andThen_def split: sum.splits)

text \<open>
  C3 at a failing input: a version 3 payload under an RSA key with a valid checksum and
  the cipher code 99, which is not registered. The claim expects the generic
  \<open>Decryption error\<close>; \<open>enums.read\<close> throws first and its exception leaves the decoder.
  The same payload with a wrong checksum gives \<open>Decryption error\<close>, so the two
  failures can be told apart.
\<close>

theorem decodeSessionKey_unregistered_cipher:
  "decodeSessionKey symmetric_read (Num 3) (Num publicKey_rsaEncryptSign)
     [99, 1, 1, 1, 1, 1, 1, 1, 1, 0, 8] None = Inl (Error ''Invalid enum value.'')
   \<and> decodeSessionKey symmetric_read (Num 3) (Num publicKey_rsaEncryptSign)
     [99, 1, 1, 1, 1, 1, 1, 1, 1, 0, 9] None = Inl (Error ''Decryption error'')"
  by (simp add: decodeSessionKey_def checksummedAlgos_def subarray_def subarrayFrom_def
      relIndex_def writeChecksum_def at_def u8_def Let_def andThen_def symmetric_byValue_def)

subsection \<open>PKESK decryption under a key of another algorithm\<close>

text \<open>
  C9: \<open>decrypt\<close> of the PKESK packet throws \<open>Decryption error\<close> whenever the packet's
  \<open>publicKeyAlgorithm\<close> differs from the algorithm of the key, whatever the primitives
  would do (none of them is called), with or without a \<open>randomSessionKey\<close>.
\<close>

theorem pkesk_decrypt_algorithm_mismatch:
  "publicKeyAlgorithm this \<noteq> algorithm key \<Longrightarrow>
   pkesk_decrypt P C this key randomSessionKey = Inl (Error ''Decryption error'')"
  by (simp add: pkesk_decrypt_def)

theorem pkesk_decrypt_algorithm_mismatch_witness:
  "pkesk_decrypt cryptoPrims_example codecs_example
     (pkesk_new\<lparr>version := Num 3, publicKeyAlgorithm := Num publicKey_rsaEncryptSign\<rparr>)
     ((secretKey_new (Num 4))\<lparr>algorithm := Num publicKey_x25519\<rparr>)
     (Some \<lparr>objSessionKey = [255, 255], objSessionKeyAlgorithm = Num symmetric_aes128\<rparr>)
   = Inl (Error ''Decryption error'')"
  by (rule pkesk_decrypt_algorithm_mismatch)
     (simp add: pkesk_new_def secretKey_new_def publicKey_defs)

subsection \<open>The cleartext cipher algorithm of a PKESK packet\<close>

lemma parseEncSessionKeyParams_C:
  assumes "algo \<in> algosWithV3CleartextSessionKeyAlgorithm"
    and "parseEncSessionKeyParams C algo bs = Inr enc"
  shows "\<exists>a w. getProp enc ''C'' = Some (ECDHXSymmetricKey a w)"
  using assms
  unfolding parseEncSessionKeyParams_def algosWithV3CleartextSessionKeyAlgorithm_def
  by (auto simp: publicKey_defs andThen_def getProp_def split: sum.splits prod.splits)

text \<open>
  C7: let the header of a PKESK packet be read and its public-key algorithm be X25519,
  X448 or ML-KEM+X25519, and let the encrypted parameters parse. Then they hold a
  wrapped-key structure \<open>C\<close> with an algorithm field \<open>a\<close>. For version 6 parsing fails
  with \<open>Unexpected cleartext symmetric algorithm\<close> whenever \<open>a\<close> is not \<open>null\<close> (and
  succeeds when it is). For version 3 parsing sets \<open>sessionKeyAlgorithm\<close> to what
  \<open>enums.write(enums.symmetric, a)\<close> gives for that byte, and fails if that throws.
\<close>

theorem pkesk_read_cleartext_algorithm:
  assumes "pkesk_read_header C this bs = Inr (p, offset)"
    and "publicKeyAlgorithm p \<in> algosWithV3CleartextSessionKeyAlgorithm"
    and "parseEncSessionKeyParams C (publicKeyAlgorithm p) (subarrayFrom bs (int offset)) = Inr enc"
  shows "\<exists>a w. getProp enc ''C'' = Some (ECDHXSymmetricKey a w)
     \<and> (version p = Num 6 \<longrightarrow> a \<noteq> Null \<longrightarrow>
          pkesk_read C this bs = Inl (Error ''Unexpected cleartext symmetric algorithm''))
     \<and> (version p = Num 6 \<longrightarrow> a = Null \<longrightarrow> pkesk_read C this bs = Inr (p\<lparr>encrypted := enc\<rparr>))
     \<and> (version p = Num 3 \<longrightarrow>
          pkesk_read C this bs =
            (case enums_write_symmetric C a of
               Inl e \<Rightarrow> Inl e
             | Inr alg \<Rightarrow> Inr (p\<lparr>encrypted := enc, sessionKeyAlgorithm := alg\<rparr>)))"
proof -
  obtain a w where c: "getProp enc ''C'' = Some (ECDHXSymmetricKey a w)"
    using parseEncSessionKeyParams_C[OF assms(2,3)] by blast
  show ?thesis
    using assms c by (auto simp: pkesk_read_def andThen_def Let_def split: sum.splits)
qed

lemma ex_header6:
  "pkesk_read_header codecs_example pkesk_new ([6, 0, 25] @ replicate 32 1 @ [3, 7, 1, 2])
     = Inr (pkesk_new\<lparr>version := Num 6, publicKeyID := replicate 8 0,
                      publicKeyAlgorithm := Num publicKey_x25519\<rparr>, 3)"
  by (simp add: pkesk_read_header_def codecs_example_def pkesk_new_def at_def Let_def
      andThen_def publicKey_defs)

lemma ex_parse:
  "parseEncSessionKeyParams codecs_example (Num publicKey_x25519)
     (replicate 32 1 @ [3, 7, 1, 2])
     = Inr [(''ephemeralPublicKey'', Uint8Array (replicate 32 1)),
            (''C'', ECDHXSymmetricKey (Num 7) [1, 2])]"
  by (simp add: parseEncSessionKeyParams_def codecs_example_def getCurvePayloadSize_def
      readExactSubarray_def subarray_def subarrayFrom_def relIndex_def andThen_def
      publicKey_defs)

lemma ex_header3:
  "pkesk_read_header codecs_example pkesk_new
     ([3, 1, 2, 3, 4, 5, 6, 7, 8, 25] @ replicate 32 1 @ [3, 7, 1, 2])
     = Inr (pkesk_new\<lparr>version := Num 3, publicKeyID := [1, 2, 3, 4, 5, 6, 7, 8],
                      publicKeyAlgorithm := Num publicKey_x25519\<rparr>, 10)"
  by (simp add: pkesk_read_header_def codecs_example_def pkesk_new_def at_def Let_def
      andThen_def publicKey_defs subarray_def relIndex_def)

theorem pkesk_read_cleartext_algorithm_witness:
  "pkesk_read codecs_example pkesk_new ([6, 0, 25] @ replicate 32 1 @ [3, 7, 1, 2])
     = Inl (Error ''Unexpected cleartext symmetric algorithm'')
   \<and> pkesk_read codecs_example pkesk_new
        ([3, 1, 2, 3, 4, 5, 6, 7, 8, 25] @ replicate 32 1 @ [3, 7, 1, 2])
     = Inr (pkesk_new\<lparr>version := Num 3, publicKeyID := [1, 2, 3, 4, 5, 6, 7, 8],
              publicKeyAlgorithm := Num publicKey_x25519,
              encrypted := [(''ephemeralPublicKey'', Uint8Array (replicate 32 1)),
                            (''C'', ECDHXSymmetricKey (Num 7) [1, 2])],
              sessionKeyAlgorithm := Num symmetric_aes128\<rparr>)"
proof -
  let ?p6 = "pkesk_new\<lparr>version := Num 6, publicKeyID := replicate 8 0,
                      publicKeyAlgorithm := Num publicKey_x25519\<rparr>"
  let ?p3 = "pkesk_new\<lparr>version := Num 3, publicKeyID := [1, 2, 3, 4, 5, 6, 7, 8],
                      publicKeyAlgorithm := Num publicKey_x25519\<rparr>"
  let ?enc = "[(''ephemeralPublicKey'', Uint8Array (replicate 32 1)),
            (''C'', ECDHXSymmetricKey (Num 7) [1, 2])]"
  have m6: "publicKeyAlgorithm ?p6 \<in> algosWithV3CleartextSessionKeyAlgorithm"
    and m3: "publicKeyAlgorithm ?p3 \<in> algosWithV3CleartextSessionKeyAlgorithm"
    by (simp_all add: algosWithV3CleartextSessionKeyAlgorithm_def)
  have p6: "parseEncSessionKeyParams codecs_example (publicKeyAlgorithm ?p6)
      (subarrayFrom ([6, 0, 25] @ replicate 32 1 @ [3, 7, 1, 2]) (int 3)) = Inr ?enc"
    using ex_parse by (simp add: subarrayFrom_def relIndex_def)
  have p3: "parseEncSessionKeyParams codecs_example (publicKeyAlgorithm ?p3)
      (subarrayFrom ([3, 1, 2, 3, 4, 5, 6, 7, 8, 25] @ replicate 32 1 @ [3, 7, 1, 2]) (int 10))
     = Inr ?enc"
    using ex_parse by (simp add: subarrayFrom_def relIndex_def)
  show ?thesis
    using pkesk_read_cleartext_algorithm [OF ex_header6 m6 p6]
      pkesk_read_cleartext_algorithm [OF ex_header3 m3 p3]
    by (simp add: getProp_def codecs_example_def symmetric_byValue_def symmetric_defs)
qed

subsection \<open>X25519 and X448 wrap AES session keys\<close>






subsection \<open>The key that protects a secret key\<close>

text \<open>
  C5: \<open>produceEncryptionKey\<close> throws for an Argon2 S2K without an AEAD mode, and for a
  Simple S2K with a version 6 key. When neither is the case and the S2K derives a key of
  the cipher's key size, it returns that key as it is if there is no AEAD mode, or the
  key version is 5, or the legacy-AEAD flag is set, with or without a serialized packet
  tag; in every other case it returns HKDF-SHA-256 of the derived key with the empty
  salt, the info made of the serialized packet tag followed by the three bytes
  \<open>[keyVersion, cipherAlgo, aeadMode]\<close>, and the cipher's key size as length (and
  throws when the tag is left out).
\<close>

theorem produceEncryptionKey_cases:
  "(s2k_type s = ''argon2'' \<and> \<not> truthy aeadMode \<longrightarrow>
      produceEncryptionKey E C keyVersion (Some s) passphrase cipherAlgo aeadMode tag legacy
        = Inl (Error ''Using Argon2 S2K without AEAD is not allowed''))
   \<and> (s2k_type s = ''simple'' \<and> keyVersion = Num 6 \<longrightarrow>
      produceEncryptionKey E C keyVersion (Some s) passphrase cipherAlgo aeadMode tag legacy
        = Inl (Error ''Using Simple S2K with version 6 keys is not allowed''))
   \<and> (\<not> (s2k_type s = ''argon2'' \<and> \<not> truthy aeadMode) \<longrightarrow>
      \<not> (s2k_type s = ''simple'' \<and> keyVersion = Num 6) \<longrightarrow>
      getCipherParams_keySize C cipherAlgo = Inr keySize \<longrightarrow>
      s2k_produceKey E s passphrase keySize = Inr derivedKey \<longrightarrow>
        (\<not> truthy aeadMode \<or> keyVersion = Num 5 \<or> legacy = Some True \<longrightarrow>
           produceEncryptionKey E C keyVersion (Some s) passphrase cipherAlgo aeadMode tag legacy
             = Inr derivedKey)
        \<and> (\<not> (\<not> truthy aeadMode \<or> keyVersion = Num 5 \<or> legacy = Some True) \<longrightarrow>
             produceEncryptionKey E C keyVersion (Some s) passphrase cipherAlgo aeadMode
               (Some t) legacy
               = computeHKDF E hash_sha256 derivedKey []
                   (t @ [u8 (toInt keyVersion), u8 (toInt cipherAlgo), u8 (toInt aeadMode)])
                   keySize
             \<and> (\<exists>e. produceEncryptionKey E C keyVersion (Some s) passphrase cipherAlgo
                        aeadMode None legacy = Inl e)))"
  unfolding produceEncryptionKey_def andThen_def by auto

theorem produceEncryptionKey_cases_witness:
  "produceEncryptionKey keyEnv_example codecs_example (Num 4) (Some (s2k_example ''argon2''))
     ''pw'' (Num symmetric_aes256) Undefined None None
     = Inl (Error ''Using Argon2 S2K without AEAD is not allowed'')
   \<and> produceEncryptionKey keyEnv_example codecs_example (Num 6) (Some (s2k_example ''simple''))
     ''pw'' (Num symmetric_aes256) (Num 2) (Some [197]) (Some False)
     = Inl (Error ''Using Simple S2K with version 6 keys is not allowed'')
   \<and> getCipherParams_keySize codecs_example (Num symmetric_aes256) = Inr 32
   \<and> s2k_produceKey keyEnv_example (s2k_example ''iterated'') ''pw'' 32 = Inr (replicate 32 7)
   \<and> s2k_produceKey keyEnv_example (s2k_example ''argon2'') ''pw'' 32 = Inr (replicate 32 7)
   \<and> produceEncryptionKey keyEnv_example codecs_example (Num 4) (Some (s2k_example ''iterated''))
     ''pw'' (Num symmetric_aes256) Undefined None None
     = Inr (replicate 32 7)
   \<and> produceEncryptionKey keyEnv_example codecs_example (Num 5) (Some (s2k_example ''iterated''))
     ''pw'' (Num symmetric_aes256) (Num 2) (Some [197]) (Some True)
     = Inr (replicate 32 7)
   \<and> produceEncryptionKey keyEnv_example codecs_example (Num 6) (Some (s2k_example ''argon2''))
     ''pw'' (Num symmetric_aes256) (Num 2) (Some [197]) (Some False)
     = Inr ([197, 6, 9, 2] @ replicate 28 7)"
proof -
  have k: "getCipherParams_keySize codecs_example (Num symmetric_aes256) = Inr 32"
    by (simp add: codecs_example_def symmetric_defs)
  have i: "s2k_produceKey keyEnv_example (s2k_example ''iterated'') ''pw'' 32 = Inr (replicate 32 7)"
    and a: "s2k_produceKey keyEnv_example (s2k_example ''argon2'') ''pw'' 32 = Inr (replicate 32 7)"
    by (simp_all add: keyEnv_example_def)
  have h: "computeHKDF keyEnv_example hash_sha256 (replicate 32 7) []
             ([197] @ [u8 (toInt (Num 6)), u8 (toInt (Num symmetric_aes256)), u8 (toInt (Num 2))])
             32 = Inr ([197, 6, 9, 2] @ replicate 28 7)"
    by (simp add: keyEnv_example_def symmetric_defs u8_def)
  show ?thesis
    using k i a h
      produceEncryptionKey_cases [where s = "s2k_example ''argon2''" and aeadMode = Undefined
        and E = keyEnv_example and C = codecs_example and keyVersion = "Num 4"
        and passphrase = "''pw''" and cipherAlgo = "Num symmetric_aes256" and tag = None
        and legacy = None]
      produceEncryptionKey_cases [where s = "s2k_example ''simple''" and aeadMode = "Num 2"
        and E = keyEnv_example and C = codecs_example and keyVersion = "Num 6"
        and passphrase = "''pw''" and cipherAlgo = "Num symmetric_aes256"
        and tag = "Some [197]" and legacy = "Some False"]
      produceEncryptionKey_cases [where s = "s2k_example ''iterated''" and aeadMode = Undefined
        and E = keyEnv_example and C = codecs_example and keyVersion = "Num 4"
        and passphrase = "''pw''" and cipherAlgo = "Num symmetric_aes256" and tag = None
        and legacy = None and keySize = 32 and derivedKey = "replicate 32 7"]
      produceEncryptionKey_cases [where s = "s2k_example ''iterated''" and aeadMode = "Num 2"
        and E = keyEnv_example and C = codecs_example and keyVersion = "Num 5"
        and passphrase = "''pw''" and cipherAlgo = "Num symmetric_aes256"
        and tag = "Some [197]" and legacy = "Some True" and keySize = 32
        and derivedKey = "replicate 32 7"]
      produceEncryptionKey_cases [where s = "s2k_example ''argon2''" and aeadMode = "Num 2"
        and E = keyEnv_example and C = codecs_example and keyVersion = "Num 6"
        and passphrase = "''pw''" and cipherAlgo = "Num symmetric_aes256"
        and legacy = "Some False" and keySize = 32 and derivedKey = "replicate 32 7"
        and t = "[197]"]
    by (simp add: s2k_example_def)
qed

subsection \<open>Hash-strength gates\<close>

lemma sign_eddsa:
  assumes "algo = Num publicKey_ed25519 \<or> algo = Num publicKey_ed448"
  shows "sign S C algo hashAlgo (Some pub) (Some priv) d hashed =
           andThen (eddsa_hashTooWeak C algo hashAlgo) (\<lambda>weak.
           if weak then Inl (Error ''Hash algorithm too weak for EdDSA.'')
           else eddsa_sign S C algo hashAlgo d (getProp pub ''A'') (getProp priv ''seed'')
                  hashed)"
  using assms unfolding sign_def by (elim disjE) (simp_all add: publicKey_defs)

lemma verify_eddsa:
  assumes "algo = Num publicKey_ed25519 \<or> algo = Num publicKey_ed448"
  shows "verify S C algo hashAlgo sig pubOpt privOpt d hashed =
       andThen (eddsa_hashTooWeak C algo hashAlgo) (\<lambda>weak.
       if weak then Inl (Error ''Hash algorithm too weak for EdDSA.'')
       else
         andThen (destructure pubOpt) (\<lambda>pub.
         eddsa_verify S C algo hashAlgo sig d (getProp pub ''A'') hashed))"
  using assms unfolding verify_def by (elim disjE) (simp_all add: publicKey_defs)

lemma sign_pqc:
  "sign S C (Num publicKey_pqc_mldsa_ed25519) hashAlgo (Some pub) (Some priv) d hashed =
           andThen (isCompatibleHashAlgo C (Num publicKey_pqc_mldsa_ed25519) hashAlgo) (\<lambda>compatible.
           if \<not> compatible then
             Inl (Error ''Unexpected hash algorithm for PQC signature: digest size too short'')
           else pqc_sign S C (Num publicKey_pqc_mldsa_ed25519) hashAlgo (getProp priv ''eccSecretKey'')
                  (getProp pub ''eccPublicKey'') (getProp priv ''mldsaSecretKey'') hashed)"
  unfolding sign_def by (simp add: publicKey_defs)

lemma verify_pqc:
  "verify S C (Num publicKey_pqc_mldsa_ed25519) hashAlgo sig pubOpt privOpt d hashed =
       andThen (isCompatibleHashAlgo C (Num publicKey_pqc_mldsa_ed25519) hashAlgo) (\<lambda>compatible.
       if \<not> compatible then
         Inl (Error ''Unexpected hash algorithm for PQC signature: digest size too short'')
       else
         andThen (destructure pubOpt) (\<lambda>pub.
         pqc_verify S C (Num publicKey_pqc_mldsa_ed25519) hashAlgo (getProp pub ''eccPublicKey'')
           (getProp pub ''mldsaPublicKey'') hashed sig))"
  unfolding verify_def by (simp add: publicKey_defs)

text \<open>
  The gates in general. \<open>sign\<close> without one of the parameter objects throws
  \<open>Missing key parameters\<close> before any gate. Given both, an Ed25519 \<open>sign\<close>, and an
  Ed25519 \<open>verify\<close>, fails with the hash-too-weak error whenever the digest of the
  requested hash is shorter than that of SHA-256, the preferred hash of Ed25519; an
  ML-DSA + Ed25519 \<open>sign\<close> or \<open>verify\<close> fails with the digest-too-short error whenever the
  digest is shorter than 32 bytes; an Ed448 \<open>sign\<close> or \<open>verify\<close> with a hash of known
  digest length fails with \<open>Unknown EdDSA algo\<close>, whatever that length is.
\<close>

lemma sign_missing_parameters:
  "pubOpt = None \<or> privOpt = None \<Longrightarrow>
     sign S C algo hashAlgo pubOpt privOpt d hashed = Inl (Error ''Missing key parameters'')"
  unfolding sign_def by (auto split: option.splits)

lemma hash_strength_gates:
  "(getHashByteLength C hashAlgo = Inr len \<longrightarrow>
    getHashByteLength C (Num hash_sha256) = Inr preferredLen \<longrightarrow> len < preferredLen \<longrightarrow>
      sign S C (Num publicKey_ed25519) hashAlgo (Some pub) (Some priv) d hashed
        = Inl (Error ''Hash algorithm too weak for EdDSA.'')
      \<and> verify S C (Num publicKey_ed25519) hashAlgo sig pubOpt privOpt d hashed
        = Inl (Error ''Hash algorithm too weak for EdDSA.''))
   \<and> (getHashByteLength C hashAlgo = Inr len \<longrightarrow>
      sign S C (Num publicKey_ed448) hashAlgo (Some pub) (Some priv) d hashed
        = Inl (Error ''Unknown EdDSA algo'')
      \<and> verify S C (Num publicKey_ed448) hashAlgo sig pubOpt privOpt d hashed
        = Inl (Error ''Unknown EdDSA algo''))
   \<and> (getHashByteLength C hashAlgo = Inr len \<longrightarrow> len < 32 \<longrightarrow>
      sign S C (Num publicKey_pqc_mldsa_ed25519) hashAlgo (Some pub) (Some priv) d hashed
        = Inl (Error ''Unexpected hash algorithm for PQC signature: digest size too short'')
      \<and> verify S C (Num publicKey_pqc_mldsa_ed25519) hashAlgo sig pubOpt privOpt d hashed
        = Inl (Error ''Unexpected hash algorithm for PQC signature: digest size too short''))"
  unfolding sign_eddsa[of "Num publicKey_ed25519", simplified]
    sign_eddsa[of "Num publicKey_ed448", simplified]
    verify_eddsa[of "Num publicKey_ed25519", simplified]
    verify_eddsa[of "Num publicKey_ed448", simplified]
    sign_pqc verify_pqc
  by (simp add: eddsa_hashTooWeak_def eddsa_getPreferredHashAlgo_def isCompatibleHashAlgo_def
      andThen_def publicKey_defs)

lemma hash_strength_gates_examples:
  "sign sigPrims_example codecs_example (Num publicKey_ed25519) (Num hash_sha1)
     (Some [(''A'', Uint8Array [1])]) (Some [(''seed'', Uint8Array [2])]) [] []
     = Inl (Error ''Hash algorithm too weak for EdDSA.'')
   \<and> sign sigPrims_example codecs_example (Num publicKey_pqc_mldsa_ed25519) (Num hash_sha224)
     (Some [(''eccPublicKey'', Uint8Array [1])]) (Some [(''eccSecretKey'', Uint8Array [2])]) [] []
     = Inl (Error ''Unexpected hash algorithm for PQC signature: digest size too short'')"
  using hash_strength_gates [of codecs_example "Num hash_sha1" 20 32 sigPrims_example
      "[(''A'', Uint8Array [1])]" "[(''seed'', Uint8Array [2])]" "[]" "[]"]
    hash_strength_gates [of codecs_example "Num hash_sha224" 28 32 sigPrims_example
      "[(''eccPublicKey'', Uint8Array [1])]" "[(''eccSecretKey'', Uint8Array [2])]" "[]" "[]"]
  by (simp add: codecs_example_def hash_defs)

text \<open>
  C6 at a failing input: signing and verifying with Ed448 and SHA-256. The digest of
  SHA-256 (32 bytes) is shorter than that of SHA-512 (64 bytes), the preferred hash of
  Ed448, so the gate is to fail with the hash-too-weak error; \<open>sign\<close> and \<open>verify\<close> of
  \<open>signature.js\<close> put Ed448 under that gate. The comparison of the gate asks
  \<open>getPreferredHashAlgo\<close> of \<open>eddsa.js\<close> for the preferred hash, which knows Ed25519
  only and throws \<open>Unknown EdDSA algo\<close>: that error leaves \<open>sign\<close> and \<open>verify\<close>, and the
  hash-too-weak error is never produced for Ed448.
\<close>

theorem sign_ed448_hash_gate:
  "getHashByteLength codecs_example (Num hash_sha256) = Inr 32
   \<and> getHashByteLength codecs_example (Num hash_sha512) = Inr 64
   \<and> sign sigPrims_example codecs_example (Num publicKey_ed448) (Num hash_sha256)
        (Some [(''A'', Uint8Array [1])]) (Some [(''seed'', Uint8Array [2])]) [] []
      = Inl (Error ''Unknown EdDSA algo'')
   \<and> verify sigPrims_example codecs_example (Num publicKey_ed448) (Num hash_sha256)
        (Some [(''RS'', Uint8Array [1])]) (Some [(''A'', Uint8Array [1])]) None [] []
      = Inl (Error ''Unknown EdDSA algo'')
   \<and> eddsa_getPreferredHashAlgo (Num publicKey_ed448) = Inl (Error ''Unknown EdDSA algo'')
   \<and> eddsa_getPreferredHashAlgo (Num publicKey_ed25519) = Inr (Num hash_sha256)"
  unfolding sign_eddsa[of "Num publicKey_ed448", simplified]
    verify_eddsa[of "Num publicKey_ed448", simplified]
  by (simp add: eddsa_hashTooWeak_def eddsa_getPreferredHashAlgo_def andThen_def
      codecs_example_def publicKey_defs hash_defs)

subsection \<open>The invariant of the Secret-Key packet\<close>

lemma secretKey_read_iv_keeps:
  assumes "secretKey_read_iv C cfg this bs i = (f, this', i')"
  shows "isEncrypted this' = isEncrypted this \<and> privateParams this' = privateParams this
    \<and> s2kUsage this' = s2kUsage this \<and> (\<forall>e. f = Threw e \<longrightarrow> truthy (s2kUsage this))"
  using assms unfolding secretKey_read_iv_def Let_def
  by (auto split: if_splits sum.splits)

lemma secretKey_read_try_keeps:
  assumes "secretKey_read_try E C cfg this bs i = (f, this', i')"
  shows "isEncrypted this' = isEncrypted this \<and> privateParams this' = privateParams this
    \<and> s2kUsage this' = s2kUsage this \<and> (\<forall>e. f = Threw e \<longrightarrow> truthy (s2kUsage this))"
proof (cases "s2kUsage this = Num 255 \<or> s2kUsage this = Num 254 \<or> s2kUsage this = Num 253")
  case True
  show ?thesis
    using assms True unfolding secretKey_read_try_def Let_def
    by (auto split: if_splits sum.splits prod.splits dest!: secretKey_read_iv_keeps)
next
  case False
  then show ?thesis
    using assms unfolding secretKey_read_try_def
    by (auto split: if_splits dest!: secretKey_read_iv_keeps)
qed

lemma secretKey_read_material_iff:
  assumes "secretKey_read_material C this bs i = (r, this')"
    and "privateParams this = None"
  shows "decryptedIffPrivateParams this' = (r = Inr ())"
  using assms unfolding secretKey_read_material_def Let_def decryptedIffPrivateParams_def
    isDecrypted_def
  by (auto split: if_splits sum.splits prod.splits error.splits)

lemma secretKey_read_catch_iff:
  assumes c: "secretKey_read_catch C bs start (secretKey_read_try E C0 cfg this1 bs i) = (r, this')"
    and p: "privateParams this1 = None" and n: "isEncrypted this1 \<noteq> Some False"
  shows "decryptedIffPrivateParams this' = (r = Inr ())"
proof -
  obtain f this2 i2 where t: "secretKey_read_try E C0 cfg this1 bs i = (f, this2, i2)"
    by (cases "secretKey_read_try E C0 cfg this1 bs i") auto
  have k: "isEncrypted this2 \<noteq> Some False" "privateParams this2 = None"
      "s2kUsage this2 = s2kUsage this1" "\<forall>e. f = Threw e \<longrightarrow> truthy (s2kUsage this1)"
    using secretKey_read_try_keeps[OF t] p n by simp_all
  show ?thesis
  proof (cases f)
    case Continued
    then show ?thesis using c t k secretKey_read_material_iff[of C this2 bs i2 r this']
      by (simp add: secretKey_read_catch_def)
  next
    case Returned
    then show ?thesis using c t k
      by (auto simp: secretKey_read_catch_def decryptedIffPrivateParams_def isDecrypted_def)
  next
    case (Threw e)
    then show ?thesis using c t k
      secretKey_read_material_iff[of C "this2\<lparr>unparseableKeyMaterial := Some (subarrayFrom bs (int start)),
                        isEncrypted := Some True\<rparr>" bs i2 r this']
      by (auto simp: secretKey_read_catch_def split: if_splits)
  qed
qed

lemma secretKey_read_iff:
  assumes i: "decryptedIffPrivateParams this" and p: "privateParams this = None"
  shows "decryptedIffPrivateParams (snd (secretKey_read E C cfg this bs))
         = (fst (secretKey_read E C cfg this bs) = Inr () \<or> isl (readPublicKey E bs cfg))"
proof (cases "readPublicKey E bs cfg")
  case (Inl e)
  then show ?thesis using i by (simp add: secretKey_read_def)
next
  case (Inr q)
  obtain start v algo pub fp pk where q: "q = (start, v, algo, pub, fp, pk)"
    by (cases q) auto
  obtain r this' where r: "secretKey_read E C cfg this bs = (r, this')"
    by (cases "secretKey_read E C cfg this bs") auto
  have ne: "isEncrypted this \<noteq> Some False"
    using i p by (simp add: decryptedIffPrivateParams_def isDecrypted_def)
  have "decryptedIffPrivateParams this' = (r = Inr ())"
    using r Inr q unfolding secretKey_read_def Let_def
    by (auto elim!: secretKey_read_catch_iff simp: p ne)
  then show ?thesis using r Inr by simp
qed

lemma clearPrivateParams_keeps:
  assumes "decryptedIffPrivateParams this"
  shows "decryptedIffPrivateParams (snd (clearPrivateParams this))"
  using assms unfolding clearPrivateParams_def decryptedIffPrivateParams_def isDecrypted_def
  by (auto split: option.splits sum.splits)

lemma clearPrivateParams_result:
  assumes "clearPrivateParams this = (r, this')" and "isDecrypted this"
    and "decryptedIffPrivateParams this" and "\<not> isDummy this"
    and "unparseableKeyMaterial this = None"
  shows "(\<exists>e. r = Inl e \<and> isEncrypted this' = Some False \<and> privateParams this' \<noteq> None)
       \<or> (r = Inr () \<and> privateParams this' = None)"
  using assms unfolding clearPrivateParams_def decryptedIffPrivateParams_def isDecrypted_def
    isMissingSecretKeyMaterial_def
  by (auto split: option.splits sum.splits) metis+

lemma clearPrivateParams_unparseable:
  "unparseableKeyMaterial this \<noteq> None \<Longrightarrow> clearPrivateParams this = (Inr (), this)"
  by (simp add: clearPrivateParams_def isMissingSecretKeyMaterial_def)

lemma makeDummy_iff:
  assumes "decryptedIffPrivateParams this"
  shows "decryptedIffPrivateParams (snd (makeDummy E this))
         = (isDummy this \<or> \<not> isDecrypted this \<or> unparseableKeyMaterial this = None)"
proof (cases "isDummy this")
  case True
  then show ?thesis using assms by (simp add: makeDummy_def)
next
  case False
  show ?thesis
  proof (cases "isDecrypted this")
    case D: True
    show ?thesis
    proof (cases "unparseableKeyMaterial this = None")
      case True
      obtain r this' where c: "clearPrivateParams this = (r, this')"
        by (cases "clearPrivateParams this") auto
      from clearPrivateParams_result[OF c D assms False True] show ?thesis
        using False D True c
        by (auto simp: makeDummy_def Let_def decryptedIffPrivateParams_def isDecrypted_def
            split: sum.splits)
    next
      case U: False
      have "privateParams this \<noteq> None"
        using assms D by (simp add: decryptedIffPrivateParams_def)
      then show ?thesis
        using False D U clearPrivateParams_unparseable[OF U]
        by (auto simp: makeDummy_def Let_def decryptedIffPrivateParams_def isDecrypted_def
            split: sum.splits)
    qed
  next
    case F: False
    then have "privateParams this = None"
      using assms by (simp add: decryptedIffPrivateParams_def)
    then show ?thesis using False F
      by (auto simp: makeDummy_def Let_def decryptedIffPrivateParams_def isDecrypted_def
          split: sum.splits)
  qed
qed

lemma secretKey_encrypt_keeps:
  "isEncrypted (snd (secretKey_encrypt E C cfg this pw)) = isEncrypted this
   \<and> privateParams (snd (secretKey_encrypt E C cfg this pw)) = privateParams this"
  unfolding secretKey_encrypt_def Let_def
  by (simp split: sum.splits)

lemma secretKey_decrypt_keeps:
  assumes "decryptedIffPrivateParams this"
  shows "decryptedIffPrivateParams (snd (secretKey_decrypt E C this pw))"
proof -
  have g: "\<And>X. decryptedIffPrivateParams (snd (case X of
          Inl e \<Rightarrow> (Inl e, this)
        | Inr parsed \<Rightarrow>
            (Inr None, this\<lparr>privateParams := Some parsed, isEncrypted := Some False,
                             keyMaterial := None, s2kUsage := Num 0, aead := Null,
                             symmetric := Null, isLegacyAEAD := None\<rparr>)))"
    using assms by (simp add: decryptedIffPrivateParams_def isDecrypted_def split: sum.splits)
  show ?thesis
    unfolding secretKey_decrypt_def
    using assms by (auto simp del: not_None_eq intro!: g)
qed

lemma secretKey_generate_keeps:
  assumes "decryptedIffPrivateParams this"
  shows "decryptedIffPrivateParams (snd (secretKey_generate G C this bits curveName curve symm))"
  using assms unfolding secretKey_generate_def decryptedIffPrivateParams_def isDecrypted_def
  by (simp split: sum.splits prod.splits)

text \<open>
  A packet that is marked decrypted and keeps unparseable key material arises from the
  operations themselves: \<open>read\<close> of a key under an unsupported S2K, then \<open>generate\<close>.
\<close>

lemma secretKey_unparseable_reachable:
  "isDecrypted (snd (secretKey_generate generators_example codecs_example
      (snd (secretKey_read keyEnv_example codecs_example config_example (secretKey_new (Num 4))
              secretKeyBytes_unsupportedS2K)) 0 [] None Undefined))
   \<and> unparseableKeyMaterial (snd (secretKey_generate generators_example codecs_example
      (snd (secretKey_read keyEnv_example codecs_example config_example (secretKey_new (Num 4))
              secretKeyBytes_unsupportedS2K)) 0 [] None Undefined))
     = Some [254, 9, 99, 1, 2, 3]"
  by (simp add: secretKeyBytes_unsupportedS2K_def secretKey_read_def keyEnv_example_def
      secretKey_new_def Let_def at_def secretKey_read_try_def secretKey_read_catch_def
      secretKey_read_material_def s2k_gnu_def s2k_example_def subarrayFrom_def
      subarray_def relIndex_def secretKey_generate_def generateParams_def publicKey_defs
      generators_example_def andThen_def isDecrypted_def)

text \<open>
  C8, as stated: every operation preserves \<open>isEncrypted \<Leftrightarrow> privateParams == null\<close>, that
  is, the packet holds secret material in decrypted form exactly when it is marked
  decrypted. Four runs against it. (1) \<open>makeDummy\<close> on a decrypted key clears the private
  parameters and sets \<open>isEncrypted\<close> to \<open>null\<close>: afterwards \<open>privateParams\<close> is \<open>null\<close>
  while \<open>isEncrypted\<close> does not hold. (2) \<open>read\<close>, on a new packet, of a key that is not
  protected and has a wrong checksum sets \<open>isEncrypted\<close> to \<open>false\<close> and then throws
  \<open>Key checksum mismatch\<close>: the packet is marked decrypted and has no private
  parameters. (3) \<open>makeDummy\<close> on a decrypted key that keeps unparseable key material
  does not clear the private parameters, and the packet is no longer marked decrypted.
  (4) \<open>read\<close> of a protected key into a packet that holds a decrypted key marks it
  encrypted and leaves the private parameters.
\<close>

theorem secretKey_invariant_counterexample:
  "(invariant_spec secretKey_example
    \<and> fst (makeDummy keyEnv_example secretKey_example) = Inr ()
    \<and> isEncrypted (snd (makeDummy keyEnv_example secretKey_example)) = None
    \<and> privateParams (snd (makeDummy keyEnv_example secretKey_example)) = None
    \<and> \<not> invariant_spec (snd (makeDummy keyEnv_example secretKey_example)))
   \<and> (decryptedIffPrivateParams (secretKey_new (Num 4))
    \<and> fst (secretKey_read keyEnv_example codecs_example config_example (secretKey_new (Num 4))
              secretKeyBytes_badChecksum) = Inl (Error ''Key checksum mismatch'')
    \<and> isEncrypted (snd (secretKey_read keyEnv_example codecs_example config_example
              (secretKey_new (Num 4)) secretKeyBytes_badChecksum)) = Some False
    \<and> privateParams (snd (secretKey_read keyEnv_example codecs_example config_example
              (secretKey_new (Num 4)) secretKeyBytes_badChecksum)) = None
    \<and> \<not> decryptedIffPrivateParams (snd (secretKey_read keyEnv_example codecs_example
              config_example (secretKey_new (Num 4)) secretKeyBytes_badChecksum)))
   \<and> (decryptedIffPrivateParams secretKey_unparseable_example
    \<and> fst (makeDummy keyEnv_example secretKey_unparseable_example) = Inr ()
    \<and> isEncrypted (snd (makeDummy keyEnv_example secretKey_unparseable_example)) = None
    \<and> privateParams (snd (makeDummy keyEnv_example secretKey_unparseable_example))
        = Some [(''k'', Uint8Array (replicate 32 6))]
    \<and> \<not> decryptedIffPrivateParams (snd (makeDummy keyEnv_example secretKey_unparseable_example)))
   \<and> (decryptedIffPrivateParams secretKey_example
    \<and> fst (secretKey_read keyEnv_example codecs_example config_example secretKey_example
              secretKeyBytes_unsupportedS2K) = Inr ()
    \<and> isEncrypted (snd (secretKey_read keyEnv_example codecs_example config_example
              secretKey_example secretKeyBytes_unsupportedS2K)) = Some True
    \<and> privateParams (snd (secretKey_read keyEnv_example codecs_example config_example
              secretKey_example secretKeyBytes_unsupportedS2K))
        = Some [(''k'', Uint8Array (replicate 32 6))]
    \<and> \<not> decryptedIffPrivateParams (snd (secretKey_read keyEnv_example codecs_example
              config_example secretKey_example secretKeyBytes_unsupportedS2K)))"
proof -
  have c1: "invariant_spec secretKey_example
    \<and> fst (makeDummy keyEnv_example secretKey_example) = Inr ()
    \<and> isEncrypted (snd (makeDummy keyEnv_example secretKey_example)) = None
    \<and> privateParams (snd (makeDummy keyEnv_example secretKey_example)) = None
    \<and> \<not> invariant_spec (snd (makeDummy keyEnv_example secretKey_example))"
    by (simp add: invariant_spec_def secretKey_example_def secretKey_new_def makeDummy_def
        isDummy_def isDecrypted_def clearPrivateParams_def isMissingSecretKeyMaterial_def
        keyEnv_example_def s2k_gnu_def s2k_example_def Let_def)
  have c2: "decryptedIffPrivateParams (secretKey_new (Num 4))
    \<and> fst (secretKey_read keyEnv_example codecs_example config_example (secretKey_new (Num 4))
              secretKeyBytes_badChecksum) = Inl (Error ''Key checksum mismatch'')
    \<and> isEncrypted (snd (secretKey_read keyEnv_example codecs_example config_example
              (secretKey_new (Num 4)) secretKeyBytes_badChecksum)) = Some False
    \<and> privateParams (snd (secretKey_read keyEnv_example codecs_example config_example
              (secretKey_new (Num 4)) secretKeyBytes_badChecksum)) = None
    \<and> \<not> decryptedIffPrivateParams (snd (secretKey_read keyEnv_example codecs_example
              config_example (secretKey_new (Num 4)) secretKeyBytes_badChecksum))"
    by (simp add: decryptedIffPrivateParams_def isDecrypted_def
        secretKeyBytes_badChecksum_def secretKey_read_def keyEnv_example_def
        secretKey_new_def Let_def at_def secretKey_read_try_def secretKey_read_catch_def
        secretKey_read_material_def secretKey_read_iv_def writeChecksum_def u8_def
        sum_list_replicate subarrayFrom_def subarray_def relIndex_def)
  have c3: "decryptedIffPrivateParams secretKey_unparseable_example
    \<and> fst (makeDummy keyEnv_example secretKey_unparseable_example) = Inr ()
    \<and> isEncrypted (snd (makeDummy keyEnv_example secretKey_unparseable_example)) = None
    \<and> privateParams (snd (makeDummy keyEnv_example secretKey_unparseable_example))
        = Some [(''k'', Uint8Array (replicate 32 6))]
    \<and> \<not> decryptedIffPrivateParams (snd (makeDummy keyEnv_example secretKey_unparseable_example))"
    by (simp add: decryptedIffPrivateParams_def secretKey_unparseable_example_def
        secretKey_example_def secretKey_new_def makeDummy_def
        isDummy_def isDecrypted_def clearPrivateParams_def isMissingSecretKeyMaterial_def
        keyEnv_example_def s2k_gnu_def s2k_example_def Let_def)
  have c4: "decryptedIffPrivateParams secretKey_example
    \<and> fst (secretKey_read keyEnv_example codecs_example config_example secretKey_example
              secretKeyBytes_unsupportedS2K) = Inr ()
    \<and> isEncrypted (snd (secretKey_read keyEnv_example codecs_example config_example
              secretKey_example secretKeyBytes_unsupportedS2K)) = Some True
    \<and> privateParams (snd (secretKey_read keyEnv_example codecs_example config_example
              secretKey_example secretKeyBytes_unsupportedS2K))
        = Some [(''k'', Uint8Array (replicate 32 6))]
    \<and> \<not> decryptedIffPrivateParams (snd (secretKey_read keyEnv_example codecs_example
              config_example secretKey_example secretKeyBytes_unsupportedS2K))"
    by (simp add: decryptedIffPrivateParams_def isDecrypted_def secretKey_example_def
        secretKeyBytes_unsupportedS2K_def secretKey_read_def keyEnv_example_def
        secretKey_new_def Let_def at_def secretKey_read_try_def secretKey_read_catch_def
        secretKey_read_material_def s2k_gnu_def s2k_example_def subarrayFrom_def
        subarray_def relIndex_def)
  show ?thesis using c1 c2 c3 c4 by blast
qed

text \<open>
  C8, amended: \<open>isEncrypted\<close> has three values (\<open>null\<close> on a new and on a dummy packet),
  and the invariant is that the packet is marked decrypted (\<open>isEncrypted === false\<close>)
  exactly when \<open>privateParams\<close> is not \<open>null\<close>. On a packet where it holds, it holds
  again after \<open>encrypt\<close>, \<open>decrypt\<close>, \<open>generate\<close> and \<open>clearPrivateParams\<close>, whether
  they return or throw; after \<open>makeDummy\<close> exactly when the packet was a dummy, or was
  not marked decrypted, or kept no unparseable key material; and after \<open>read\<close>, on a
  packet without private parameters, exactly when \<open>read\<close> returns or fails in the
  public-key part already (a \<open>read\<close> that throws in the secret part leaves the packet
  marked decrypted without private parameters).
\<close>

theorem secretKey_invariant_preserved:
  assumes "decryptedIffPrivateParams this"
  shows "decryptedIffPrivateParams (snd (secretKey_encrypt E C cfg this passphrase))
    \<and> decryptedIffPrivateParams (snd (secretKey_decrypt E C this passphrase))
    \<and> decryptedIffPrivateParams (snd (secretKey_generate G C this bits curveName curve symm))
    \<and> decryptedIffPrivateParams (snd (clearPrivateParams this))
    \<and> (decryptedIffPrivateParams (snd (makeDummy E this))
        = (isDummy this \<or> \<not> isDecrypted this \<or> unparseableKeyMaterial this = None))
    \<and> (privateParams this = None \<longrightarrow>
         decryptedIffPrivateParams (snd (secretKey_read E C cfg this bs))
         = (fst (secretKey_read E C cfg this bs) = Inr () \<or> isl (readPublicKey E bs cfg)))"
proof -
  have e: "decryptedIffPrivateParams (snd (secretKey_encrypt E C cfg this passphrase))"
    using assms secretKey_encrypt_keeps[of E C cfg this passphrase]
    by (auto simp: decryptedIffPrivateParams_def isDecrypted_def)
  show ?thesis
    using e secretKey_decrypt_keeps[OF assms, of E C passphrase]
      secretKey_generate_keeps[OF assms, of G C bits curveName curve symm]
      clearPrivateParams_keeps[OF assms] makeDummy_iff[OF assms, of E]
      secretKey_read_iff[OF assms, of E C cfg bs]
    by blast
qed

theorem secretKey_invariant_preserved_witness:
  "decryptedIffPrivateParams secretKey_example
   \<and> decryptedIffPrivateParams
        (snd (secretKey_encrypt keyEnv_example codecs_example config_example secretKey_example ''pw''))
   \<and> decryptedIffPrivateParams
        (snd (secretKey_decrypt keyEnv_example codecs_example secretKey_example ''pw''))
   \<and> decryptedIffPrivateParams
        (snd (secretKey_generate generators_example codecs_example secretKey_example 0 [] None
                Undefined))
   \<and> decryptedIffPrivateParams (snd (clearPrivateParams secretKey_example))
   \<and> unparseableKeyMaterial secretKey_example = None
   \<and> decryptedIffPrivateParams (snd (makeDummy keyEnv_example secretKey_example))
   \<and> decryptedIffPrivateParams (secretKey_new (Num 4))
   \<and> privateParams (secretKey_new (Num 4)) = None
   \<and> fst (secretKey_read keyEnv_example codecs_example config_example (secretKey_new (Num 4))
             secretKeyBytes_plain) = Inr ()
   \<and> decryptedIffPrivateParams
        (snd (secretKey_read keyEnv_example codecs_example config_example (secretKey_new (Num 4))
                secretKeyBytes_plain))
   \<and> fst (secretKey_read keyEnv_example codecs_example config_example (secretKey_new (Num 4))
             secretKeyBytes_unsupportedS2K) = Inr ()
   \<and> decryptedIffPrivateParams
        (snd (secretKey_read keyEnv_example codecs_example config_example (secretKey_new (Num 4))
                secretKeyBytes_unsupportedS2K))"
proof -
  have a: "decryptedIffPrivateParams secretKey_example"
    and u: "unparseableKeyMaterial secretKey_example = None"
    by (simp_all add: decryptedIffPrivateParams_def isDecrypted_def secretKey_example_def
        secretKey_new_def)
  have n: "decryptedIffPrivateParams (secretKey_new (Num 4))"
    and np: "privateParams (secretKey_new (Num 4)) = None"
    by (simp_all add: decryptedIffPrivateParams_def isDecrypted_def secretKey_new_def)
  have r1: "fst (secretKey_read keyEnv_example codecs_example config_example
                   (secretKey_new (Num 4)) secretKeyBytes_plain) = Inr ()"
    by (simp add: secretKeyBytes_plain_def secretKey_read_def keyEnv_example_def
        secretKey_new_def Let_def at_def secretKey_read_try_def secretKey_read_catch_def
        secretKey_read_material_def secretKey_read_iv_def writeChecksum_def
        parsePrivateKeyParams_def publicKey_defs getCurvePayloadSize_def
        readExactSubarray_def andThen_def codecs_example_def u8_def sum_list_replicate
        subarrayFrom_def subarray_def relIndex_def)
  have r2: "fst (secretKey_read keyEnv_example codecs_example config_example
                   (secretKey_new (Num 4)) secretKeyBytes_unsupportedS2K) = Inr ()"
    by (simp add: secretKeyBytes_unsupportedS2K_def secretKey_read_def keyEnv_example_def
        secretKey_new_def Let_def at_def secretKey_read_try_def secretKey_read_catch_def
        secretKey_read_material_def s2k_gnu_def s2k_example_def subarrayFrom_def
        subarray_def relIndex_def)
  show ?thesis
    using a u n np r1 r2
      secretKey_invariant_preserved[OF a, where E = keyEnv_example and C = codecs_example
        and cfg = config_example and passphrase = "''pw''" and G = generators_example
        and bits = 0 and curveName = "[]" and curve = None and symm = Undefined]
      secretKey_invariant_preserved[OF n, where E = keyEnv_example and C = codecs_example
        and cfg = config_example and bs = secretKeyBytes_plain]
      secretKey_invariant_preserved[OF n, where E = keyEnv_example and C = codecs_example
        and cfg = config_example and bs = secretKeyBytes_unsupportedS2K]
    by blast
qed

subsection \<open>Serialization of generated key parameters\<close>

lemma generateParams_mlkem:
  "generateParams G C (Num publicKey_pqc_mlkem_x25519) bits oid symm =
     andThen (kem_generate G (Num publicKey_pqc_mlkem_x25519)) (\<lambda>r.
       Inr ([property ''eccPublicKey'' (getProp r ''eccPublicKey''),
             property ''mlkemPublicKey'' (getProp r ''mlkemPublicKey'')],
            [property ''eccSecretKey'' (getProp r ''eccSecretKey''),
             property ''mlkemSeed'' (getProp r ''mlkemSeed''),
             property ''mlkemSecretKey'' (getProp r ''mlkemSecretKey'')]))"
  unfolding generateParams_def by (simp add: publicKey_defs)

lemma generateParams_x25519:
  "generateParams G C (Num publicKey_x25519) bits oid symm =
       andThen (ecdhX_generate G publicKey_x25519) (\<lambda>r.
       Inr ([property ''A'' (getProp r ''A'')], [property ''k'' (getProp r ''k'')]))"
  unfolding generateParams_def by (simp add: publicKey_defs)

lemma parsePrivateKeyParams_x25519:
  "parsePrivateKeyParams C (Num publicKey_x25519) bs pubParams =
       andThen (getCurvePayloadSize C publicKey_x25519 None) (\<lambda>payloadSize.
       andThen (readExactSubarray bs 0 payloadSize) (\<lambda>k.
       Inr (length k, [(''k'', Uint8Array k)])))"
  unfolding parsePrivateKeyParams_def by (simp add: publicKey_defs)

text \<open>
  What \<open>mlKem.generate\<close> returns has no property \<open>mlkemSeed\<close>, so the \<open>mlkemSeed\<close>
  that \<open>kem.generate\<close> and \<open>generateParams\<close> hand on is \<open>undefined\<close>, whatever the
  generators are, and \<open>serializeParams\<close> throws on it.
\<close>

lemma mlKem_generate_seed:
  "mlKem_generate G algo = Inr m \<Longrightarrow> getProp m ''mlkemSeed'' = None"
  unfolding mlKem_generate_def andThen_def
  by (auto simp: getProp_def split: if_splits sum.splits prod.splits)

lemma kem_generate_seed:
  assumes "kem_generate G algo = Inr r"
  shows "getProp r ''mlkemSeed'' = None"
proof -
  obtain ecc mlkem where m: "mlKem_generate G algo = Inr mlkem"
    and r: "r = [property ''eccPublicKey'' (getProp ecc ''eccPublicKey''),
          property ''eccSecretKey'' (getProp ecc ''eccSecretKey''),
          property ''mlkemPublicKey'' (getProp mlkem ''mlkemPublicKey''),
          property ''mlkemSeed'' (getProp mlkem ''mlkemSeed''),
          property ''mlkemSecretKey'' (getProp mlkem ''mlkemSecretKey'')]"
    using assms unfolding kem_generate_def andThen_def
    by (auto split: sum.splits)
  show ?thesis
    unfolding r using mlKem_generate_seed[OF m]
    by (simp add: getProp_def property_def)
qed

lemma generateParams_mlkem_seed:
  assumes "generateParams G C (Num publicKey_pqc_mlkem_x25519) bits oid symm = Inr (pub, priv)"
  shows "map_of priv ''mlkemSeed'' = Some UndefinedParam"
proof -
  obtain r where k: "kem_generate G (Num publicKey_pqc_mlkem_x25519) = Inr r"
    and p: "priv = [property ''eccSecretKey'' (getProp r ''eccSecretKey''),
             property ''mlkemSeed'' (getProp r ''mlkemSeed''),
             property ''mlkemSecretKey'' (getProp r ''mlkemSecretKey'')]"
    using assms unfolding generateParams_mlkem andThen_def by (auto split: sum.splits)
  show ?thesis unfolding p using kem_generate_seed[OF k] by (simp add: property_def)
qed

lemma serializeParams_mlkem_seed:
  assumes "generateParams G C (Num publicKey_pqc_mlkem_x25519) bits oid symm = Inr (pub, priv)"
  shows "serializeParams C (Num publicKey_pqc_mlkem_x25519) (Some priv)
           = Inl (TypeError ''Cannot read properties of undefined'')"
proof -
  obtain r where k: "kem_generate G (Num publicKey_pqc_mlkem_x25519) = Inr r"
    and p: "priv = [property ''eccSecretKey'' (getProp r ''eccSecretKey''),
             property ''mlkemSeed'' (getProp r ''mlkemSeed''),
             property ''mlkemSecretKey'' (getProp r ''mlkemSecretKey'')]"
    using assms unfolding generateParams_mlkem andThen_def by (auto split: sum.splits)
  have e: "serializeParam C (Num publicKey_pqc_mlkem_x25519) (''eccSecretKey'', v)
             = Inl (TypeError ''Cannot read properties of undefined'')
      \<or> (\<exists>b. serializeParam C (Num publicKey_pqc_mlkem_x25519) (''eccSecretKey'', v) = Inr b)"
    for v
    by (simp add: serializeParam_def excludedFields_def publicKey_defs split: param.splits)
  have s: "serializeParam C (Num publicKey_pqc_mlkem_x25519) (''mlkemSeed'', UndefinedParam)
      = Inl (TypeError ''Cannot read properties of undefined'')"
    by (simp add: serializeParam_def excludedFields_def publicKey_defs)
  show ?thesis unfolding p serializeParams_def
    using kem_generate_seed[OF k] s
      e[of "snd (property ''eccSecretKey'' (getProp r ''eccSecretKey''))"]
    by (auto simp: property_def andThen_def)
qed

text \<open>
  For X25519 the round trip holds once the generator gives a byte array of the size
  the parser reads.
\<close>

lemma roundtrip_x25519:
  assumes g: "generateParams G C (Num publicKey_x25519) bits oid symm = Inr (pub, priv)"
    and x: "ecdhX_generate G publicKey_x25519 = Inr r"
       "map_of r ''k'' = Some (Uint8Array k)" "length k = 32"
    and size: "ecdhX_getPayloadSize C publicKey_x25519 = Inr 32"
  shows "priv = [(''k'', Uint8Array k)]
    \<and> serializeParams C (Num publicKey_x25519) (Some priv) = Inr k
    \<and> parsePrivateKeyParams C (Num publicKey_x25519) k (Some pub) = Inr (32, priv)"
proof -
  have p: "priv = [(''k'', Uint8Array k)]"
    using g x unfolding generateParams_x25519
    by (auto simp: andThen_def getProp_def property_def)
  have s: "serializeParams C (Num publicKey_x25519) (Some priv) = Inr k"
    unfolding p
    by (simp add: serializeParams_def serializeParam_def excludedFields_def andThen_def
        algosWithNativeRepresentation_def publicKey_defs)
  have q: "parsePrivateKeyParams C (Num publicKey_x25519) k (Some pub) = Inr (32, priv)"
    using x(3) size unfolding parsePrivateKeyParams_x25519 p
    by (simp add: publicKey_defs getCurvePayloadSize_def andThen_def
        readExactSubarray_def subarray_def relIndex_def)
  show ?thesis using p s q by simp
qed

text \<open>
  C4: the private parameters that \<open>generateParams\<close> produces round-trip through
  \<open>serializeParams\<close> and \<open>parsePrivateKeyParams\<close>, and for ML-KEM + X25519 the
  serialization holds the seed \<open>mlkemSeed\<close>. In the code the parameters generated for
  ML-KEM + X25519 cannot be serialized at all: \<open>mlKem.generate\<close> returns the public
  and the secret key but no seed, \<open>mlkemSeed\<close> is \<open>undefined\<close> in the private
  parameters, and \<open>serializeParams\<close> throws a TypeError when it calls \<open>write\<close> on it.
\<close>

theorem generateParams_mlkem_not_serializable:
  "generateParams generators_example codecs_example (Num publicKey_pqc_mlkem_x25519) 0 None
     Undefined
   = Inr ([(''eccPublicKey'', Uint8Array (replicate 32 5)),
           (''mlkemPublicKey'', Uint8Array (replicate 1184 7))],
          [(''eccSecretKey'', Uint8Array (replicate 32 6)),
           (''mlkemSeed'', UndefinedParam),
           (''mlkemSecretKey'', Uint8Array (replicate 2400 9))])
   \<and> serializeParams codecs_example (Num publicKey_pqc_mlkem_x25519)
       (Some [(''eccSecretKey'', Uint8Array (replicate 32 6)),
              (''mlkemSeed'', UndefinedParam),
              (''mlkemSecretKey'', Uint8Array (replicate 2400 9))])
     = Inl (TypeError ''Cannot read properties of undefined'')"
  unfolding generateParams_mlkem
  by (simp add: publicKey_defs kem_generate_def mlKem_generate_def
      eccKem_generate_def andThen_def getProp_def property_def serializeParams_def
      serializeParam_def excludedFields_def generators_example_def
      algosWithNativeRepresentation_def)

end
